theory Spec2Isabelle
  imports Main "HOL-Library.Word"
begin

unbundle bit_operations_syntax

section \<open>Bytes, C strings and cursors\<close>

text \<open>
  The demangler of \<^verbatim>\<open>src/gnu_v2/cplus-dem.c\<close> reads a NUL-terminated byte string through a
  cursor \<^verbatim>\<open>const char **mangled\<close> and builds its output in growable \<^verbatim>\<open>string\<close> buffers.
  A C string is modelled by the list of its bytes before the terminating NUL; a pointer into
  it by the buffer together with an integer offset.  Offset \<open>length buf\<close> is the NUL itself.
  Reading at any other offset outside the buffer is the fault \<open>OverRead\<close>.  The other
  faults are an index outside a table (\<open>BadIndex\<close>), a value that \<^verbatim>\<open>atoi\<close> cannot represent
  (\<open>SignedOverflow\<close>), a negative size given to \<^verbatim>\<open>malloc\<close> (\<open>NegativeSize\<close>), and the end of
  the fuel that bounds the recursion of the model (\<open>OutOfFuel\<close>).
\<close>

datatype fault = OverRead | BadIndex | SignedOverflow | NegativeSize | OutOfFuel

type_synonym 'a res = "fault + 'a"

definition ebind :: "'a res \<Rightarrow> ('a \<Rightarrow> 'b res) \<Rightarrow> 'b res" where
  "ebind m f = (case m of Inl e \<Rightarrow> Inl e | Inr v \<Rightarrow> f v)"

definition NUL :: char where
  "NUL = CHR 0x00"

definition isdigit :: "char \<Rightarrow> bool" where
  "isdigit c = (48 \<le> (of_char c :: nat) \<and> (of_char c :: nat) \<le> 57)"

definition digit_val :: "char \<Rightarrow> nat" where
  "digit_val c = (of_char c :: nat) - 48"

subsection \<open>consume\_count\<close>

definition UT32_MAX :: "32 word" where
  "UT32_MAX = 0xffffffff"

text \<open>
  The loop of \<^verbatim>\<open>consume_count\<close>.  The argument is the C string at the cursor; the result is
  the returned \<^verbatim>\<open>int\<close> and the C string at the cursor afterwards.  The macros
  \<^verbatim>\<open>overflow_check_mul\<close> and \<^verbatim>\<open>overflow_check_add\<close> return \<open>-1\<close> from the function; the
  final \<^verbatim>\<open>return (count)\<close> converts the \<^verbatim>\<open>uint32_t\<close> to \<^verbatim>\<open>int\<close>.
\<close>

fun consume_count_loop :: "32 word \<Rightarrow> string \<Rightarrow> int \<times> string" where
  "consume_count_loop count [] = (sint count, [])"
| "consume_count_loop count (c # cs) =
     (if isdigit c then
        (if count > UT32_MAX div 10 then (- 1, c # cs)
         else
           (let count1 = count * 10;
                num = (word_of_nat (digit_val c) :: 32 word)
            in if count1 > UT32_MAX - num then (- 1, c # cs)
               else consume_count_loop (count1 + num) cs))
      else (sint count, c # cs))"

definition consume_count :: "string \<Rightarrow> int \<times> string" where
  "consume_count s =
     (case s of
        [] \<Rightarrow> (- 1, s)
      | c # cs \<Rightarrow> if \<not> isdigit c then (- 1, s) else consume_count_loop 0 s)"

text \<open>The numeric value of a string of decimal digits.\<close>

definition dec_value :: "string \<Rightarrow> nat" where
  "dec_value ds = foldl (\<lambda>a c. 10 * a + digit_val c) 0 ds"

subsection \<open>Cursors\<close>

record ptr =
  buf :: string
  off :: int

definition cstr_at :: "ptr \<Rightarrow> string res" where
  "cstr_at p =
     (if 0 \<le> off p \<and> off p \<le> int (length (buf p))
      then Inr (drop (nat (off p)) (buf p)) else Inl OverRead)"

definition adv :: "ptr \<Rightarrow> int \<Rightarrow> ptr" where
  "adv p n = p\<lparr>off := off p + n\<rparr>"

text \<open>\<open>hdc s\<close> is the byte \<^verbatim>\<open>*p\<close> when \<open>s\<close> is the C string at \<open>p\<close>.\<close>

fun hdc :: "string \<Rightarrow> char" where
  "hdc [] = NUL"
| "hdc (c # cs) = c"

text \<open>\<open>nthc s k\<close> is the byte \<^verbatim>\<open>p[k]\<close>, for \<open>k \<ge> 0\<close>: reading past the NUL is a fault.\<close>

definition nthc :: "string \<Rightarrow> nat \<Rightarrow> char res" where
  "nthc s k =
     (if k < length s then Inr (s ! k)
      else if k = length s then Inr NUL else Inl OverRead)"

text \<open>\<^verbatim>\<open>p[k]\<close> for a signed offset \<open>k\<close>: only the buffer and its NUL can be read.\<close>

definition rd :: "ptr \<Rightarrow> int \<Rightarrow> char res" where
  "rd p k =
     (let i = off p + k in
      if 0 \<le> i \<and> i < int (length (buf p)) then Inr (buf p ! nat i)
      else if i = int (length (buf p)) then Inr NUL else Inl OverRead)"

definition peek :: "ptr \<Rightarrow> char res" where
  "peek p = rd p 0"

definition strlen :: "ptr \<Rightarrow> int res" where
  "strlen p = ebind (cstr_at p) (\<lambda>s. Inr (int (length s)))"

text \<open>
  \<^verbatim>\<open>memcpy (dst, p, n)\<close> as the bytes it reads: \<open>n\<close> bytes starting at \<open>p\<close>, the terminating
  NUL included when \<open>n\<close> reaches it.  A negative \<open>n\<close> is converted to a huge \<^verbatim>\<open>size_t\<close>.
\<close>

definition memcpy_from :: "ptr \<Rightarrow> int \<Rightarrow> string res" where
  "memcpy_from p n =
     (if n = 0 then Inr []
      else ebind (cstr_at p) (\<lambda>s.
        if 0 \<le> n \<and> n \<le> int (length s) + 1 then Inr (take (nat n) (s @ [NUL]))
        else Inl OverRead))"

text \<open>The C string stored in a byte sequence: the bytes before the first NUL.\<close>

definition cstr :: "string \<Rightarrow> string" where
  "cstr s = takeWhile (\<lambda>c. c \<noteq> NUL) s"

definition consume_count_p :: "ptr \<Rightarrow> (int \<times> ptr) res" where
  "consume_count_p m =
     ebind (cstr_at m) (\<lambda>s.
       case consume_count s of
         (n, s') \<Rightarrow> Inr (n, adv m (int (length s) - int (length s'))))"

subsection \<open>consume\_count\_with\_underscores\<close>

definition consume_count_with_underscores :: "ptr \<Rightarrow> (int \<times> ptr) res" where
  "consume_count_with_underscores mangled =
     ebind (peek mangled) (\<lambda>c.
       if c = CHR ''_'' then
         (let mangled = adv mangled 1 in
          ebind (peek mangled) (\<lambda>c.
            if \<not> isdigit c then Inr (- 1, mangled)
            else
              ebind (consume_count_p mangled) (\<lambda>(idx, mangled).
              ebind (peek mangled) (\<lambda>c.
                if c \<noteq> CHR ''_'' then Inr (- 1, mangled)
                else Inr (idx, adv mangled 1)))))
       else if \<not> isdigit c then Inr (- 1, mangled)
       else Inr (int (digit_val c), adv mangled 1))"

subsection \<open>get\_count\<close>

definition INT_MAX :: int where
  "INT_MAX = 2147483647"

text \<open>
  The arithmetic of a C \<^verbatim>\<open>int\<close> that is not checked: the result is reduced to 32 bits, two's
  complement, as the machine does it.
\<close>

definition int32 :: "int \<Rightarrow> int" where
  "int32 x = sint (word_of_int x :: 32 word)"

text \<open>
  The \<^verbatim>\<open>do ... while\<close> loop of \<^verbatim>\<open>get_count\<close>, entered on a digit.  The accumulator is a
  C \<^verbatim>\<open>int\<close>, and neither \<^verbatim>\<open>n *= 10\<close> nor \<^verbatim>\<open>n += *p - '0'\<close> is checked: a long count
  wraps around.
\<close>

fun get_count_loop :: "int \<Rightarrow> string \<Rightarrow> int \<times> string" where
  "get_count_loop n [] = (n, [])"
| "get_count_loop n (c # cs) =
     (if isdigit c then get_count_loop (int32 (int32 (n * 10) + int (digit_val c))) cs
      else (n, c # cs))"

text \<open>Result: the return value, \<^verbatim>\<open>*count\<close> (0 when it is left unset) and the new cursor.\<close>

definition get_count :: "ptr \<Rightarrow> (int \<times> int \<times> ptr) res" where
  "get_count type =
     ebind (cstr_at type) (\<lambda>s.
       case s of
         [] \<Rightarrow> Inr (0, 0, type)
       | c # cs \<Rightarrow>
           if \<not> isdigit c then Inr (0, 0, type)
           else
             (let count = int (digit_val c); type = adv type 1 in
              if isdigit (hdc cs) then
                (case get_count_loop count cs of
                   (n, s') \<Rightarrow>
                     if hdc s' = CHR ''_''
                     then Inr (1, n, adv type (int (length cs) - int (length s') + 1))
                     else Inr (1, count, type))
              else Inr (1, count, type)))"

subsection \<open>Type qualifiers\<close>

definition TYPE_UNQUALIFIED :: int where "TYPE_UNQUALIFIED = 0"
definition TYPE_QUAL_CONST :: int where "TYPE_QUAL_CONST = 1"
definition TYPE_QUAL_VOLATILE :: int where "TYPE_QUAL_VOLATILE = 2"
definition TYPE_QUAL_RESTRICT :: int where "TYPE_QUAL_RESTRICT = 4"

definition code_for_qualifier :: "char \<Rightarrow> int" where
  "code_for_qualifier c =
     (if c = CHR ''C'' then TYPE_QUAL_CONST
      else if c = CHR ''V'' then TYPE_QUAL_VOLATILE
      else if c = CHR ''u'' then TYPE_QUAL_RESTRICT
      else TYPE_UNQUALIFIED)"

definition qualifier_string :: "int \<Rightarrow> string" where
  "qualifier_string type_quals =
     (if type_quals = 0 then []
      else if type_quals = 1 then ''const''
      else if type_quals = 2 then ''volatile''
      else if type_quals = 4 then ''__restrict''
      else if type_quals = 3 then ''const volatile''
      else if type_quals = 5 then ''const __restrict''
      else if type_quals = 6 then ''volatile __restrict''
      else if type_quals = 7 then ''const volatile __restrict''
      else [])"

definition demangle_qualifier :: "char \<Rightarrow> string" where
  "demangle_qualifier c = qualifier_string (code_for_qualifier c)"

subsection \<open>Library functions on C strings\<close>

text \<open>\<^verbatim>\<open>strncmp (s, lit, strlen (lit)) == 0\<close>.\<close>

definition starts_with :: "string \<Rightarrow> string \<Rightarrow> bool" where
  "starts_with s lit = (take (length lit) s = lit)"

text \<open>\<^verbatim>\<open>strchr (set, c) != NULL\<close>: the terminating NUL of \<open>set\<close> is found, too.\<close>

definition strchr_in :: "string \<Rightarrow> char \<Rightarrow> bool" where
  "strchr_in cs c = (c \<in> set cs \<or> c = NUL)"

definition cplus_markers :: string where
  "cplus_markers = ''$.$''"

text \<open>\<^verbatim>\<open>strcspn (s, set)\<close> and \<^verbatim>\<open>strspn (s, set)\<close>.\<close>

definition strcspn :: "string \<Rightarrow> string \<Rightarrow> nat" where
  "strcspn s cs = length (takeWhile (\<lambda>c. c \<notin> set cs) s)"

definition strspn :: "string \<Rightarrow> string \<Rightarrow> nat" where
  "strspn s cs = length (takeWhile (\<lambda>c. c \<in> set cs) s)"

text \<open>\<^verbatim>\<open>strpbrk (s, set)\<close>: the offset of the first byte of \<open>s\<close> that is in \<open>set\<close>, or NULL.\<close>

definition strpbrk :: "string \<Rightarrow> string \<Rightarrow> nat option" where
  "strpbrk s cs = (if strcspn s cs < length s then Some (strcspn s cs) else None)"

text \<open>\<^verbatim>\<open>strchr (s, c)\<close> for \<open>c\<close> other than NUL: the offset of the first \<open>c\<close>, or NULL.\<close>

definition strchr :: "string \<Rightarrow> char \<Rightarrow> nat option" where
  "strchr s c = strpbrk s [c]"

text \<open>
  \<^verbatim>\<open>mystrstr (s1, s2)\<close> for a non-empty literal \<open>s2\<close>: the offset of the first occurrence of
  \<open>s2\<close> in \<open>s1\<close>, or NULL.
\<close>

fun mystrstr :: "string \<Rightarrow> string \<Rightarrow> nat option" where
  "mystrstr [] s2 = None"
| "mystrstr (c # cs) s2 =
     (if starts_with (c # cs) s2 then Some 0
      else map_option Suc (mystrstr cs s2))"

subsection \<open>Printing numbers\<close>

fun show_nat :: "nat \<Rightarrow> string" where
  "show_nat n =
     (if n < 10 then [char_of (48 + n)]
      else show_nat (n div 10) @ [char_of (48 + n mod 10)])"

declare show_nat.simps [simp del]

text \<open>The conversion \<^verbatim>\<open>%d\<close>.\<close>

definition show_int :: "int \<Rightarrow> string" where
  "show_int i = (if i < 0 then CHR ''-'' # show_nat (nat (- i)) else show_nat (nat i))"

text \<open>\<^verbatim>\<open>snprintf (buf, sizeof (buf), "T%d", idx)\<close> with \<^verbatim>\<open>char buf[10]\<close>.\<close>

definition snprintf_T :: "int \<Rightarrow> string" where
  "snprintf_T idx = take 9 (CHR ''T'' # show_int idx)"

subsection \<open>Options\<close>

text \<open>
  Modelled from the spec: the option bits \<^verbatim>\<open>DMGL_*\<close>, the mask \<^verbatim>\<open>DMGL_STYLE_MASK\<close> and the
  tests \<^verbatim>\<open>AUTO_DEMANGLING\<close>, \<^verbatim>\<open>GNU_DEMANGLING\<close>, ... are macros of \<^verbatim>\<open>cplus-dem.h\<close>, which is
  not among the sources.  The spec lists the options (show-parameter-types, ANSI qualifiers,
  Java scope separator) and the dialect selector (auto, GNU, Lucid, ARM, HP aCC, EDG); the
  code only ever tests single bits of \<^verbatim>\<open>work->options\<close>, so the option word is a set of
  flags.
\<close>

datatype dmgl =
  DMGL_PARAMS | DMGL_ANSI | DMGL_JAVA
  | DMGL_AUTO | DMGL_GNU | DMGL_LUCID | DMGL_ARM | DMGL_HP | DMGL_EDG

definition DMGL_STYLE_MASK :: "dmgl set" where
  "DMGL_STYLE_MASK = {DMGL_AUTO, DMGL_GNU, DMGL_LUCID, DMGL_ARM, DMGL_HP, DMGL_EDG}"

text \<open>The initial value of the global \<^verbatim>\<open>current_demangling_style\<close>.\<close>

definition current_demangling_style :: "dmgl set" where
  "current_demangling_style = {DMGL_GNU}"

section \<open>The shared work structure\<close>

text \<open>
  \<^verbatim>\<open>struct work_stuff\<close>.  The three tables are lists, so that \<^verbatim>\<open>ntypes\<close>, \<^verbatim>\<open>numk\<close> and
  \<^verbatim>\<open>numb\<close> are their lengths; the allocated capacities \<^verbatim>\<open>typevec_size\<close>, \<^verbatim>\<open>ksize\<close> and
  \<^verbatim>\<open>bsize\<close> are left out (allocation never fails).  An entry of \<open>btypevec\<close> or of the template
  argument vector is \<open>None\<close> while it holds a NULL pointer; \<open>tmpl_argvec\<close> itself is \<open>None\<close>
  while the vector is NULL, and \<^verbatim>\<open>ntmpl_args\<close> is its length.
\<close>

record work_stuff =
  options :: "dmgl set"
  typevec :: "string list"
  ktypevec :: "string list"
  btypevec :: "string option list"
  constructor :: int
  destructor :: int
  static_type :: int
  temp_start :: int
  type_quals :: int
  dllimported :: int
  tmpl_argvec :: "string option list option"
  forgetting_types :: int
  previous_argument :: "string option"
  nrepeats :: int

definition ntypes :: "work_stuff \<Rightarrow> int" where
  "ntypes work = int (length (typevec work))"

definition numk :: "work_stuff \<Rightarrow> int" where
  "numk work = int (length (ktypevec work))"

definition numb :: "work_stuff \<Rightarrow> int" where
  "numb work = int (length (btypevec work))"

definition ntmpl_args :: "work_stuff \<Rightarrow> int" where
  "ntmpl_args work = (case tmpl_argvec work of None \<Rightarrow> 0 | Some v \<Rightarrow> int (length v))"

text \<open>\<^verbatim>\<open>memset ((char *) work, 0, sizeof (work))\<close> followed by the assignment of the options.\<close>

definition work_init :: "dmgl set \<Rightarrow> work_stuff" where
  "work_init opts =
     \<lparr> options = opts, typevec = [], ktypevec = [], btypevec = [],
       constructor = 0, destructor = 0, static_type = 0, temp_start = 0,
       type_quals = 0, dllimported = 0, tmpl_argvec = None,
       forgetting_types = 0, previous_argument = None, nrepeats = 0 \<rparr>"

definition PRINT_ANSI_QUALIFIERS :: "work_stuff \<Rightarrow> bool" where
  "PRINT_ANSI_QUALIFIERS work = (DMGL_ANSI \<in> options work)"

definition PRINT_ARG_TYPES :: "work_stuff \<Rightarrow> bool" where
  "PRINT_ARG_TYPES work = (DMGL_PARAMS \<in> options work)"

definition AUTO_DEMANGLING :: "work_stuff \<Rightarrow> bool" where
  "AUTO_DEMANGLING work = (DMGL_AUTO \<in> options work)"

definition GNU_DEMANGLING :: "work_stuff \<Rightarrow> bool" where
  "GNU_DEMANGLING work = (DMGL_GNU \<in> options work)"

definition LUCID_DEMANGLING :: "work_stuff \<Rightarrow> bool" where
  "LUCID_DEMANGLING work = (DMGL_LUCID \<in> options work)"

definition ARM_DEMANGLING :: "work_stuff \<Rightarrow> bool" where
  "ARM_DEMANGLING work = (DMGL_ARM \<in> options work)"

definition HP_DEMANGLING :: "work_stuff \<Rightarrow> bool" where
  "HP_DEMANGLING work = (DMGL_HP \<in> options work)"

definition EDG_DEMANGLING :: "work_stuff \<Rightarrow> bool" where
  "EDG_DEMANGLING work = (DMGL_EDG \<in> options work)"

definition SCOPE_STRING :: "work_stuff \<Rightarrow> string" where
  "SCOPE_STRING work = (if DMGL_JAVA \<in> options work then ''.'' else ''::'')"

subsection \<open>The string package\<close>

text \<open>
  A \<^verbatim>\<open>string\<close> buffer is the list of the bytes between its \<^verbatim>\<open>b\<close> and \<^verbatim>\<open>p\<close>.
  \<^verbatim>\<open>string_append\<close> and \<^verbatim>\<open>string_prepend\<close> take a C string and stop at its NUL.
\<close>

definition string_append :: "string \<Rightarrow> string \<Rightarrow> string" where
  "string_append p s = p @ cstr s"

definition string_appends :: "string \<Rightarrow> string \<Rightarrow> string" where
  "string_appends p s = p @ s"

definition string_prepend :: "string \<Rightarrow> string \<Rightarrow> string" where
  "string_prepend p s = cstr s @ p"

definition string_prepends :: "string \<Rightarrow> string \<Rightarrow> string" where
  "string_prepends p s = s @ p"

text \<open>Appending or prepending a table entry that may be a NULL pointer.\<close>

definition string_append_opt :: "string \<Rightarrow> string option \<Rightarrow> string" where
  "string_append_opt p s = (case s of None \<Rightarrow> p | Some t \<Rightarrow> string_append p t)"

text \<open>\<^verbatim>\<open>string_appendn\<close> and \<^verbatim>\<open>string_prependn\<close> with a source in the input.\<close>

definition string_appendn :: "string \<Rightarrow> ptr \<Rightarrow> int \<Rightarrow> string res" where
  "string_appendn p s n = ebind (memcpy_from s n) (\<lambda>bs. Inr (p @ bs))"

definition string_prependn :: "string \<Rightarrow> ptr \<Rightarrow> int \<Rightarrow> string res" where
  "string_prependn p s n = ebind (memcpy_from s n) (\<lambda>bs. Inr (bs @ p))"

definition APPEND_BLANK :: "string \<Rightarrow> string" where
  "APPEND_BLANK str = (if str \<noteq> [] then string_append str '' '' else str)"

definition PREPEND_BLANK :: "string \<Rightarrow> string" where
  "PREPEND_BLANK str = (if str \<noteq> [] then string_prepend str '' '' else str)"

text \<open>\<^verbatim>\<open>str->b[k]\<close> of a buffer that has been NUL-terminated at \<^verbatim>\<open>p\<close>.\<close>

definition byte_at :: "string \<Rightarrow> nat \<Rightarrow> char" where
  "byte_at s k = (if k < length s then s ! k else NUL)"

subsection \<open>Remembering types\<close>

definition forget_types :: "work_stuff \<Rightarrow> work_stuff" where
  "forget_types work = work\<lparr>typevec := []\<rparr>"

definition forget_B_and_K_types :: "work_stuff \<Rightarrow> work_stuff" where
  "forget_B_and_K_types work = work\<lparr>ktypevec := [], btypevec := []\<rparr>"

text \<open>
  \<^verbatim>\<open>remember_type (work, start, len)\<close> copies \<open>len\<close> bytes of the input and terminates
  them; the entry is read back as a C string.
\<close>

definition remember_type :: "work_stuff \<Rightarrow> ptr \<Rightarrow> int \<Rightarrow> work_stuff res" where
  "remember_type work start len =
     (if forgetting_types work \<noteq> 0 then Inr work
      else ebind (memcpy_from start len) (\<lambda>tem.
        Inr (work\<lparr>typevec := typevec work @ [cstr tem]\<rparr>)))"

definition remember_Ktype :: "work_stuff \<Rightarrow> string \<Rightarrow> work_stuff" where
  "remember_Ktype work s = work\<lparr>ktypevec := ktypevec work @ [s]\<rparr>"

definition register_Btype :: "work_stuff \<Rightarrow> int \<times> work_stuff" where
  "register_Btype work = (numb work, work\<lparr>btypevec := btypevec work @ [None]\<rparr>)"

definition remember_Btype :: "work_stuff \<Rightarrow> string \<Rightarrow> int \<Rightarrow> work_stuff res" where
  "remember_Btype work s index =
     (if 0 \<le> index \<and> index < numb work
      then Inr (work\<lparr>btypevec := (btypevec work)[nat index := Some s]\<rparr>)
      else Inl BadIndex)"

text \<open>Reading \<^verbatim>\<open>vec[idx]\<close>: an index outside the vector is the fault \<open>BadIndex\<close>.\<close>

definition vec_at :: "'a list \<Rightarrow> int \<Rightarrow> 'a res" where
  "vec_at v idx =
     (if 0 \<le> idx \<and> idx < int (length v) then Inr (v ! nat idx) else Inl BadIndex)"

subsection \<open>The operator table\<close>

definition optable :: "(string \<times> string) list" where
  "optable =
   [(''nw'', '' new''), (''dl'', '' delete''), (''new'', '' new''), (''delete'', '' delete''),
    (''vn'', '' new []''), (''vd'', '' delete []''), (''as'', ''=''), (''ne'', ''!=''),
    (''eq'', ''==''), (''ge'', ''>=''), (''gt'', ''>''), (''le'', ''<=''), (''lt'', ''<''),
    (''plus'', ''+''), (''pl'', ''+''), (''apl'', ''+=''), (''minus'', ''-''), (''mi'', ''-''),
    (''ami'', ''-=''), (''mult'', ''*''), (''ml'', ''*''), (''amu'', ''*=''), (''aml'', ''*=''),
    (''convert'', ''+''), (''negate'', ''-''), (''trunc_mod'', ''%''), (''md'', ''%''),
    (''amd'', ''%=''), (''trunc_div'', ''/''), (''dv'', ''/''), (''adv'', ''/=''),
    (''truth_andif'', ''&&''), (''aa'', ''&&''), (''truth_orif'', ''||''), (''oo'', ''||''),
    (''truth_not'', ''!''), (''nt'', ''!''), (''postincrement'', ''++''), (''pp'', ''++''),
    (''postdecrement'', ''--''), (''mm'', ''--''), (''bit_ior'', ''|''), (''or'', ''|''),
    (''aor'', ''|=''), (''bit_xor'', ''^''), (''er'', ''^''), (''aer'', ''^=''),
    (''bit_and'', ''&''), (''ad'', ''&''), (''aad'', ''&=''), (''bit_not'', ''~''),
    (''co'', ''~''), (''call'', ''()''), (''cl'', ''()''), (''alshift'', ''<<''),
    (''ls'', ''<<''), (''als'', ''<<=''), (''arshift'', ''>>''), (''rs'', ''>>''),
    (''ars'', ''>>=''), (''component'', ''->''), (''pt'', ''->''), (''rf'', ''->''),
    (''indirect'', ''*''), (''method_call'', ''->()''), (''addr'', ''&''), (''array'', ''[]''),
    (''vc'', ''[]''), (''compound'', '', ''), (''cm'', '', ''), (''cond'', ''?:''),
    (''cn'', ''?:''), (''max'', ''>?''), (''mx'', ''>?''), (''min'', ''<?''), (''mn'', ''<?''),
    (''nop'', []), (''rm'', ''->*''), (''sz'', ''sizeof '')]"

text \<open>
  The loops over \<^verbatim>\<open>optable\<close>: the first entry whose \<^verbatim>\<open>in\<close> is the whole of \<open>name\<close>, and the
  first entry whose \<^verbatim>\<open>in\<close> is a prefix of \<open>s\<close>.
\<close>

definition optable_exact :: "string \<Rightarrow> (string \<times> string) option" where
  "optable_exact name = find (\<lambda>e. fst e = name) optable"

definition optable_prefix :: "string \<Rightarrow> (string \<times> string) option" where
  "optable_prefix s = find (\<lambda>e. starts_with s (fst e)) optable"

section \<open>Productions without recursion\<close>

subsection \<open>arm\_pt\<close>

text \<open>
  One attempt of \<^verbatim>\<open>arm_pt\<close> at an anchor found at offset \<open>a\<close> of the C string \<open>s\<close> at
  \<^verbatim>\<open>mangled\<close>, with a marker of \<open>k\<close> bytes: \<open>Some (0, _, _)\<close> and \<open>Some (1, a, args)\<close> are
  the two returns, \<open>None\<close> falls through.  The offsets are relative to \<^verbatim>\<open>mangled\<close>.
\<close>

definition arm_pt_at :: "string \<Rightarrow> int \<Rightarrow> nat \<Rightarrow> nat \<Rightarrow> (int \<times> int \<times> int) option" where
  "arm_pt_at s n a k =
     (let s1 = drop (a + k) s in
      case consume_count s1 of
        (len, s2) \<Rightarrow>
          (let args = int (a + k) + (int (length s1) - int (length s2)) in
           if len = - 1 then Some (0, int a, args)
           else if args + len = n \<and> hdc s2 = CHR ''_'' then Some (1, int a, args + 1)
           else None))"

definition arm_pt :: "work_stuff \<Rightarrow> string \<Rightarrow> int \<Rightarrow> int \<times> int \<times> int" where
  "arm_pt work s n =
     (let first =
        (if ARM_DEMANGLING work \<or> HP_DEMANGLING work then
           (case mystrstr s ''__pt__'' of None \<Rightarrow> None | Some a \<Rightarrow> arm_pt_at s n a 6)
         else None)
      in case first of
        Some r \<Rightarrow> r
      | None \<Rightarrow>
          (if AUTO_DEMANGLING work \<or> EDG_DEMANGLING work then
             (let anchor =
                (case mystrstr s ''__tm__'' of Some a \<Rightarrow> Some a
                 | None \<Rightarrow>
                     (case mystrstr s ''__ps__'' of Some a \<Rightarrow> Some a
                      | None \<Rightarrow> mystrstr s ''__pt__''))
              in case anchor of
                Some a \<Rightarrow> (case arm_pt_at s n a 6 of Some r \<Rightarrow> r | None \<Rightarrow> (0, 0, 0))
              | None \<Rightarrow>
                  (case mystrstr s ''__S'' of
                     Some a \<Rightarrow> (case arm_pt_at s n a 3 of Some r \<Rightarrow> r | None \<Rightarrow> (0, 0, 0))
                   | None \<Rightarrow> (0, 0, 0)))
           else (0, 0, 0)))"

subsection \<open>snarf\_numeric\_literal and do\_hpacc\_template\_const\_value\<close>

definition snarf_numeric_literal :: "ptr \<Rightarrow> string \<Rightarrow> (int \<times> ptr \<times> string) res" where
  "snarf_numeric_literal args arg =
     ebind (cstr_at args) (\<lambda>s.
       let (args, arg, s) =
             (if hdc s = CHR ''-'' then (adv args 1, string_append arg ''-'', tl s)
              else if hdc s = CHR ''+'' then (adv args 1, arg, tl s)
              else (args, arg, s))
       in if \<not> isdigit (hdc s) then Inr (0, args, arg)
          else
            (let ds = takeWhile isdigit s
             in Inr (1, adv args (int (length ds)), string_appends arg ds)))"

definition do_hpacc_template_const_value :: "ptr \<Rightarrow> string \<Rightarrow> (int \<times> ptr \<times> string) res" where
  "do_hpacc_template_const_value mangled result =
     ebind (cstr_at mangled) (\<lambda>s.
       if hdc s \<noteq> CHR ''U'' \<and> hdc s \<noteq> CHR ''S'' then Inr (0, mangled, result)
       else
         (let unsigned_const = (hdc s = CHR ''U'');
              mangled = adv mangled 1;
              s = tl s
          in if hdc s = CHR ''M''
             then Inr (1, adv mangled 1, string_append result ''-2147483648'')
             else if hdc s \<noteq> CHR ''N'' \<and> hdc s \<noteq> CHR ''P'' then Inr (0, mangled, result)
             else
               (let result = (if hdc s = CHR ''N'' then string_append result ''-'' else result);
                    mangled = adv mangled 1;
                    s = tl s
                in if \<not> isdigit (hdc s) then Inr (0, mangled, result)
                   else
                     (let ds = takeWhile isdigit s;
                          result = string_appends result ds;
                          result =
                            (if unsigned_const then string_append result ''U'' else result)
                      in Inr (1, adv mangled (int (length ds)), result)))))"

subsection \<open>The width of a fixed-width integer type\<close>

definition isxdigit :: "char \<Rightarrow> bool" where
  "isxdigit c =
     (isdigit c \<or> (97 \<le> (of_char c :: nat) \<and> (of_char c :: nat) \<le> 102)
      \<or> (65 \<le> (of_char c :: nat) \<and> (of_char c :: nat) \<le> 70))"

definition xdigit_val :: "char \<Rightarrow> nat" where
  "xdigit_val c =
     (if isdigit c then digit_val c
      else if 97 \<le> (of_char c :: nat) then (of_char c :: nat) - 87
      else (of_char c :: nat) - 55)"

definition isspace :: "char \<Rightarrow> bool" where
  "isspace c = ((of_char c :: nat) = 32 \<or> (9 \<le> (of_char c :: nat) \<and> (of_char c :: nat) \<le> 13))"

text \<open>
  \<^verbatim>\<open>sscanf (buf, "%x", &dec)\<close> with \<^verbatim>\<open>dec\<close> initially 0: white space, an optional sign, an
  optional \<^verbatim>\<open>0x\<close>, hexadecimal digits; the value is stored through an \<^verbatim>\<open>unsigned *\<close> and
  read back as an \<^verbatim>\<open>int\<close>.  Without a digit nothing is stored.
\<close>

definition sscanf_x :: "string \<Rightarrow> int" where
  "sscanf_x b =
     (let s = dropWhile isspace b;
          neg = (hdc s = CHR ''-'');
          s = (if hdc s = CHR ''-'' \<or> hdc s = CHR ''+'' then tl s else s);
          s = (if hdc s = CHR ''0'' \<and> (hdc (tl s) = CHR ''x'' \<or> hdc (tl s) = CHR ''X'')
                  \<and> isxdigit (hdc (tl (tl s)))
               then tl (tl s) else s);
          ds = takeWhile isxdigit s;
          v = int (foldl (\<lambda>a c. 16 * a + xdigit_val c) 0 ds)
      in if ds = [] then 0
         else sint (word_of_int (if neg then - v else v) :: 32 word))"

section \<open>The grammar engine\<close>

text \<open>
  The productions of the grammar call each other recursively, and nothing in the code bounds
  the recursion.  Each C function is therefore a definition that takes, as its first
  argument \<open>F\<close>, the functions its calls are dispatched to (\<open>call_do_type F\<close> for a call of
  \<^verbatim>\<open>do_type\<close>); a loop that calls productions is a function of its own, whose next iteration
  is one more such call.  \<open>level n\<close> ties the knot with \<open>n\<close> units of fuel: at level 0 every
  call is the fault \<open>OutOfFuel\<close>, at level \<open>n + 1\<close> the calls go to level \<open>n\<close>.  A run that
  terminates in C is one that, with enough fuel, ends without \<open>OutOfFuel\<close>.

  A function that updates \<^verbatim>\<open>*work\<close>, \<^verbatim>\<open>*mangled\<close> and a \<^verbatim>\<open>string\<close> returns them after its
  return value.
\<close>

type_synonym gret = "int \<times> work_stuff \<times> ptr \<times> string"
type_synonym gfun = "work_stuff \<Rightarrow> ptr \<Rightarrow> string \<Rightarrow> gret res"

text \<open>
  The variables of the loop of \<^verbatim>\<open>demangle_signature\<close>: \<^verbatim>\<open>success\<close>, \<^verbatim>\<open>func_done\<close>, \<^verbatim>\<open>expect_func\<close>,
  \<^verbatim>\<open>expect_return_type\<close> and \<^verbatim>\<open>oldmangled\<close>; of the loop of \<^verbatim>\<open>do_type\<close>: \<^verbatim>\<open>tk\<close>, \<^verbatim>\<open>decl\<close> and
  the caller's cursor, once \<^verbatim>\<open>mangled\<close> has been redirected to \<^verbatim>\<open>remembered_type\<close>.
\<close>

type_synonym sig_vars = "int \<times> int \<times> int \<times> int \<times> ptr option"
type_synonym type_vars = "int \<times> string \<times> ptr option"

record funs =
  call_cplus_demangle_v2 ::
    "string option \<Rightarrow> dmgl set \<Rightarrow> string option res"
  call_internal_cplus_demangle ::
    "work_stuff \<Rightarrow> ptr option \<Rightarrow> (string option \<times> work_stuff) res"
  call_demangle_signature ::
    "gfun"
  call_demangle_signature_loop ::
    "sig_vars \<Rightarrow> work_stuff \<Rightarrow> ptr \<Rightarrow> string \<Rightarrow> (sig_vars \<times> work_stuff \<times> ptr \<times> string) res"
  call_demangle_template_template_parm ::
    "gfun"
  call_demangle_template_template_parm_loop ::
    "int \<Rightarrow> int \<Rightarrow> int \<Rightarrow> int \<Rightarrow> gfun"
  call_demangle_integral_value ::
    "gfun"
  call_demangle_integral_value_loop ::
    "int \<Rightarrow> int \<Rightarrow> gfun"
  call_demangle_template_value_parm ::
    "work_stuff \<Rightarrow> ptr \<Rightarrow> string \<Rightarrow> int \<Rightarrow> gret res"
  call_demangle_template ::
    "work_stuff \<Rightarrow> ptr \<Rightarrow> string \<Rightarrow> string option \<Rightarrow> int \<Rightarrow> int \<Rightarrow> (int \<times> work_stuff \<times> ptr \<times> string \<times> string option) res"
  call_demangle_template_loop ::
    "int \<Rightarrow> int \<Rightarrow> int \<Rightarrow> int \<Rightarrow> int \<Rightarrow> gfun"
  call_demangle_arm_hp_template ::
    "work_stuff \<Rightarrow> ptr \<Rightarrow> int \<Rightarrow> string \<Rightarrow> (work_stuff \<times> ptr \<times> string) res"
  call_hpacc_template_args_loop ::
    "work_stuff \<Rightarrow> ptr \<Rightarrow> string \<Rightarrow> (work_stuff \<times> ptr \<times> string) res"
  call_cfront_template_args_loop ::
    "ptr \<Rightarrow> work_stuff \<Rightarrow> ptr \<Rightarrow> string \<Rightarrow> (work_stuff \<times> ptr \<times> string) res"
  call_demangle_class_name ::
    "gfun"
  call_demangle_class ::
    "gfun"
  call_demangle_prefix ::
    "gfun"
  call_gnu_special ::
    "gfun"
  call_gnu_special_vtable_loop ::
    "int \<Rightarrow> gfun"
  call_recursively_demangle ::
    "work_stuff \<Rightarrow> ptr \<Rightarrow> string \<Rightarrow> int \<Rightarrow> (work_stuff \<times> ptr \<times> string) res"
  call_arm_special ::
    "ptr \<Rightarrow> string \<Rightarrow> (int \<times> ptr \<times> string) res"
  call_arm_special_check_loop ::
    "ptr \<Rightarrow> int res"
  call_arm_special_loop ::
    "ptr \<Rightarrow> string \<Rightarrow> (int \<times> ptr \<times> string) res"
  call_demangle_qualified ::
    "work_stuff \<Rightarrow> ptr \<Rightarrow> string \<Rightarrow> int \<Rightarrow> int \<Rightarrow> gret res"
  call_demangle_qualified_loop ::
    "int \<Rightarrow> int \<Rightarrow> work_stuff \<Rightarrow> ptr \<Rightarrow> string \<Rightarrow> string \<Rightarrow> (int \<times> work_stuff \<times> ptr \<times> string \<times> string) res"
  call_do_type ::
    "gfun"
  call_do_type_loop ::
    "type_vars \<Rightarrow> work_stuff \<Rightarrow> ptr \<Rightarrow> (int \<times> type_vars \<times> work_stuff \<times> ptr) res"
  call_demangle_fund_type ::
    "gfun"
  call_do_hpacc_template_literal ::
    "gfun"
  call_do_arg ::
    "gfun"
  call_demangle_args ::
    "gfun"
  call_demangle_args_loop ::
    "int \<Rightarrow> work_stuff \<Rightarrow> ptr \<Rightarrow> string \<Rightarrow> (int \<times> int \<times> work_stuff \<times> ptr \<times> string) res"
  call_demangle_args_repeat_loop ::
    "int \<Rightarrow> int \<Rightarrow> int \<Rightarrow> work_stuff \<Rightarrow> string \<Rightarrow> (int \<times> int \<times> work_stuff \<times> string) res"
  call_demangle_nested_args ::
    "gfun"
  call_demangle_function_name ::
    "work_stuff \<Rightarrow> ptr \<Rightarrow> string \<Rightarrow> ptr \<Rightarrow> (work_stuff \<times> ptr \<times> string) res"

definition tk_none :: int where "tk_none = 0"
definition tk_pointer :: int where "tk_pointer = 1"
definition tk_reference :: int where "tk_reference = 2"
definition tk_integral :: int where "tk_integral = 3"
definition tk_bool :: int where "tk_bool = 4"
definition tk_char :: int where "tk_char = 5"
definition tk_real :: int where "tk_real = 6"

subsection \<open>Template parameters\<close>

text \<open>\<^verbatim>\<open>work->tmpl_argvec[i] = ...\<close> with a copy of \<open>s\<close>.\<close>

definition set_tmpl_arg :: "work_stuff \<Rightarrow> int \<Rightarrow> string \<Rightarrow> work_stuff res" where
  "set_tmpl_arg work i s =
     (case tmpl_argvec work of
        None \<Rightarrow> Inl BadIndex
      | Some v \<Rightarrow>
          if 0 \<le> i \<and> i < int (length v)
          then Inr (work\<lparr>tmpl_argvec := Some (v[nat i := Some s])\<rparr>)
          else Inl BadIndex)"

text \<open>
  The reference to a template parameter after its code \<^verbatim>\<open>'X'\<close>, \<^verbatim>\<open>'Y'\<close> or \<^verbatim>\<open>'z'\<close>: two
  counts, the first one the index.  \<open>None\<close> is the failure of the test; otherwise the text of
  the argument, or \<^verbatim>\<open>T<index>\<close> when there is no vector.
\<close>

definition tmpl_parm_ref :: "work_stuff \<Rightarrow> ptr \<Rightarrow> (string option \<times> ptr) res" where
  "tmpl_parm_ref work mangled =
     ebind (consume_count_with_underscores mangled) (\<lambda>(idx, mangled).
       if idx = - 1 \<or> (tmpl_argvec work \<noteq> None \<and> idx \<ge> ntmpl_args work)
       then Inr (None, mangled)
       else
         ebind (consume_count_with_underscores mangled) (\<lambda>(idx2, mangled).
           if idx2 = - 1 then Inr (None, mangled)
           else
             (case tmpl_argvec work of
                Some v \<Rightarrow>
                  ebind (vec_at v idx) (\<lambda>a. Inr (Some (string_append_opt [] a), mangled))
              | None \<Rightarrow> Inr (Some (snprintf_T idx), mangled))))"

subsection \<open>do\_type\<close>

text \<open>The codes \<^verbatim>\<open>'C'\<close>, \<^verbatim>\<open>'V'\<close> and \<^verbatim>\<open>'u'\<close> of the type qualifiers.\<close>

definition is_qualifier :: "char \<Rightarrow> bool" where
  "is_qualifier c = (c = CHR ''C'' \<or> c = CHR ''V'' \<or> c = CHR ''u'')"

text \<open>
  A pointer or reference that becomes an array or a function:
  \<^verbatim>\<open>if (!STRING_EMPTY (&decl) && (decl.b[0] == '*' || decl.b[0] == '&'))\<close> the declarator is
  put in parentheses.
\<close>

definition paren_decl :: "string \<Rightarrow> string" where
  "paren_decl decl =
     (if decl \<noteq> [] \<and> (hd decl = CHR ''*'' \<or> hd decl = CHR ''&'')
      then string_append (string_prepend decl ''('') '')'' else decl)"

text \<open>
  Case \<^verbatim>\<open>'M'\<close> of the loop of \<^verbatim>\<open>do_type\<close>, from after \<^verbatim>\<open>(*mangled)++\<close> to its \<^verbatim>\<open>break\<close>;
  \<^verbatim>\<open>member\<close> is always 1 there.  The first part parses the class; its result 0 stands for
  \<^verbatim>\<open>success = 0; break\<close>.
\<close>

definition do_type_member_class :: "funs \<Rightarrow> gfun" where
  "do_type_member_class F work mangled decl =
     ebind (peek mangled) (\<lambda>c.
       if isdigit c then
         ebind (consume_count_p mangled) (\<lambda>(n, mangled).
         ebind (strlen mangled) (\<lambda>len.
           if n = - 1 \<or> len < n then Inr (0, work, mangled, decl)
           else
             ebind (string_prependn decl mangled n) (\<lambda>decl.
               Inr (1, work, adv mangled n, decl))))
       else if c = CHR ''X'' \<or> c = CHR ''Y'' then
         ebind (call_do_type F work mangled []) (\<lambda>(r, work, mangled, temp).
           Inr (1, work, mangled, string_prepends decl temp))
       else if c = CHR ''t'' then
         ebind (call_demangle_template F work mangled [] None 1 1)
           (\<lambda>(success, work, mangled, temp, trawname).
              if success \<noteq> 0 then Inr (1, work, mangled, string_prepends decl temp)
              else Inr (0, work, mangled, decl))
       else Inr (0, work, mangled, decl))"

definition do_type_member ::
  "funs \<Rightarrow> type_vars \<Rightarrow> work_stuff \<Rightarrow> ptr \<Rightarrow> (int \<times> type_vars \<times> work_stuff \<times> ptr) res" where
  "do_type_member F vars work mangled =
     (case vars of (tk, decl, outer) \<Rightarrow>
      let decl = string_append decl '')'';
          decl = string_prepend decl (SCOPE_STRING work)
      in
      ebind (do_type_member_class F work mangled decl) (\<lambda>(ok, work, mangled, decl).
        if ok = 0 then Inr (0, (tk, decl, outer), work, mangled)
        else
          (let decl = string_prepend decl ''('' in
           ebind (peek mangled) (\<lambda>c.
             let type_quals =
                   (if is_qualifier c then TYPE_UNQUALIFIED OR code_for_qualifier c
                    else TYPE_UNQUALIFIED);
                 mangled = (if is_qualifier c then adv mangled 1 else mangled)
             in
             ebind (peek mangled) (\<lambda>c.
               let mangled = adv mangled 1 in
               if c \<noteq> CHR ''F'' then Inr (0, (tk, decl, outer), work, mangled)
               else
                 ebind (call_demangle_nested_args F work mangled decl)
                   (\<lambda>(ok, work, mangled, decl).
                      if ok = 0 then Inr (0, (tk, decl, outer), work, mangled)
                      else
                        ebind (peek mangled) (\<lambda>c.
                          if c \<noteq> CHR ''_'' then Inr (0, (tk, decl, outer), work, mangled)
                          else
                            (let mangled = adv mangled 1;
                                 decl =
                                   (if PRINT_ANSI_QUALIFIERS work
                                       \<and> type_quals \<noteq> TYPE_UNQUALIFIED
                                    then string_append (APPEND_BLANK decl)
                                           (qualifier_string type_quals)
                                    else decl)
                             in call_do_type_loop F (tk, decl, outer) work mangled))))))))"

text \<open>
  The loop \<^verbatim>\<open>while (success && !done)\<close> of \<^verbatim>\<open>do_type\<close>.  It returns \<open>success\<close> and the
  variables when the loop is left.  After case \<^verbatim>\<open>'T'\<close> the local \<^verbatim>\<open>mangled\<close> points to
  \<^verbatim>\<open>remembered_type\<close>: the cursor of the caller stays where it was, and is kept in \<open>outer\<close>.
\<close>

definition do_type_loop ::
  "funs \<Rightarrow> type_vars \<Rightarrow> work_stuff \<Rightarrow> ptr \<Rightarrow> (int \<times> type_vars \<times> work_stuff \<times> ptr) res" where
  "do_type_loop F vars work mangled =
     (case vars of (tk, decl, outer) \<Rightarrow>
      ebind (peek mangled) (\<lambda>c.
        if c = CHR ''P'' \<or> c = CHR ''p'' then
          call_do_type_loop F
            (if tk = tk_none then tk_pointer else tk,
             if DMGL_JAVA \<notin> options work then string_prepend decl ''*'' else decl,
             outer)
            work (adv mangled 1)
        else if c = CHR ''R'' then
          call_do_type_loop F
            (if tk = tk_none then tk_reference else tk, string_prepend decl ''&'', outer)
            work (adv mangled 1)
        else if c = CHR ''A'' then
          (let mangled = adv mangled 1;
               decl = string_append (paren_decl decl) ''[''
           in
           ebind (peek mangled) (\<lambda>c.
           ebind (if c \<noteq> CHR ''_''
                  then call_demangle_template_value_parm F work mangled decl tk_integral
                  else Inr (1, work, mangled, decl))
             (\<lambda>(success, work, mangled, decl).
                ebind (peek mangled) (\<lambda>c.
                  let mangled = (if c = CHR ''_'' then adv mangled 1 else mangled);
                      decl = string_append decl '']''
                  in if success \<noteq> 0 then call_do_type_loop F (tk, decl, outer) work mangled
                     else Inr (0, (tk, decl, outer), work, mangled)))))
        else if c = CHR ''T'' then
          ebind (get_count (adv mangled 1)) (\<lambda>(ok, n, mangled).
            if ok = 0 \<or> n \<ge> ntypes work then Inr (0, vars, work, mangled)
            else
              ebind (vec_at (typevec work) n) (\<lambda>remembered_type.
                call_do_type_loop F
                  (tk, decl, (case outer of None \<Rightarrow> Some mangled | Some cm \<Rightarrow> Some cm))
                  work \<lparr>buf = remembered_type, off = 0\<rparr>))
        else if c = CHR ''F'' then
          (let mangled = adv mangled 1;
               decl = paren_decl decl
           in
           ebind (call_demangle_nested_args F work mangled decl)
             (\<lambda>(ok, work, mangled, decl).
                if ok = 0 then Inr (0, (tk, decl, outer), work, mangled)
                else
                  ebind (peek mangled) (\<lambda>c.
                    if c \<noteq> CHR ''_'' \<and> c \<noteq> NUL
                    then Inr (0, (tk, decl, outer), work, mangled)
                    else call_do_type_loop F (tk, decl, outer) work
                           (if c = CHR ''_'' then adv mangled 1 else mangled))))
        else if c = CHR ''O'' then
          call_do_type_loop F
            (if tk = tk_none then tk_reference else tk, string_prepend decl ''&&'', outer)
            work (adv mangled 1)
        else if c = CHR ''M'' then do_type_member F vars work (adv mangled 1)
        else if c = CHR ''G'' then call_do_type_loop F vars work (adv mangled 1)
        else if is_qualifier c then
          call_do_type_loop F
            (tk,
             if PRINT_ANSI_QUALIFIERS work
             then string_prepend (if decl \<noteq> [] then string_prepend decl '' '' else decl)
                    (demangle_qualifier c)
             else decl,
             outer)
            work (adv mangled 1)
        else Inr (1, vars, work, mangled)))"

text \<open>
  The \<^verbatim>\<open>switch\<close> of \<^verbatim>\<open>do_type\<close> after the loop: the terminal production.  It returns
  \<open>success\<close>, \<open>tk\<close>, the work structure, the cursor and \<open>result\<close>.
\<close>

definition do_type_terminal ::
  "funs \<Rightarrow> int \<Rightarrow> work_stuff \<Rightarrow> ptr \<Rightarrow> (int \<times> int \<times> work_stuff \<times> ptr \<times> string) res" where
  "do_type_terminal F tk work mangled =
     ebind (peek mangled) (\<lambda>c.
       if c = CHR ''Q'' \<or> c = CHR ''K'' then
         ebind (call_demangle_qualified F work mangled [] 0 1)
           (\<lambda>(success, work, mangled, result). Inr (success, tk, work, mangled, result))
       else if c = CHR ''B'' then
         ebind (get_count (adv mangled 1)) (\<lambda>(ok, n, mangled).
           if ok = 0 \<or> n \<ge> numb work then Inr (0, tk, work, mangled, [])
           else
             ebind (vec_at (btypevec work) n) (\<lambda>b.
               Inr (1, tk, work, mangled, string_append_opt [] b)))
       else if c = CHR ''X'' \<or> c = CHR ''Y'' then
         ebind (tmpl_parm_ref work (adv mangled 1)) (\<lambda>(a, mangled).
           case a of
             None \<Rightarrow> Inr (0, tk, work, mangled, [])
           | Some t \<Rightarrow> Inr (1, tk, work, mangled, string_append [] t))
       else
         ebind (call_demangle_fund_type F work mangled [])
           (\<lambda>(success, work, mangled, result).
              Inr (success, if tk = tk_none then success else tk, work, mangled, result)))"

text \<open>\<^verbatim>\<open>do_type\<close>: \<open>result\<close> is initialised here, whatever it held.\<close>

definition do_type :: "funs \<Rightarrow> gfun" where
  "do_type F work mangled result =
     ebind (call_do_type_loop F (tk_none, [], None) work mangled)
       (\<lambda>(success, (tk, decl, outer), work, mangled).
          ebind (if success \<noteq> 0 then do_type_terminal F tk work mangled
                 else Inr (0, tk, work, mangled, []))
            (\<lambda>(success, tk, work, mangled, result).
               let mangled = (case outer of None \<Rightarrow> mangled | Some cm \<Rightarrow> cm) in
               if success \<noteq> 0 then
                 Inr (if tk = tk_none then tk_integral else tk, work, mangled,
                      if decl \<noteq> [] then string_appends (string_append result '' '') decl
                      else result)
               else Inr (0, work, mangled, [])))"

subsection \<open>demangle\_fund\_type\<close>

text \<open>
  The first loop of \<^verbatim>\<open>demangle_fund_type\<close> picks off the qualifiers.  The arguments are the
  C string at the cursor and \<open>result\<close>; it returns the C string at the cursor afterwards.
\<close>

fun fund_type_quals :: "bool \<Rightarrow> string \<Rightarrow> string \<Rightarrow> string \<times> string" where
  "fund_type_quals ansi [] result = ([], result)"
| "fund_type_quals ansi (c # cs) result =
     (if is_qualifier c then
        fund_type_quals ansi cs
          (if ansi
           then string_prepend (if result \<noteq> [] then string_prepend result '' '' else result)
                  (demangle_qualifier c)
           else result)
      else if c = CHR ''U'' then
        fund_type_quals ansi cs (string_append (APPEND_BLANK result) ''unsigned'')
      else if c = CHR ''S'' then
        fund_type_quals ansi cs (string_append (APPEND_BLANK result) ''signed'')
      else if c = CHR ''J'' then
        fund_type_quals ansi cs (string_append (APPEND_BLANK result) ''__complex'')
      else (c # cs, result))"

text \<open>The cases of the second \<^verbatim>\<open>switch\<close> that print one fixed name: the name and \<open>tk\<close>.\<close>

definition fund_type_name :: "char \<Rightarrow> (string \<times> int) option" where
  "fund_type_name c =
     (if c = CHR ''v'' then Some (''void'', tk_integral)
      else if c = CHR ''x'' then Some (''long long'', tk_integral)
      else if c = CHR ''l'' then Some (''long'', tk_integral)
      else if c = CHR ''i'' then Some (''int'', tk_integral)
      else if c = CHR ''s'' then Some (''short'', tk_integral)
      else if c = CHR ''b'' then Some (''bool'', tk_bool)
      else if c = CHR ''c'' then Some (''char'', tk_char)
      else if c = CHR ''w'' then Some (''wchar_t'', tk_char)
      else if c = CHR ''r'' then Some (''long double'', tk_real)
      else if c = CHR ''d'' then Some (''double'', tk_real)
      else if c = CHR ''f'' then Some (''float'', tk_real)
      else None)"

text \<open>
  Case \<^verbatim>\<open>'I'\<close> from after its \<^verbatim>\<open>(*mangled)++\<close>, on the C string \<open>s\<close> at the cursor: the
  success flag, the number of bytes consumed and the text appended to \<open>result\<close>.
\<close>

definition fund_type_width :: "string \<Rightarrow> int \<times> int \<times> string" where
  "fund_type_width s =
     (if hdc s = CHR ''_'' then
        (let b = take 9 (takeWhile (\<lambda>c. c \<noteq> CHR ''_'') (tl s));
             s1 = drop (length b) (tl s)
         in if hdc s1 \<noteq> CHR ''_'' then (0, 1 + int (length b), [])
            else
              (let dec = sscanf_x b in
               if dec > 64 \<or> dec < 8 then (0, 2 + int (length b), [])
               else (1, 2 + int (length b), ''int'' @ show_int dec @ ''_t'')))
      else
        (let b = take 2 s; dec = sscanf_x b in
         if dec > 64 \<or> dec < 8 then (0, int (length b), [])
         else (1, int (length b), ''int'' @ show_int dec @ ''_t'')))"

definition demangle_fund_type :: "funs \<Rightarrow> gfun" where
  "demangle_fund_type F work mangled result =
     ebind (cstr_at mangled) (\<lambda>s0.
       case fund_type_quals (PRINT_ANSI_QUALIFIERS work) s0 result of
         (s, result) \<Rightarrow>
           (let mangled = adv mangled (int (length s0) - int (length s));
                c = hdc s
            in
            if c = NUL \<or> c = CHR ''_'' then Inr (tk_integral, work, mangled, result)
            else if fund_type_name c \<noteq> None then
              (case the (fund_type_name c) of
                 (name, tk) \<Rightarrow>
                   Inr (tk, work, adv mangled 1, string_append (APPEND_BLANK result) name))
            else if c = CHR ''G'' \<and> \<not> isdigit (hdc (tl s)) then
              Inr (0, work, adv mangled 1, result)
            else if c = CHR ''G'' \<or> c = CHR ''I'' then
              (let k = (if c = CHR ''G'' then 2 else 1) in
               case fund_type_width (drop k s) of
                 (ok, n, name) \<Rightarrow>
                   if ok = 0 then Inr (0, work, adv mangled (int k + n), result)
                   else Inr (tk_integral, work, adv mangled (int k + n),
                             string_append (APPEND_BLANK result) name))
            else if isdigit c then
              (case register_Btype work of
                 (bindex, work) \<Rightarrow>
                   ebind (call_demangle_class_name F work mangled [])
                     (\<lambda>(ok, work, mangled, btype).
                        if ok \<noteq> 0 then
                          ebind (remember_Btype work btype bindex) (\<lambda>work.
                            Inr (tk_integral, work, mangled,
                                 string_appends (APPEND_BLANK result) btype))
                        else Inr (0, work, mangled, result)))
            else if c = CHR ''t'' then
              ebind (call_demangle_template F work mangled [] None 1 1)
                (\<lambda>(success, work, mangled, btype, trawname).
                   Inr (if success \<noteq> 0 then tk_integral else 0, work, mangled,
                        string_appends result btype))
            else Inr (0, work, mangled, result)))"

subsection \<open>do\_arg\<close>

definition do_arg :: "funs \<Rightarrow> gfun" where
  "do_arg F work mangled result =
     (let start = mangled in
      if nrepeats work > 0 then
        (let work = work\<lparr>nrepeats := nrepeats work - 1\<rparr> in
         case previous_argument work of
           None \<Rightarrow> Inr (0, work, mangled, [])
         | Some prev \<Rightarrow> Inr (1, work, mangled, string_appends [] prev))
      else
        ebind (peek mangled) (\<lambda>c.
          if c = CHR ''n'' then
            ebind (consume_count_p (adv mangled 1)) (\<lambda>(n, mangled).
              let work = work\<lparr>nrepeats := n\<rparr> in
              if nrepeats work \<le> 0 then Inr (0, work, mangled, [])
              else if nrepeats work > 9 then
                ebind (peek mangled) (\<lambda>c.
                  if c \<noteq> CHR ''_'' then Inr (0, work, mangled, [])
                  else call_do_arg F work (adv mangled 1) [])
              else call_do_arg F work mangled [])
          else
            (let work = work\<lparr>previous_argument := Some []\<rparr> in
             ebind (call_do_type F work mangled []) (\<lambda>(r, work, mangled, prev).
               let work = work\<lparr>previous_argument := Some prev\<rparr> in
               if r = 0 then Inr (0, work, mangled, [])
               else
                 ebind (remember_type work start (off mangled - off start)) (\<lambda>work.
                   Inr (1, work, mangled, string_appends [] prev))))))"

subsection \<open>demangle\_args\<close>

text \<open>
  The inner loop \<^verbatim>\<open>while (work->nrepeats > 0 || --r >= 0)\<close> of \<^verbatim>\<open>demangle_args\<close>.  The
  first component of the result is 0 when the loop executed \<^verbatim>\<open>return (0)\<close>.
\<close>

definition demangle_args_repeat_loop ::
  "funs \<Rightarrow> int \<Rightarrow> int \<Rightarrow> int \<Rightarrow> work_stuff \<Rightarrow> string
     \<Rightarrow> (int \<times> int \<times> work_stuff \<times> string) res" where
  "demangle_args_repeat_loop F r t need_comma work declp =
     (let (go, r) = (if nrepeats work > 0 then (True, r)
                     else (int32 (r - 1) \<ge> 0, int32 (r - 1))) in
      if go then
        ebind (vec_at (typevec work) t) (\<lambda>tem.
          let declp =
                (if need_comma \<noteq> 0 \<and> PRINT_ARG_TYPES work then string_append declp '', ''
                 else declp)
          in
          ebind (call_do_arg F work \<lparr>buf = tem, off = 0\<rparr> []) (\<lambda>(ok, work, tem, arg).
            if ok = 0 then Inr (0, need_comma, work, declp)
            else call_demangle_args_repeat_loop F r t 1 work
                   (if PRINT_ARG_TYPES work then string_appends declp arg else declp)))
      else Inr (1, need_comma, work, declp))"

text \<open>The outer loop of \<^verbatim>\<open>demangle_args\<close>, with the same convention.\<close>

definition demangle_args_loop ::
  "funs \<Rightarrow> int \<Rightarrow> work_stuff \<Rightarrow> ptr \<Rightarrow> string
     \<Rightarrow> (int \<times> int \<times> work_stuff \<times> ptr \<times> string) res" where
  "demangle_args_loop F need_comma work mangled declp =
     ebind (peek mangled) (\<lambda>c.
       if (c \<noteq> CHR ''_'' \<and> c \<noteq> NUL \<and> c \<noteq> CHR ''e'') \<or> nrepeats work > 0 then
         (if c = CHR ''N'' \<or> c = CHR ''T'' then
            (let temptype = c; mangled = adv mangled 1 in
             ebind (if temptype = CHR ''N'' then get_count mangled else Inr (1, 1, mangled))
               (\<lambda>(ok, r, mangled).
                  if ok = 0 then Inr (0, need_comma, work, mangled, declp)
                  else
                    ebind
                      (if (HP_DEMANGLING work \<or> ARM_DEMANGLING work \<or> EDG_DEMANGLING work)
                          \<and> ntypes work \<ge> 10
                       then ebind (consume_count_p mangled) (\<lambda>(t, mangled).
                              Inr (if t \<le> 0 then 0 else 1, t, mangled))
                       else get_count mangled)
                      (\<lambda>(ok, t, mangled).
                         if ok = 0 then Inr (0, need_comma, work, mangled, declp)
                         else
                           (let t =
                                  (if LUCID_DEMANGLING work \<or> ARM_DEMANGLING work
                                      \<or> HP_DEMANGLING work \<or> EDG_DEMANGLING work
                                   then t - 1 else t)
                            in
                            if t < 0 \<or> t \<ge> ntypes work
                            then Inr (0, need_comma, work, mangled, declp)
                            else
                              ebind (call_demangle_args_repeat_loop F r t need_comma work declp)
                                (\<lambda>(ok, need_comma, work, declp).
                                   if ok = 0 then Inr (0, need_comma, work, mangled, declp)
                                   else call_demangle_args_loop F need_comma work mangled
                                          declp)))))
          else
            (let declp =
                   (if need_comma \<noteq> 0 \<and> PRINT_ARG_TYPES work then string_append declp '', ''
                    else declp)
             in
             ebind (call_do_arg F work mangled []) (\<lambda>(ok, work, mangled, arg).
               if ok = 0 then Inr (0, need_comma, work, mangled, declp)
               else call_demangle_args_loop F 1 work mangled
                      (if PRINT_ARG_TYPES work then string_appends declp arg else declp))))
       else Inr (1, need_comma, work, mangled, declp))"

definition demangle_args :: "funs \<Rightarrow> gfun" where
  "demangle_args F work mangled declp =
     ebind (peek mangled) (\<lambda>c.
       let declp =
             (if PRINT_ARG_TYPES work then
                (let declp = string_append declp ''('' in
                 if c = NUL then string_append declp ''void'' else declp)
              else declp)
       in
       ebind (call_demangle_args_loop F 0 work mangled declp)
         (\<lambda>(ok, need_comma, work, mangled, declp).
            if ok = 0 then Inr (0, work, mangled, declp)
            else
              ebind (peek mangled) (\<lambda>c.
                let (mangled, declp) =
                      (if c = CHR ''e'' then
                         (adv mangled 1,
                          if PRINT_ARG_TYPES work then
                            string_append
                              (if need_comma \<noteq> 0 then string_append declp '','' else declp)
                              ''...''
                          else declp)
                       else (mangled, declp));
                    declp = (if PRINT_ARG_TYPES work then string_append declp '')'' else declp)
                in Inr (1, work, mangled, declp))))"

definition demangle_nested_args :: "funs \<Rightarrow> gfun" where
  "demangle_nested_args F work mangled declp =
     (let saved_previous_argument = previous_argument work;
          saved_nrepeats = nrepeats work;
          work = work\<lparr>forgetting_types := forgetting_types work + 1,
                     previous_argument := None, nrepeats := 0\<rparr>
      in
      ebind (call_demangle_args F work mangled declp) (\<lambda>(result, work, mangled, declp).
        Inr (result,
             work\<lparr>previous_argument := saved_previous_argument,
                  forgetting_types := forgetting_types work - 1,
                  nrepeats := saved_nrepeats\<rparr>,
             mangled, declp)))"

subsection \<open>demangle\_qualified\<close>

text \<open>
  \<^verbatim>\<open>atoi\<close>: white space, an optional sign, decimal digits.  A value that an \<^verbatim>\<open>int\<close> cannot
  hold is undefined behaviour.
\<close>

definition atoi :: "string \<Rightarrow> int res" where
  "atoi s =
     (let s = dropWhile isspace s;
          neg = (hdc s = CHR ''-'');
          s = (if hdc s = CHR ''-'' \<or> hdc s = CHR ''+'' then tl s else s);
          v = int (dec_value (takeWhile isdigit s))
      in if v > INT_MAX then Inl SignedOverflow else Inr (if neg then - v else v))"

text \<open>
  The loop \<^verbatim>\<open>while (qualifiers-- > 0)\<close> of \<^verbatim>\<open>demangle_qualified\<close>; it returns \<open>success\<close>,
  the work structure, the cursor, \<open>temp\<close> and \<open>last_name\<close> when it is left.
\<close>

definition demangle_qualified_loop ::
  "funs \<Rightarrow> int \<Rightarrow> int \<Rightarrow> work_stuff \<Rightarrow> ptr \<Rightarrow> string \<Rightarrow> string
     \<Rightarrow> (int \<times> work_stuff \<times> ptr \<times> string \<times> string) res" where
  "demangle_qualified_loop F qualifiers success work mangled temp last_name =
     (if qualifiers > 0 then
        (let qualifiers = qualifiers - 1;
             last_name = []
         in
         ebind (peek mangled) (\<lambda>c.
         let mangled = (if c = CHR ''_'' then adv mangled 1 else mangled) in
         ebind (peek mangled) (\<lambda>c.
         ebind
           (if c = CHR ''t'' then
              ebind (call_demangle_template F work mangled temp (Some last_name) 1 0)
                (\<lambda>(success, work, mangled, temp, trawname).
                   Inr (success, 1, work, mangled, temp,
                        (case trawname of None \<Rightarrow> last_name | Some l \<Rightarrow> l)))
            else if c = CHR ''K'' then
              ebind (consume_count_with_underscores (adv mangled 1)) (\<lambda>(idx, mangled).
                if idx = - 1 \<or> idx \<ge> numk work
                then Inr (0, 0, work, mangled, temp, last_name)
                else
                  ebind (vec_at (ktypevec work) idx) (\<lambda>k.
                    Inr (success, 0, work, mangled, string_append temp k, last_name)))
            else if EDG_DEMANGLING work then
              ebind (consume_count_p mangled) (\<lambda>(namelength, mangled).
                if namelength = - 1 then Inr (0, 1, work, mangled, temp, last_name)
                else
                  ebind (call_recursively_demangle F work mangled temp namelength)
                    (\<lambda>(work, mangled, temp).
                       Inr (success, 1, work, mangled, temp, last_name)))
            else
              ebind (call_do_type F work mangled []) (\<lambda>(success, work, mangled, last_name).
                if success = 0 then Inr (0, 1, work, mangled, temp, last_name)
                else Inr (success, 1, work, mangled, string_appends temp last_name,
                          last_name)))
           (\<lambda>(success, remember_K, work, mangled, temp, last_name).
              if success = 0 then Inr (0, work, mangled, temp, last_name)
              else
                (let work =
                       (if remember_K \<noteq> (0::int) then remember_Ktype work temp else work);
                     temp =
                       (if qualifiers > 0 then string_append temp (SCOPE_STRING work)
                        else temp)
                 in call_demangle_qualified_loop F qualifiers success work mangled temp
                      last_name)))))
      else Inr (success, work, mangled, temp, last_name))"

text \<open>
  The head of \<^verbatim>\<open>demangle_qualified\<close>, up to \<^verbatim>\<open>if (!success) return success\<close>: it returns
  \<open>success\<close>, \<open>qualifiers\<close>, the cursor and \<open>temp\<close>.
\<close>

definition demangle_qualified_head :: "work_stuff \<Rightarrow> ptr \<Rightarrow> (int \<times> int \<times> ptr \<times> string) res" where
  "demangle_qualified_head work mangled =
     ebind (peek mangled) (\<lambda>c0.
       if c0 = CHR ''K'' then
         ebind (consume_count_with_underscores (adv mangled 1)) (\<lambda>(idx, mangled).
           if idx = - 1 \<or> idx \<ge> numk work then Inr (0, 0, mangled, [])
           else
             ebind (vec_at (ktypevec work) idx) (\<lambda>k.
               Inr (1, 0, mangled, string_append [] k)))
       else
         ebind (rd mangled 1) (\<lambda>c1.
           if c1 = CHR ''_'' then
             ebind (cstr_at (adv mangled 2)) (\<lambda>p.
             ebind (atoi p) (\<lambda>qualifiers.
               let success = (if \<not> isdigit (hdc p) \<or> hdc p = CHR ''0'' then 0 else 1);
                   ds = takeWhile isdigit p;
                   success = (if hdc (drop (length ds) p) \<noteq> CHR ''_'' then 0 else success)
               in Inr (success, qualifiers, adv mangled (2 + int (length ds) + 1), [])))
           else if isdigit c1 \<and> c1 \<noteq> CHR ''0'' then
             ebind (rd mangled 2) (\<lambda>c2.
               Inr (1, int (digit_val c1),
                    adv mangled (if c2 = CHR ''_'' then 3 else 2), []))
           else Inr (0, 0, mangled, [])))"

definition demangle_qualified ::
  "funs \<Rightarrow> work_stuff \<Rightarrow> ptr \<Rightarrow> string \<Rightarrow> int \<Rightarrow> int \<Rightarrow> gret res" where
  "demangle_qualified F work mangled result isfuncname append_flag =
     (case register_Btype work of
        (bindex, work) \<Rightarrow>
          (let isfuncname =
                 (isfuncname \<noteq> 0
                  \<and> (constructor work AND 1 \<noteq> 0 \<or> destructor work AND 1 \<noteq> 0))
           in
           ebind (demangle_qualified_head work mangled)
             (\<lambda>(success, qualifiers, mangled, temp).
                if success = 0 then Inr (0, work, mangled, result)
                else
                  ebind (call_demangle_qualified_loop F qualifiers success work mangled temp [])
                    (\<lambda>(success, work, mangled, temp, last_name).
                       ebind (remember_Btype work temp bindex) (\<lambda>work.
                         let temp =
                               (if isfuncname then
                                  (let temp = string_append temp (SCOPE_STRING work);
                                       temp =
                                         (if destructor work AND 1 \<noteq> 0
                                          then string_append temp ''~'' else temp)
                                   in string_appends temp last_name)
                                else temp);
                             result =
                               (if append_flag \<noteq> 0 then string_appends result temp
                                else string_prepends result
                                       (if result \<noteq> []
                                        then string_append temp (SCOPE_STRING work)
                                        else temp))
                         in Inr (success, work, mangled, result))))))"

subsection \<open>demangle\_template\_template\_parm\<close>

text \<open>The \<^verbatim>\<open>for\<close> loop of \<^verbatim>\<open>demangle_template_template_parm\<close>.\<close>

definition demangle_template_template_parm_loop ::
  "funs \<Rightarrow> int \<Rightarrow> int \<Rightarrow> int \<Rightarrow> int \<Rightarrow> gfun" where
  "demangle_template_template_parm_loop F i r need_comma success work mangled tname =
     (if i < r then
        (let tname = (if need_comma \<noteq> 0 then string_append tname '', '' else tname) in
         ebind (peek mangled) (\<lambda>c.
           if c = CHR ''Z'' then
             call_demangle_template_template_parm_loop F (i + 1) r 1 success work
               (adv mangled 1) (string_append tname ''class'')
           else if c = CHR ''z'' then
             ebind (call_demangle_template_template_parm F work (adv mangled 1) tname)
               (\<lambda>(success, work, mangled, tname).
                  if success = 0 then Inr (0, work, mangled, tname)
                  else call_demangle_template_template_parm_loop F (i + 1) r 1 success work
                         mangled tname)
           else
             ebind (call_do_type F work mangled []) (\<lambda>(success, work, mangled, temp).
               if success = 0 then Inr (0, work, mangled, tname)
               else call_demangle_template_template_parm_loop F (i + 1) r 1 success work
                      mangled (string_appends tname temp))))
      else Inr (success, work, mangled, tname))"

definition demangle_template_template_parm :: "funs \<Rightarrow> gfun" where
  "demangle_template_template_parm F work mangled tname =
     (let tname = string_append tname ''template <'' in
      ebind (get_count mangled) (\<lambda>(ok, r, mangled).
      ebind (if ok \<noteq> 0
             then call_demangle_template_template_parm_loop F 0 r 0 1 work mangled tname
             else Inr (1, work, mangled, tname))
        (\<lambda>(success, work, mangled, tname).
           Inr (success, work, mangled, string_append tname ''> class''))))"

subsection \<open>demangle\_integral\_value and demangle\_template\_value\_parm\<close>

text \<open>
  The loop \<^verbatim>\<open>while (success && **mangled != 'W' && **mangled != '\0')\<close> of
  \<^verbatim>\<open>demangle_integral_value\<close>, entered with a non-zero \<open>success\<close>.
\<close>

definition demangle_integral_value_loop :: "funs \<Rightarrow> int \<Rightarrow> int \<Rightarrow> gfun" where
  "demangle_integral_value_loop F need_operator success work mangled s =
     ebind (cstr_at mangled) (\<lambda>m.
       if hdc m \<noteq> CHR ''W'' \<and> hdc m \<noteq> NUL then
         (case (if need_operator \<noteq> 0 then
                  (case optable_prefix m of
                     None \<Rightarrow> None
                   | Some e \<Rightarrow>
                       Some (adv mangled (int (length (fst e))),
                             string_append (string_append (string_append s '' '') (snd e))
                               '' ''))
                else Some (mangled, s))
          of
            None \<Rightarrow> Inr (0, work, mangled, s)
          | Some (mangled, s) \<Rightarrow>
              ebind (call_demangle_template_value_parm F work mangled s tk_integral)
                (\<lambda>(success, work, mangled, s).
                   if success \<noteq> 0
                   then call_demangle_integral_value_loop F 1 success work mangled s
                   else Inr (0, work, mangled, s)))
       else Inr (success, work, mangled, s))"

definition demangle_integral_value :: "funs \<Rightarrow> gfun" where
  "demangle_integral_value F work mangled s =
     ebind (cstr_at mangled) (\<lambda>m.
       if hdc m = CHR ''E'' then
         ebind (call_demangle_integral_value_loop F 0 1 work (adv mangled 1)
                  (string_append s ''(''))
           (\<lambda>(success, work, mangled, s).
              ebind (peek mangled) (\<lambda>c.
                if c \<noteq> CHR ''W'' then Inr (0, work, mangled, s)
                else Inr (success, work, adv mangled 1, string_append s '')'')))
       else if hdc m = CHR ''Q'' \<or> hdc m = CHR ''K'' then
         call_demangle_qualified F work mangled s 0 1
       else
         (let (m, mangled, s) =
                (if hdc m = CHR ''m'' then (tl m, adv mangled 1, string_append s ''-'')
                 else (m, mangled, s));
              ds = takeWhile isdigit m
          in Inr (if ds \<noteq> [] then 1 else 0, work, adv mangled (int (length ds)),
                  string_appends s ds)))"

text \<open>
  The literal of a real value: an optional \<^verbatim>\<open>m\<close>, digits, an optional fraction and an
  optional exponent.  It returns the text and the number of bytes consumed.
\<close>

definition real_literal :: "string \<Rightarrow> string \<times> nat" where
  "real_literal m =
     (let (t, k, m) = (if hdc m = CHR ''m'' then (''-'', 1, tl m) else ([], 0, m));
          ds = takeWhile isdigit m;
          (t, k, m) = (t @ ds, k + length ds, drop (length ds) m);
          (t, k, m) =
            (if hdc m = CHR ''.'' then
               (let fs = takeWhile isdigit (tl m)
                in (t @ ''.'' @ fs, k + 1 + length fs, drop (length fs) (tl m)))
             else (t, k, m));
          (t, k, m) =
            (if hdc m = CHR ''e'' then
               (let es = takeWhile isdigit (tl m)
                in (t @ ''e'' @ es, k + 1 + length es, drop (length es) (tl m)))
             else (t, k, m))
      in (t, k))"

definition demangle_template_value_parm ::
  "funs \<Rightarrow> work_stuff \<Rightarrow> ptr \<Rightarrow> string \<Rightarrow> int \<Rightarrow> gret res" where
  "demangle_template_value_parm F work mangled s tk =
     ebind (cstr_at mangled) (\<lambda>m.
       if hdc m = CHR ''Y'' then
         ebind (tmpl_parm_ref work (adv mangled 1)) (\<lambda>(a, mangled).
           case a of
             None \<Rightarrow> Inr (- 1, work, mangled, s)
           | Some t \<Rightarrow> Inr (1, work, mangled, string_append s t))
       else if tk = tk_integral then call_demangle_integral_value F work mangled s
       else if tk = tk_char then
         (let (mangled, s) =
                (if hdc m = CHR ''m'' then (adv mangled 1, string_append s ''-'')
                 else (mangled, s));
              s = string_append s [CHR 0x27]
          in
          ebind (consume_count_p mangled) (\<lambda>(val, mangled).
            if val \<le> 0 then Inr (0, work, mangled, s)
            else Inr (1, work, mangled,
                      string_append (string_appends s [char_of val]) [CHR 0x27])))
       else if tk = tk_bool then
         ebind (consume_count_p mangled) (\<lambda>(val, mangled).
           if val = 0 then Inr (1, work, mangled, string_append s ''false'')
           else if val = 1 then Inr (1, work, mangled, string_append s ''true'')
           else Inr (0, work, mangled, s))
       else if tk = tk_real then
         (case real_literal m of
            (t, k) \<Rightarrow> Inr (1, work, adv mangled (int k), string_appends s t))
       else if tk = tk_pointer \<or> tk = tk_reference then
         (if hdc m = CHR ''Q'' then call_demangle_qualified F work mangled s 0 1
          else
            ebind (consume_count_p mangled) (\<lambda>(symbol_len, mangled).
              if symbol_len = - 1 then Inr (- 1, work, mangled, s)
              else if symbol_len = 0
              then Inr (1, work, mangled, string_append s ''0'')
              else if symbol_len < 0 then Inl NegativeSize
              else
                ebind (cstr_at mangled) (\<lambda>m.
                  let p = take (nat symbol_len) m in
                  ebind (call_cplus_demangle_v2 F (Some p) (options work)) (\<lambda>q.
                    let s = (if tk = tk_pointer then string_append s ''&'' else s);
                        s = (case q of Some q \<Rightarrow> string_append s q
                             | None \<Rightarrow> string_append s p)
                    in Inr (1, work, adv mangled symbol_len, s)))))
       else Inr (1, work, mangled, s))"

subsection \<open>demangle\_template\<close>

text \<open>The \<^verbatim>\<open>for\<close> loop of \<^verbatim>\<open>demangle_template\<close>.\<close>

definition demangle_template_loop ::
  "funs \<Rightarrow> int \<Rightarrow> int \<Rightarrow> int \<Rightarrow> int \<Rightarrow> int \<Rightarrow> gfun" where
  "demangle_template_loop F i r need_comma is_type success work mangled tname =
     (if i < r then
        (let tname = (if need_comma \<noteq> 0 then string_append tname '', '' else tname) in
         ebind (peek mangled) (\<lambda>c.
           if c = CHR ''Z'' then
             ebind (call_do_type F work (adv mangled 1) []) (\<lambda>(success, work, mangled, temp).
               if success = 0 then Inr (0, work, mangled, tname)
               else
                 ebind (if is_type = 0 then set_tmpl_arg work i temp else Inr work) (\<lambda>work.
                   call_demangle_template_loop F (i + 1) r 1 is_type success work mangled
                     (string_appends tname temp)))
           else if c = CHR ''z'' then
             ebind (call_demangle_template_template_parm F work (adv mangled 1) tname)
               (\<lambda>(success, work, mangled, tname).
                  if success = 0 then Inr (0, work, mangled, tname)
                  else
                    ebind (consume_count_p mangled) (\<lambda>(r2, mangled).
                    ebind (strlen mangled) (\<lambda>len.
                      if r2 > 0 \<and> len \<ge> r2 then
                        ebind (memcpy_from mangled r2) (\<lambda>name.
                        ebind (if is_type = 0 then set_tmpl_arg work i name else Inr work)
                          (\<lambda>work.
                             call_demangle_template_loop F (i + 1) r 1 is_type success work
                               (adv mangled r2)
                               (string_appends (string_append tname '' '') name)))
                      else call_demangle_template_loop F (i + 1) r 1 is_type success work
                             mangled tname)))
           else
             ebind (call_do_type F work mangled []) (\<lambda>(success, work, mangled, temp).
               if success = 0 then Inr (0, work, mangled, tname)
               else
                 ebind (call_demangle_template_value_parm F work mangled
                          (if is_type = 0 then [] else tname) success)
                   (\<lambda>(success, work, mangled, s).
                      if success = 0
                      then Inr (0, work, mangled, if is_type = 0 then tname else s)
                      else if is_type = 0 then
                        ebind (set_tmpl_arg work i s) (\<lambda>work.
                          call_demangle_template_loop F (i + 1) r 1 is_type success work
                            mangled (string_appends tname s))
                      else call_demangle_template_loop F (i + 1) r 1 is_type success work
                             mangled s))))
      else Inr (success, work, mangled, tname))"

text \<open>
  In \<^verbatim>\<open>demangle_template\<close> the vector of a function template is allocated with
  \<^verbatim>\<open>malloc (r * sizeof (char *))\<close>.  A negative \<open>r\<close> is converted to a size of nearly \<open>2 ^ 64\<close>
  bytes, for which \<^verbatim>\<open>malloc\<close> returns NULL: there is no vector then, and the loop over the
  arguments is not entered.

  The name of a type template, from after \<^verbatim>\<open>if (is_type)\<close> to the end of that block:
  \<open>None\<close> is \<^verbatim>\<open>return (0)\<close>, otherwise \<^verbatim>\<open>is_java_array\<close> is returned.
\<close>

definition demangle_template_name ::
  "work_stuff \<Rightarrow> ptr \<Rightarrow> string \<Rightarrow> string option
     \<Rightarrow> (bool option \<times> ptr \<times> string \<times> string option) res" where
  "demangle_template_name work mangled tname trawname =
     ebind (peek mangled) (\<lambda>c.
       if c = CHR ''z'' then
         ebind (tmpl_parm_ref work (adv mangled 2)) (\<lambda>(a, mangled).
           case a of
             None \<Rightarrow> Inr (None, mangled, tname, trawname)
           | Some t \<Rightarrow>
               Inr (Some False, mangled, string_append tname t,
                    map_option (\<lambda>n. string_append n t) trawname))
       else
         ebind (consume_count_p mangled) (\<lambda>(r, mangled).
         ebind (cstr_at mangled) (\<lambda>m.
           if r \<le> 0 \<or> int (length m) < r then Inr (None, mangled, tname, trawname)
           else
             (let is_java_array = (DMGL_JAVA \<in> options work \<and> starts_with m ''JArray1Z'');
                  name = take (nat r) m
              in Inr (Some is_java_array, adv mangled r,
                      if is_java_array then tname else string_appends tname name,
                      map_option (\<lambda>n. string_appends n name) trawname)))))"

definition demangle_template ::
  "funs \<Rightarrow> work_stuff \<Rightarrow> ptr \<Rightarrow> string \<Rightarrow> string option \<Rightarrow> int \<Rightarrow> int
     \<Rightarrow> (int \<times> work_stuff \<times> ptr \<times> string \<times> string option) res" where
  "demangle_template F work mangled tname trawname is_type remember =
     (let mangled = adv mangled 1;
          (bindex, work) =
            (if is_type \<noteq> 0 \<and> remember \<noteq> 0 then register_Btype work else (0, work))
      in
      ebind (if is_type \<noteq> 0 then demangle_template_name work mangled tname trawname
             else Inr (Some False, mangled, tname, trawname))
        (\<lambda>(named, mangled, tname, trawname).
           case named of
             None \<Rightarrow> Inr (0, work, mangled, tname, trawname)
           | Some is_java_array \<Rightarrow>
               (let tname = (if \<not> is_java_array then string_append tname ''<'' else tname) in
                ebind (get_count mangled) (\<lambda>(ok, r, mangled).
                  if ok = 0 then Inr (0, work, mangled, tname, trawname)
                  else
                    (let work =
                           (if is_type = 0
                            then work\<lparr>tmpl_argvec :=
                                   (if r < 0 then None else Some (replicate (nat r) None))\<rparr>
                            else work)
                     in
                     ebind (call_demangle_template_loop F 0 r 0 is_type 0 work mangled tname)
                       (\<lambda>(success, work, mangled, tname).
                          let tname =
                                (if is_java_array then string_append tname ''[]''
                                 else string_append tname ''>'')
                          in
                          ebind (if is_type \<noteq> 0 \<and> remember \<noteq> 0
                                 then remember_Btype work tname bindex else Inr work)
                            (\<lambda>work. Inr (success, work, mangled, tname, trawname))))))))"

subsection \<open>Embedded names\<close>

definition do_hpacc_template_literal :: "funs \<Rightarrow> gfun" where
  "do_hpacc_template_literal F work mangled result =
     ebind (peek mangled) (\<lambda>c.
       if c \<noteq> CHR ''A'' then Inr (0, work, mangled, result)
       else
         ebind (consume_count_p (adv mangled 1)) (\<lambda>(literal_len, mangled).
           if literal_len \<le> 0 then Inr (0, work, mangled, result)
           else
             (let result = string_append result ''&'' in
              ebind (memcpy_from mangled literal_len) (\<lambda>recurse.
              ebind (call_cplus_demangle_v2 F (Some (cstr recurse)) (options work))
                (\<lambda>recurse_dem.
                   let result =
                         (case recurse_dem of
                            Some d \<Rightarrow> string_append result d
                          | None \<Rightarrow> string_appends result recurse)
                   in Inr (1, work, adv mangled literal_len, result))))))"

definition recursively_demangle ::
  "funs \<Rightarrow> work_stuff \<Rightarrow> ptr \<Rightarrow> string \<Rightarrow> int \<Rightarrow> (work_stuff \<times> ptr \<times> string) res" where
  "recursively_demangle F work mangled result namelength =
     ebind (memcpy_from mangled namelength) (\<lambda>recurse.
     ebind (call_cplus_demangle_v2 F (Some (cstr recurse)) (options work)) (\<lambda>recurse_dem.
       let result =
             (case recurse_dem of
                Some d \<Rightarrow> string_append result d
              | None \<Rightarrow> string_appends result recurse)
       in Inr (work, adv mangled namelength, result)))"

subsection \<open>demangle\_arm\_hp\_template\<close>

text \<open>
  The loop \<^verbatim>\<open>while (1)\<close> over the template arguments of HP aCC, up to the label
  \<^verbatim>\<open>hpacc_template_args_done\<close>.
\<close>

definition hpacc_template_args_loop ::
  "funs \<Rightarrow> work_stuff \<Rightarrow> ptr \<Rightarrow> string \<Rightarrow> (work_stuff \<times> ptr \<times> string) res" where
  "hpacc_template_args_loop F work mangled declp =
     ebind (peek mangled) (\<lambda>c.
     ebind
       (if c = CHR ''T'' then call_do_type F work (adv mangled 1) []
        else if c = CHR ''U'' \<or> c = CHR ''S'' then
          ebind (do_hpacc_template_const_value mangled []) (\<lambda>(ok, mangled, arg).
            Inr (ok, work, mangled, arg))
        else if c = CHR ''A'' then call_do_hpacc_template_literal F work mangled []
        else Inr (0, work, mangled, []))
       (\<lambda>(ok, work, mangled, arg).
          if ok = 0 then Inr (work, mangled, declp)
          else
            (let declp = string_appends declp arg in
             ebind (peek mangled) (\<lambda>c.
               if c = NUL \<or> c = CHR ''_'' then Inr (work, mangled, declp)
               else call_hpacc_template_args_loop F work mangled
                      (string_append declp '','')))))"

text \<open>
  The loop \<^verbatim>\<open>while (args < e)\<close> over the template arguments of cfront, up to the label
  \<^verbatim>\<open>cfront_template_args_done\<close>; the result holds \<^verbatim>\<open>args\<close>.
\<close>

definition cfront_template_args_loop ::
  "funs \<Rightarrow> ptr \<Rightarrow> work_stuff \<Rightarrow> ptr \<Rightarrow> string \<Rightarrow> (work_stuff \<times> ptr \<times> string) res" where
  "cfront_template_args_loop F e work args declp =
     (if off args < off e then
        ebind (peek args) (\<lambda>c.
        ebind
          (if c = CHR ''X'' then
             ebind (call_do_type F work (adv args 1) []) (\<lambda>(ok, work, args, type_str).
               if ok = 0 then Inr (0, work, args, [])
               else
                 (let arg = string_append (string_appends (string_append [] ''('') type_str)
                              '')''
                  in
                  ebind (peek args) (\<lambda>c.
                    if c \<noteq> CHR ''L'' then Inr (0, work, args, arg)
                    else
                      ebind (snarf_numeric_literal (adv args 1) arg) (\<lambda>(ok, args, arg).
                        Inr (ok, work, args, arg)))))
           else if c = CHR ''L'' then
             ebind (snarf_numeric_literal (adv args 1) []) (\<lambda>(ok, args, arg).
               Inr (ok, work, args, arg))
           else call_do_type F work args [])
          (\<lambda>(ok, work, args, arg).
             if ok = 0 then Inr (work, args, declp)
             else call_cfront_template_args_loop F e work args
                    (string_append (string_appends declp arg) '','')))
      else Inr (work, args, declp))"

text \<open>The test for a member of the anonymous namespace, on the C string at \<^verbatim>\<open>*mangled\<close>.\<close>

definition is_anonymous_namespace :: "string \<Rightarrow> int \<Rightarrow> bool res" where
  "is_anonymous_namespace m n =
     (if n > 10 \<and> starts_with m ''_GLOBAL_'' then
        ebind (nthc m 9) (\<lambda>c9.
          if c9 = CHR ''N'' then
            ebind (nthc m 8) (\<lambda>c8.
            ebind (nthc m 10) (\<lambda>c10.
              Inr (c8 = c10 \<and> strchr_in cplus_markers c8)))
          else Inr False)
      else Inr False)"

definition demangle_arm_hp_template ::
  "funs \<Rightarrow> work_stuff \<Rightarrow> ptr \<Rightarrow> int \<Rightarrow> string \<Rightarrow> (work_stuff \<times> ptr \<times> string) res" where
  "demangle_arm_hp_template F work mangled n declp =
     (let e = adv mangled n in
      ebind (if HP_DEMANGLING work then rd mangled n else Inr NUL) (\<lambda>cn.
        if HP_DEMANGLING work \<and> cn = CHR ''X'' then
          ebind (cstr_at mangled) (\<lambda>m.
          ebind (string_appendn declp mangled
                   (case strchr m (CHR ''<'') of
                      Some k \<Rightarrow> if int k < n then int k else n
                    | None \<Rightarrow> n))
            (\<lambda>declp.
               let mangled = adv mangled (n + 1);
                   work =
                     (if temp_start work = - 1
                      then work\<lparr>temp_start := int (length declp)\<rparr> else work);
                   declp = string_append declp ''<''
               in
               ebind (call_hpacc_template_args_loop F work mangled declp)
                 (\<lambda>(work, mangled, declp).
                    let declp = string_append declp ''>'' in
                    ebind (peek mangled) (\<lambda>c.
                      Inr (work, if c = CHR ''_'' then adv mangled 1 else mangled, declp)))))
        else
          ebind (cstr_at mangled) (\<lambda>m.
            case arm_pt work m n of
              (found, p, args) \<Rightarrow>
                if found \<noteq> 0 then
                  ebind (string_appendn declp mangled p) (\<lambda>declp.
                    let work =
                          (if temp_start work = - 1
                           then work\<lparr>temp_start := int (length declp)\<rparr> else work);
                        declp = string_append declp ''<''
                    in
                    ebind (call_cfront_template_args_loop F e work (adv mangled args) declp)
                      (\<lambda>(work, args, declp).
                         let declp = (if off args \<ge> off e then butlast declp else declp)
                         in Inr (work, adv mangled n, string_append declp ''>'')))
                else
                  ebind (is_anonymous_namespace m n) (\<lambda>anonymous.
                    if anonymous
                    then Inr (work, adv mangled n, string_append declp ''{anonymous}'')
                    else
                      ebind (string_appendn declp mangled n) (\<lambda>declp.
                        Inr (if temp_start work = - 1 then work\<lparr>temp_start := 0\<rparr>
                             else work,
                             adv mangled n, declp))))))"

subsection \<open>demangle\_class\_name and demangle\_class\<close>

definition demangle_class_name :: "funs \<Rightarrow> gfun" where
  "demangle_class_name F work mangled declp =
     ebind (consume_count_p mangled) (\<lambda>(n, mangled).
       if n = - 1 then Inr (0, work, mangled, declp)
       else
         ebind (strlen mangled) (\<lambda>len.
           if len \<ge> n then
             ebind (call_demangle_arm_hp_template F work mangled n declp)
               (\<lambda>(work, mangled, declp). Inr (1, work, mangled, declp))
           else Inr (0, work, mangled, declp)))"

definition demangle_class :: "funs \<Rightarrow> gfun" where
  "demangle_class F work mangled declp =
     (case register_Btype work of
        (btype, work) \<Rightarrow>
          ebind (call_demangle_class_name F work mangled []) (\<lambda>(ok, work, mangled, class_name).
            if ok = 0 then Inr (0, work, mangled, declp)
            else
              ebind
                (if constructor work AND 1 \<noteq> 0 \<or> destructor work AND 1 \<noteq> 0 then
                   ebind
                     (if temp_start work \<noteq> 0 \<and> temp_start work \<noteq> - 1 then
                        (if 0 \<le> temp_start work
                            \<and> temp_start work \<le> int (length class_name)
                         then Inr (take (nat (temp_start work)) class_name)
                         else Inl OverRead)
                      else Inr class_name)
                     (\<lambda>short_name.
                        let declp = string_prepends declp short_name in
                        if destructor work AND 1 \<noteq> 0
                        then Inr (work\<lparr>destructor := destructor work - 1\<rparr>,
                                  string_prepend declp ''~'')
                        else Inr (work\<lparr>constructor := constructor work - 1\<rparr>, declp))
                 else Inr (work, declp))
                (\<lambda>(work, declp).
                   let work = remember_Ktype work class_name in
                   ebind (remember_Btype work class_name btype) (\<lambda>work.
                     let declp = string_prepend declp (SCOPE_STRING work);
                         declp = string_prepends declp class_name
                     in Inr (1, work, mangled, declp)))))"

subsection \<open>gnu\_special\<close>

text \<open>The loop \<^verbatim>\<open>while (**mangled != '\0')\<close> of the virtual table case of \<^verbatim>\<open>gnu_special\<close>.\<close>

definition gnu_special_vtable_loop :: "funs \<Rightarrow> int \<Rightarrow> gfun" where
  "gnu_special_vtable_loop F success work mangled declp =
     ebind (cstr_at mangled) (\<lambda>m.
       if hdc m \<noteq> NUL then
         ebind
           (if hdc m = CHR ''Q'' \<or> hdc m = CHR ''K''
            then call_demangle_qualified F work mangled declp 0 1
            else if hdc m = CHR ''t'' then
              ebind (call_demangle_template F work mangled declp None 1 1)
                (\<lambda>(success, work, mangled, declp, trawname).
                   Inr (success, work, mangled, declp))
            else if isdigit (hdc m) then
              ebind (consume_count_p mangled) (\<lambda>(n, mangled).
              ebind (strlen mangled) (\<lambda>len.
                if n > len then Inr (1, work, mangled, declp)
                else
                  ebind (string_appendn declp mangled n) (\<lambda>declp.
                    Inr (success, work, adv mangled n, declp))))
            else
              (let n = int (strcspn m cplus_markers) in
               ebind (string_appendn declp mangled n) (\<lambda>declp.
                 Inr (success, work, adv mangled n, declp))))
           (\<lambda>(success, work, mangled, declp).
              ebind (cstr_at mangled) (\<lambda>m.
                let p = strpbrk m cplus_markers in
                if success \<noteq> 0 \<and> (p = None \<or> p = Some 0) then
                  (if p \<noteq> None
                   then call_gnu_special_vtable_loop F success work (adv mangled 1)
                          (string_append declp (SCOPE_STRING work))
                   else call_gnu_special_vtable_loop F success work mangled declp)
                else Inr (0, work, mangled, declp)))
       else Inr (success, work, mangled, declp))"

text \<open>
  The \<^verbatim>\<open>switch\<close> shared by the static data member and the typeinfo cases: a qualified name,
  a template, or the default given as \<open>other\<close>.
\<close>

definition gnu_special_name :: "funs \<Rightarrow> gret res \<Rightarrow> gfun" where
  "gnu_special_name F other work mangled declp =
     ebind (peek mangled) (\<lambda>c.
       if c = CHR ''Q'' \<or> c = CHR ''K'' then call_demangle_qualified F work mangled declp 0 1
       else if c = CHR ''t'' then
         ebind (call_demangle_template F work mangled declp None 1 1)
           (\<lambda>(success, work, mangled, declp, trawname). Inr (success, work, mangled, declp))
       else other)"

definition gnu_special :: "funs \<Rightarrow> gfun" where
  "gnu_special F work mangled declp =
     ebind (cstr_at mangled) (\<lambda>m.
     ebind (if hdc m = CHR ''_'' then nthc m 1 else Inr NUL) (\<lambda>c1.
     ebind (if hdc m = CHR ''_'' \<and> strchr_in cplus_markers c1 then nthc m 2 else Inr NUL)
       (\<lambda>c2.
          if hdc m = CHR ''_'' \<and> strchr_in cplus_markers c1 \<and> c2 = CHR ''_'' then
            Inr (1, work\<lparr>destructor := destructor work + 1\<rparr>, adv mangled 3, declp)
          else if starts_with m ''__vt_''
                  \<or> (starts_with m ''_vt'' \<and> strchr_in cplus_markers (byte_at m 3)) then
            ebind (call_gnu_special_vtable_loop F 1 work
                     (adv mangled (if byte_at m 2 = CHR ''v'' then 5 else 4)) declp)
              (\<lambda>(success, work, mangled, declp).
                 Inr (success, work, mangled,
                      if success \<noteq> 0 then string_append declp '' virtual table''
                      else declp))
          else if hdc m = CHR ''_'' \<and> strchr_in ''0123456789Qt'' c1
                  \<and> strpbrk m cplus_markers \<noteq> None then
            (let p = int (the (strpbrk m cplus_markers));
                 start = mangled;
                 mangled = adv mangled 1
             in
             ebind (gnu_special_name F
                      (ebind (consume_count_p mangled) (\<lambda>(n, mangled).
                       ebind (strlen mangled) (\<lambda>len.
                         if n < 0 \<or> n > len then Inr (0, work, mangled, declp)
                         else
                           ebind (string_appendn declp mangled n) (\<lambda>declp.
                             Inr (1, work, adv mangled n, declp)))))
                      work mangled declp)
               (\<lambda>(success, work, mangled, declp).
                  if success \<noteq> 0 \<and> off start + p = off mangled then
                    (let mangled = adv mangled 1;
                         declp = string_append declp (SCOPE_STRING work)
                     in
                     ebind (cstr_at mangled) (\<lambda>rest.
                       Inr (success, work, adv mangled (int (length rest)),
                            string_appends declp rest)))
                  else Inr (0, work, mangled, declp)))
          else if starts_with m ''__thunk_'' then
            ebind (consume_count_p (adv mangled 8)) (\<lambda>(delta, mangled).
              if delta = - 1 then Inr (0, work, mangled, declp)
              else
                (let mangled = adv mangled 1 in
                 ebind (call_internal_cplus_demangle F work (Some mangled)) (\<lambda>(method, work).
                   case method of
                     None \<Rightarrow> Inr (0, work, mangled, declp)
                   | Some method \<Rightarrow>
                       ebind (cstr_at mangled) (\<lambda>rest.
                         Inr (1, work, adv mangled (int (length rest)),
                              string_append
                                (string_append declp
                                   (''virtual function thunk (delta:''
                                    @ show_int (int32 (- delta)) @ '') for ''))
                                method)))))
          else if starts_with m ''__t''
                  \<and> (byte_at m 3 = CHR ''i'' \<or> byte_at m 3 = CHR ''f'') then
            (let p = (if byte_at m 3 = CHR ''i'' then '' type_info node''
                      else '' type_info function'');
                 mangled = adv mangled 4
             in
             ebind (gnu_special_name F (call_demangle_fund_type F work mangled declp)
                      work mangled declp)
               (\<lambda>(success, work, mangled, declp).
                  ebind (if success \<noteq> 0 then peek mangled else Inr NUL) (\<lambda>c.
                    let success = (if success \<noteq> 0 \<and> c \<noteq> NUL then 0 else success) in
                    Inr (success, work, mangled,
                         if success \<noteq> 0 then string_append declp p else declp))))
          else Inr (0, work, mangled, declp))))"

subsection \<open>arm\_special\<close>

text \<open>
  The first loop of \<^verbatim>\<open>arm_special\<close>, which checks that the name can be demangled: 0 is
  \<^verbatim>\<open>return (0)\<close>, 1 the end of the loop.
\<close>

definition arm_special_check_loop :: "funs \<Rightarrow> ptr \<Rightarrow> int res" where
  "arm_special_check_loop F scan =
     ebind (peek scan) (\<lambda>c.
       if c \<noteq> NUL then
         ebind (consume_count_p scan) (\<lambda>(n, scan).
           if n = - 1 then Inr 0
           else
             (let scan = adv scan n in
              ebind (peek scan) (\<lambda>c0.
              ebind (if c0 = CHR ''_'' then rd scan 1 else Inr NUL) (\<lambda>c1.
                call_arm_special_check_loop F
                  (if c0 = CHR ''_'' \<and> c1 = CHR ''_'' then adv scan 2 else scan)))))
       else Inr 1)"

text \<open>
  The second loop.  In \<^verbatim>\<open>n > strlen (*mangled)\<close> the \<^verbatim>\<open>int\<close> is converted to \<^verbatim>\<open>size_t\<close>, so
  that every negative \<open>n\<close> is greater.
\<close>

definition arm_special_loop :: "funs \<Rightarrow> ptr \<Rightarrow> string \<Rightarrow> (int \<times> ptr \<times> string) res" where
  "arm_special_loop F mangled declp =
     ebind (peek mangled) (\<lambda>c.
       if c \<noteq> NUL then
         ebind (consume_count_p mangled) (\<lambda>(n, mangled).
         ebind (strlen mangled) (\<lambda>len.
           if n = - 1 \<or> n < 0 \<or> n > len then Inr (0, mangled, declp)
           else
             ebind (string_prependn declp mangled n) (\<lambda>declp.
               let mangled = adv mangled n in
               ebind (peek mangled) (\<lambda>c0.
               ebind (if c0 = CHR ''_'' then rd mangled 1 else Inr NUL) (\<lambda>c1.
                 if c0 = CHR ''_'' \<and> c1 = CHR ''_''
                 then call_arm_special_loop F (adv mangled 2) (string_prepend declp ''::'')
                 else call_arm_special_loop F mangled declp)))))
       else Inr (1, mangled, declp))"

definition arm_special :: "funs \<Rightarrow> ptr \<Rightarrow> string \<Rightarrow> (int \<times> ptr \<times> string) res" where
  "arm_special F mangled declp =
     ebind (cstr_at mangled) (\<lambda>m.
       if starts_with m ''__vtbl__'' then
         ebind (call_arm_special_check_loop F (adv mangled 8)) (\<lambda>ok.
           if ok = 0 then Inr (0, mangled, declp)
           else
             ebind (call_arm_special_loop F (adv mangled 8) declp) (\<lambda>(ok, mangled, declp).
               if ok = 0 then Inr (0, mangled, declp)
               else Inr (1, mangled, string_append declp '' virtual table'')))
       else Inr (0, mangled, declp))"

subsection \<open>demangle\_function\_name\<close>

definition islower_az :: "char \<Rightarrow> bool" where
  "islower_az c = (97 \<le> (of_char c :: nat) \<and> (of_char c :: nat) \<le> 122)"

text \<open>
  The name has been NUL-terminated in \<open>declp\<close>; the bytes \<^verbatim>\<open>declp->b[k]\<close> are read through
  \<open>byte_at\<close>.  A type conversion operator is parsed by \<^verbatim>\<open>do_type\<close> with a cursor in that
  buffer.
\<close>

definition demangle_function_name ::
  "funs \<Rightarrow> work_stuff \<Rightarrow> ptr \<Rightarrow> string \<Rightarrow> ptr \<Rightarrow> (work_stuff \<times> ptr \<times> string) res" where
  "demangle_function_name F work mangled declp scan =
     ebind (string_appendn declp mangled (off scan - off mangled)) (\<lambda>declp.
     let mangled = adv scan 2 in
     ebind (if HP_DEMANGLING work then peek mangled else Inr NUL) (\<lambda>c.
     ebind (if HP_DEMANGLING work \<and> c = CHR ''X''
            then call_demangle_arm_hp_template F work mangled 0 declp
            else Inr (work, mangled, declp))
       (\<lambda>(work, mangled, declp).
          let cfront = (LUCID_DEMANGLING work \<or> ARM_DEMANGLING work \<or> HP_DEMANGLING work
                        \<or> EDG_DEMANGLING work);
              b = byte_at declp;
              operator = (\<lambda>e tail.
                (work, mangled,
                 string_append (string_append (string_append [] ''operator'') (snd e)) tail));
              conversion = (\<lambda>k.
                ebind (call_do_type F work \<lparr>buf = cstr declp, off = k\<rparr> [])
                  (\<lambda>(ok, work, tem, type).
                     if ok \<noteq> 0
                     then Inr (work, mangled,
                               string_appends (string_append [] ''operator '') type)
                     else Inr (work, mangled, declp)))
          in
          if cfront \<and> cstr declp = ''__ct''
          then Inr (work\<lparr>constructor := constructor work + 1\<rparr>, mangled, [])
          else if cfront \<and> cstr declp = ''__dt''
          then Inr (work\<lparr>destructor := destructor work + 1\<rparr>, mangled, [])
          else if length declp \<ge> 3 \<and> b 0 = CHR ''o'' \<and> b 1 = CHR ''p''
                  \<and> strchr_in cplus_markers (b 2) then
            (if length declp \<ge> 10 \<and> take 7 (drop 3 declp) = ''assign_'' then
               (case optable_exact (drop 10 declp) of
                  Some e \<Rightarrow> Inr (operator e ''='')
                | None \<Rightarrow> Inr (work, mangled, declp))
             else
               (case optable_exact (drop 3 declp) of
                  Some e \<Rightarrow> Inr (operator e [])
                | None \<Rightarrow> Inr (work, mangled, declp)))
          else if length declp \<ge> 5 \<and> take 4 declp = ''type''
                  \<and> strchr_in cplus_markers (b 4)
          then conversion 5
          else if b 0 = CHR ''_'' \<and> b 1 = CHR ''_'' \<and> b 2 = CHR ''o'' \<and> b 3 = CHR ''p''
          then conversion 4
          else if b 0 = CHR ''_'' \<and> b 1 = CHR ''_'' \<and> islower_az (b 2) \<and> islower_az (b 3) then
            (if b 4 = NUL then
               (case optable_exact [b 2, b 3] of
                  Some e \<Rightarrow> Inr (operator e [])
                | None \<Rightarrow> Inr (work, mangled, declp))
             else if b 2 = CHR ''a'' \<and> b 5 = NUL then
               (case optable_exact [b 2, b 3, b 4] of
                  Some e \<Rightarrow> Inr (operator e [])
                | None \<Rightarrow> Inr (work, mangled, declp))
             else Inr (work, mangled, declp))
          else Inr (work, mangled, declp))))"

subsection \<open>demangle\_prefix\<close>

text \<open>
  The loop \<^verbatim>\<open>while ((tmp = mystrstr (scan + 2, "__")) != NULL) scan = tmp\<close>: \<open>rest\<close> is the
  string at \<^verbatim>\<open>scan + 2\<close>, \<open>i\<close> its offset and \<open>best\<close> the offset of \<^verbatim>\<open>scan\<close>.
\<close>

fun last_sep :: "string \<Rightarrow> nat \<Rightarrow> nat \<Rightarrow> nat" where
  "last_sep [] i best = best"
| "last_sep (c # cs) i best =
     (if starts_with (c # cs) ''__'' then last_sep (tl cs) (i + 2) i
      else last_sep cs (i + 1) best)"

text \<open>
  The second half of \<^verbatim>\<open>demangle_prefix\<close>, from the search for \<^verbatim>\<open>"__"\<close> on.  The search is, as
  the source says, \<^verbatim>\<open>scan = mystrstr (*mangled, "__")\<close>; \<open>k\<close> is the offset of \<^verbatim>\<open>scan\<close> from
  \<^verbatim>\<open>*mangled\<close> and \<open>sc\<close> the string there, which starts with two underscores.
\<close>

definition demangle_prefix_scan :: "funs \<Rightarrow> gfun" where
  "demangle_prefix_scan F work mangled declp =
     ebind (cstr_at mangled) (\<lambda>m.
     ebind
       (case mystrstr m ''__'' of
          None \<Rightarrow> Inr (0, work, mangled, declp)
        | Some k0 \<Rightarrow>
            (let i = strspn (drop k0 m) ''_'';
                 k = (if i > 2 then k0 + (i - 2) else k0);
                 sc = drop k m;
                 c2 = byte_at sc 2;
                 c3 = byte_at sc 3;
                 cfront3 = (LUCID_DEMANGLING work \<or> ARM_DEMANGLING work \<or> HP_DEMANGLING work);
                 cfront = (cfront3 \<or> EDG_DEMANGLING work)
             in
             if static_type work \<noteq> 0 then
               Inr (if \<not> isdigit (hdc sc) \<and> hdc sc \<noteq> CHR ''t'' then 0 else 1,
                    work, mangled, declp)
             else if k = 0 \<and> (isdigit c2 \<or> c2 = CHR ''Q'' \<or> c2 = CHR ''t'' \<or> c2 = CHR ''K''
                              \<or> c2 = CHR ''H'') then
               (if cfront3 \<and> isdigit c2 then
                  ebind (consume_count_p (adv mangled 2)) (\<lambda>(n, mangled).
                  ebind (cstr_at mangled) (\<lambda>rest.
                    Inr (1, work, adv mangled (int (length rest)), string_append declp rest)))
                else
                  Inr (1,
                       if \<not> cfront then work\<lparr>constructor := constructor work + 1\<rparr> else work,
                       adv mangled 2, declp))
             else if (ARM_DEMANGLING work \<and> c2 = CHR ''p'' \<and> c3 = CHR ''t'')
                     \<or> (EDG_DEMANGLING work
                         \<and> ((c2 = CHR ''t'' \<and> c3 = CHR ''m'') \<or> (c2 = CHR ''p'' \<and> c3 = CHR ''s'')
                             \<or> (c2 = CHR ''p'' \<and> c3 = CHR ''t''))) then
               ebind (call_demangle_arm_hp_template F work mangled (int (length m)) declp)
                 (\<lambda>(work, mangled, declp). Inr (1, work, mangled, declp))
             else if k = 0 \<and> \<not> isdigit c2 \<and> c2 \<noteq> CHR ''t'' then
               ebind (if \<not> cfront then Inr (0, mangled, declp)
                      else call_arm_special F mangled declp)
                 (\<lambda>(special, mangled1, declp).
                    if cfront \<and> special \<noteq> 0 then Inr (1, work, mangled1, declp)
                    else
                      (let k1 = k + strspn sc ''_'' in
                       case mystrstr (drop k1 m) ''__'' of
                         None \<Rightarrow> Inr (0, work, mangled1, declp)
                       | Some j \<Rightarrow>
                           (let s1 = k1 + j in
                            if byte_at m (s1 + 2) = NUL then Inr (0, work, mangled1, declp)
                            else
                              (let s2 =
                                     (if \<not> (ARM_DEMANGLING work \<or> HP_DEMANGLING work)
                                      then last_sep (drop (s1 + 2) m) (s1 + 2) s1 else s1)
                               in
                               if byte_at m (s2 + 2) = NUL
                               then Inr (0, work, mangled1, declp)
                               else
                                 ebind (call_demangle_function_name F work mangled1 declp
                                          (adv mangled (int s2)))
                                   (\<lambda>(work, mangled, declp).
                                      Inr (1, work, mangled, declp))))))
             else if c2 \<noteq> NUL then
               ebind (call_demangle_function_name F work mangled declp (adv mangled (int k)))
                 (\<lambda>(work, mangled, declp). Inr (1, work, mangled, declp))
             else Inr (0, work, mangled, declp)))
       (\<lambda>(success, work, mangled, declp).
          if success = 0 \<and> (constructor work = 2 \<or> destructor work = 2) then
            ebind (cstr_at mangled) (\<lambda>rest.
              Inr (1, work, adv mangled (int (length rest)), string_append declp rest))
          else Inr (success, work, mangled, declp)))"

definition demangle_prefix :: "funs \<Rightarrow> gfun" where
  "demangle_prefix F work mangled declp =
     ebind (cstr_at mangled) (\<lambda>m.
     ebind
       (if length m > 6 \<and> (starts_with m ''_imp__'' \<or> starts_with m ''__imp_'')
        then Inr (False, work\<lparr>dllimported := 1\<rparr>, adv mangled 6, declp)
        else if length m \<ge> 11 \<and> starts_with m ''_GLOBAL_'' then
          (if (byte_at m 8 = CHR ''$'' \<or> byte_at m 8 = CHR ''.'') \<and> byte_at m 8 = byte_at m 10
              \<and> (byte_at m 9 = CHR ''D'' \<or> byte_at m 9 = CHR ''I'')
           then
             ebind (call_gnu_special F
                      (if byte_at m 9 = CHR ''D'' then work\<lparr>destructor := 2\<rparr>
                       else work\<lparr>constructor := 2\<rparr>)
                      (adv mangled 11) declp)
               (\<lambda>(special, work, mangled, declp). Inr (special \<noteq> 0, work, mangled, declp))
           else Inr (False, work, mangled, declp))
        else if (ARM_DEMANGLING work \<or> HP_DEMANGLING work \<or> EDG_DEMANGLING work)
                \<and> starts_with m ''__std__''
        then Inr (False, work\<lparr>destructor := 2\<rparr>, adv mangled 7, declp)
        else if (ARM_DEMANGLING work \<or> HP_DEMANGLING work \<or> EDG_DEMANGLING work)
                \<and> starts_with m ''__sti__''
        then Inr (False, work\<lparr>constructor := 2\<rparr>, adv mangled 7, declp)
        else Inr (False, work, mangled, declp))
       (\<lambda>(done, work, mangled, declp).
          if done then Inr (1, work, mangled, declp)
          else demangle_prefix_scan F work mangled declp))"

subsection \<open>demangle\_signature\<close>

text \<open>
  The \<^verbatim>\<open>switch\<close> in the loop of \<^verbatim>\<open>demangle_signature\<close>, on the byte \<open>c\<close> at the cursor.
\<close>

definition demangle_signature_case ::
  "funs \<Rightarrow> char \<Rightarrow> sig_vars \<Rightarrow> work_stuff \<Rightarrow> ptr \<Rightarrow> string
     \<Rightarrow> (sig_vars \<times> work_stuff \<times> ptr \<times> string) res" where
  "demangle_signature_case F c vars work mangled declp =
     (case vars of (success, func_done, expect_func, expect_return_type, oldmangled) \<Rightarrow>
      let gnu = (AUTO_DEMANGLING work \<or> GNU_DEMANGLING work);
          start = (case oldmangled of None \<Rightarrow> mangled | Some p \<Rightarrow> p);
          other =
            (if gnu then
               ebind (call_demangle_args F work mangled declp)
                 (\<lambda>(success, work, mangled, declp).
                    Inr ((success, 1, expect_func, expect_return_type, oldmangled),
                         work, mangled, declp))
             else Inr ((0, func_done, expect_func, expect_return_type, oldmangled),
                       work, mangled, declp))
      in
      if c = CHR ''Q'' then
        ebind (call_demangle_qualified F work mangled declp 1 0)
          (\<lambda>(success, work, mangled1, declp).
             ebind (if success \<noteq> 0
                    then remember_type work mangled (off mangled1 - off mangled)
                    else Inr work)
               (\<lambda>work.
                  Inr ((success, func_done, if gnu then 1 else expect_func,
                        expect_return_type, None),
                       work, mangled1, declp)))
      else if c = CHR ''K'' then
        ebind (call_demangle_qualified F work mangled declp 1 0)
          (\<lambda>(success, work, mangled, declp).
             Inr ((success, func_done, if gnu then 1 else expect_func,
                   expect_return_type, None),
                  work, mangled, declp))
      else if c = CHR ''S'' then
        Inr ((success, func_done, expect_func, expect_return_type, Some start),
             work\<lparr>static_type := 1\<rparr>, adv mangled 1, declp)
      else if is_qualifier c then
        Inr ((success, func_done, expect_func, expect_return_type, Some start),
             work\<lparr>type_quals := type_quals work OR code_for_qualifier c\<rparr>,
             adv mangled 1, declp)
      else if c = CHR ''L'' then
        (if HP_DEMANGLING work then
           ebind (cstr_at mangled) (\<lambda>m.
             let skipped = takeWhile (\<lambda>x. x \<noteq> CHR ''_'') m;
                 mangled = adv mangled (int (length skipped))
             in if length skipped = length m
                then Inr ((0, func_done, expect_func, expect_return_type, oldmangled),
                          work, mangled, declp)
                else Inr (vars, work, adv mangled 1, declp))
         else Inr ((0, func_done, expect_func, expect_return_type, oldmangled),
                   work, mangled, declp))
      else if isdigit c then
        ebind (call_demangle_class F (work\<lparr>temp_start := - 1\<rparr>) mangled declp)
          (\<lambda>(success, work, mangled, declp).
             ebind (if success \<noteq> 0 then remember_type work start (off mangled - off start)
                    else Inr work)
               (\<lambda>work.
                  ebind (if gnu \<or> EDG_DEMANGLING work then peek mangled else Inr NUL) (\<lambda>c1.
                    Inr ((success, func_done,
                          if (gnu \<or> EDG_DEMANGLING work) \<and> c1 \<noteq> CHR ''F'' then 1
                          else expect_func,
                          expect_return_type, None),
                         work, mangled, declp))))
      else if c = CHR ''B'' then
        ebind (call_do_type F work mangled []) (\<lambda>(success, work, mangled, s).
          Inr ((success, func_done, 1, expect_return_type, None), work, mangled,
               if success \<noteq> 0
               then string_prepends declp (string_append s (SCOPE_STRING work))
               else declp))
      else if c = CHR ''F'' then
        (let mangled = adv mangled 1;
             work =
               (if LUCID_DEMANGLING work \<or> ARM_DEMANGLING work \<or> HP_DEMANGLING work
                   \<or> EDG_DEMANGLING work
                then forget_types work else work)
         in
         ebind (call_demangle_args F work mangled declp) (\<lambda>(success, work, mangled, declp).
           let ret = (success \<noteq> 0 \<and> (AUTO_DEMANGLING work \<or> EDG_DEMANGLING work)) in
           ebind (if ret then peek mangled else Inr NUL) (\<lambda>c1.
             if ret \<and> c1 = CHR ''_'' then
               ebind (call_do_type F work (adv mangled 1) [])
                 (\<lambda>(success, work, mangled, tname).
                    Inr ((success, 1, expect_func, expect_return_type, None),
                         work, mangled, declp))
             else Inr ((success, 1, expect_func, expect_return_type, None),
                       work, mangled, declp))))
      else if c = CHR ''t'' then
        ebind (call_demangle_template F work mangled [] (Some []) 1 1)
          (\<lambda>(success, work, mangled1, tname, trawname).
             ebind (if success \<noteq> 0 then remember_type work start (off mangled1 - off start)
                    else Inr work)
               (\<lambda>work.
                  let trawname = (case trawname of None \<Rightarrow> [] | Some t \<Rightarrow> t);
                      tname = string_append tname (SCOPE_STRING work);
                      declp = string_prepends declp tname;
                      (work, declp, trawname) =
                        (if destructor work AND 1 \<noteq> 0 then
                           (work\<lparr>destructor := destructor work - 1\<rparr>,
                            string_appends declp (string_prepend trawname ''~''),
                            string_prepend trawname ''~'')
                         else (work, declp, trawname));
                      (work, declp) =
                        (if constructor work AND 1 \<noteq> 0 \<or> destructor work AND 1 \<noteq> 0
                         then (work\<lparr>constructor := constructor work - 1\<rparr>,
                               string_appends declp trawname)
                         else (work, declp))
                  in Inr ((success, func_done, 1, expect_return_type, None),
                          work, mangled1, declp)))
      else if c = CHR ''_'' then
        (if GNU_DEMANGLING work \<and> expect_return_type \<noteq> 0 then
           ebind (call_do_type F work (adv mangled 1) [])
             (\<lambda>(success, work, mangled, return_type).
                Inr ((success, func_done, expect_func, expect_return_type, oldmangled),
                     work, mangled, string_prepends declp (APPEND_BLANK return_type)))
         else if HP_DEMANGLING work then
           ebind (cstr_at (adv mangled 1)) (\<lambda>m.
             Inr (vars, work, adv mangled (1 + int (length (takeWhile isdigit m))), declp))
         else Inr ((0, func_done, expect_func, expect_return_type, oldmangled),
                   work, mangled, declp))
      else if c = CHR ''H'' \<and> GNU_DEMANGLING work then
        ebind (call_demangle_template F work mangled declp None 0 0)
          (\<lambda>(success, work, mangled, declp, trawname).
             Inr ((success, func_done, expect_func,
                   if constructor work AND 1 = 0 then 1 else expect_return_type,
                   oldmangled),
                  work, adv mangled 1, declp))
      else other)"

definition demangle_signature_loop ::
  "funs \<Rightarrow> sig_vars \<Rightarrow> work_stuff \<Rightarrow> ptr \<Rightarrow> string
     \<Rightarrow> (sig_vars \<times> work_stuff \<times> ptr \<times> string) res" where
  "demangle_signature_loop F vars work mangled declp =
     (case vars of (success, func_done, expect_func, expect_return_type, oldmangled) \<Rightarrow>
      if success = 0 then Inr (vars, work, mangled, declp)
      else
        ebind (peek mangled) (\<lambda>c.
          if c = NUL then Inr (vars, work, mangled, declp)
          else
            ebind (demangle_signature_case F c vars work mangled declp)
              (\<lambda>((success, func_done, expect_func, expect_return_type, oldmangled),
                  work, mangled, declp).
                 if success \<noteq> 0 \<and> expect_func \<noteq> 0 then
                   (let work =
                          (if LUCID_DEMANGLING work \<or> ARM_DEMANGLING work
                              \<or> EDG_DEMANGLING work
                           then forget_types work else work)
                    in
                    ebind (call_demangle_args F work mangled declp)
                      (\<lambda>(success, work, mangled, declp).
                         call_demangle_signature_loop F
                           (success, 1, 0, expect_return_type, oldmangled)
                           work mangled declp))
                 else call_demangle_signature_loop F
                        (success, func_done, expect_func, expect_return_type, oldmangled)
                        work mangled declp)))"

definition demangle_signature :: "funs \<Rightarrow> gfun" where
  "demangle_signature F work mangled declp =
     ebind (call_demangle_signature_loop F (1, 0, 0, 0, None) work mangled declp)
       (\<lambda>((success, func_done, expect_func, expect_return_type, oldmangled),
           work, mangled, declp).
          ebind (if success \<noteq> 0 \<and> func_done = 0
                    \<and> (AUTO_DEMANGLING work \<or> GNU_DEMANGLING work)
                 then call_demangle_args F work mangled declp
                 else Inr (success, work, mangled, declp))
            (\<lambda>(success, work, mangled, declp).
               let declp =
                     (if success \<noteq> 0 \<and> PRINT_ARG_TYPES work then
                        (let declp =
                               (if static_type work \<noteq> 0 then string_append declp '' static''
                                else declp)
                         in if type_quals work \<noteq> TYPE_UNQUALIFIED
                            then string_append (APPEND_BLANK declp)
                                   (qualifier_string (type_quals work))
                            else declp)
                      else declp)
               in Inr (success, work, mangled, declp)))"

subsection \<open>The entry point\<close>

text \<open>
  \<^verbatim>\<open>mop_up\<close> forgets the remembered types, the template arguments and the previous
  argument.  Without success the declaration is deleted and NULL is returned; otherwise the
  declaration is terminated and returned as a C string.
\<close>

definition mop_up :: "work_stuff \<Rightarrow> string \<Rightarrow> int \<Rightarrow> string option \<times> work_stuff" where
  "mop_up work declp success =
     (if success = 0 then None else Some (cstr declp),
      (forget_types work)\<lparr>tmpl_argvec := None, previous_argument := None\<rparr>)"

definition squangle_mop_up :: "work_stuff \<Rightarrow> work_stuff" where
  "squangle_mop_up work = forget_B_and_K_types work"

text \<open>
  The three stages of \<^verbatim>\<open>internal_cplus_demangle\<close> on a non-empty input: the special forms of
  GNU, the prefix, the signature.  They return \<open>success\<close> and the declaration built so far.
\<close>

definition demangle_stages :: "funs \<Rightarrow> work_stuff \<Rightarrow> ptr \<Rightarrow> gret res" where
  "demangle_stages F work mangled =
     ebind (if AUTO_DEMANGLING work \<or> GNU_DEMANGLING work
            then call_gnu_special F work mangled []
            else Inr (0, work, mangled, []))
       (\<lambda>(success, work, mangled, decl).
          ebind (if success = 0 then call_demangle_prefix F work mangled decl
                 else Inr (success, work, mangled, decl))
            (\<lambda>(success, work, mangled, decl).
               ebind (if success \<noteq> 0 then peek mangled else Inr NUL) (\<lambda>c.
                 if success \<noteq> 0 \<and> c \<noteq> NUL
                 then call_demangle_signature F work mangled decl
                 else Inr (success, work, mangled, decl))))"

text \<open>The deferred rewrites: the banner of a global constructor, destructor or import stub.\<close>

definition add_banner :: "work_stuff \<Rightarrow> string \<Rightarrow> work_stuff \<times> string" where
  "add_banner work decl =
     (if constructor work = 2 then
        (work\<lparr>constructor := 0\<rparr>, string_prepend decl ''global constructors keyed to '')
      else if destructor work = 2 then
        (work\<lparr>destructor := 0\<rparr>, string_prepend decl ''global destructors keyed to '')
      else if dllimported work = 1 then
        (work\<lparr>dllimported := 0\<rparr>, string_prepend decl ''import stub for '')
      else (work, decl))"

definition internal_cplus_demangle ::
  "funs \<Rightarrow> work_stuff \<Rightarrow> ptr option \<Rightarrow> (string option \<times> work_stuff) res" where
  "internal_cplus_demangle F work mangled =
     (let s1 = constructor work;
          s2 = destructor work;
          s3 = static_type work;
          s4 = type_quals work;
          work = work\<lparr>constructor := 0, destructor := 0, type_quals := TYPE_UNQUALIFIED,
                     dllimported := 0\<rparr>;
          restore = (\<lambda>w. w\<lparr>constructor := s1, destructor := s2, static_type := s3,
                            type_quals := s4\<rparr>)
      in
      case mangled of
        None \<Rightarrow> Inr (None, restore work)
      | Some mangled \<Rightarrow>
          ebind (peek mangled) (\<lambda>c.
            if c = NUL then Inr (None, restore work)
            else
              ebind (demangle_stages F work mangled) (\<lambda>(success, work, mangled, decl).
                case add_banner work decl of
                  (work, decl) \<Rightarrow>
                    (case mop_up work decl success of
                       (demangled, work) \<Rightarrow> Inr (demangled, restore work)))))"

text \<open>
  \<^verbatim>\<open>cplus_demangle_v2 (mangled, options)\<close>; \<open>None\<close> is the NULL pointer, as argument and as
  result.
\<close>

definition cplus_demangle_v2 :: "funs \<Rightarrow> string option \<Rightarrow> dmgl set \<Rightarrow> string option res" where
  "cplus_demangle_v2 F mangled opts =
     (let work = work_init opts;
          work =
            (if options work \<inter> DMGL_STYLE_MASK = {}
             then work\<lparr>options := options work \<union> (current_demangling_style \<inter> DMGL_STYLE_MASK)\<rparr>
             else work)
      in
      ebind (call_internal_cplus_demangle F work
               (map_option (\<lambda>s. \<lparr>buf = cstr s, off = 0\<rparr>) mangled))
        (\<lambda>(ret, work). let work = squangle_mop_up work in Inr ret))"

subsection \<open>Tying the knot\<close>

text \<open>Without fuel every call is the fault \<open>OutOfFuel\<close>.\<close>

definition no_fuel :: funs where
  "no_fuel =
     \<lparr> call_cplus_demangle_v2 = (\<lambda>_ _. Inl OutOfFuel),
       call_internal_cplus_demangle = (\<lambda>_ _. Inl OutOfFuel),
       call_demangle_signature = (\<lambda>_ _ _. Inl OutOfFuel),
       call_demangle_signature_loop = (\<lambda>_ _ _ _. Inl OutOfFuel),
       call_demangle_template_template_parm = (\<lambda>_ _ _. Inl OutOfFuel),
       call_demangle_template_template_parm_loop = (\<lambda>_ _ _ _ _ _ _. Inl OutOfFuel),
       call_demangle_integral_value = (\<lambda>_ _ _. Inl OutOfFuel),
       call_demangle_integral_value_loop = (\<lambda>_ _ _ _ _. Inl OutOfFuel),
       call_demangle_template_value_parm = (\<lambda>_ _ _ _. Inl OutOfFuel),
       call_demangle_template = (\<lambda>_ _ _ _ _ _. Inl OutOfFuel),
       call_demangle_template_loop = (\<lambda>_ _ _ _ _ _ _ _. Inl OutOfFuel),
       call_demangle_arm_hp_template = (\<lambda>_ _ _ _. Inl OutOfFuel),
       call_hpacc_template_args_loop = (\<lambda>_ _ _. Inl OutOfFuel),
       call_cfront_template_args_loop = (\<lambda>_ _ _ _. Inl OutOfFuel),
       call_demangle_class_name = (\<lambda>_ _ _. Inl OutOfFuel),
       call_demangle_class = (\<lambda>_ _ _. Inl OutOfFuel),
       call_demangle_prefix = (\<lambda>_ _ _. Inl OutOfFuel),
       call_gnu_special = (\<lambda>_ _ _. Inl OutOfFuel),
       call_gnu_special_vtable_loop = (\<lambda>_ _ _ _. Inl OutOfFuel),
       call_recursively_demangle = (\<lambda>_ _ _ _. Inl OutOfFuel),
       call_arm_special = (\<lambda>_ _. Inl OutOfFuel),
       call_arm_special_check_loop = (\<lambda>_. Inl OutOfFuel),
       call_arm_special_loop = (\<lambda>_ _. Inl OutOfFuel),
       call_demangle_qualified = (\<lambda>_ _ _ _ _. Inl OutOfFuel),
       call_demangle_qualified_loop = (\<lambda>_ _ _ _ _ _. Inl OutOfFuel),
       call_do_type = (\<lambda>_ _ _. Inl OutOfFuel),
       call_do_type_loop = (\<lambda>_ _ _. Inl OutOfFuel),
       call_demangle_fund_type = (\<lambda>_ _ _. Inl OutOfFuel),
       call_do_hpacc_template_literal = (\<lambda>_ _ _. Inl OutOfFuel),
       call_do_arg = (\<lambda>_ _ _. Inl OutOfFuel),
       call_demangle_args = (\<lambda>_ _ _. Inl OutOfFuel),
       call_demangle_args_loop = (\<lambda>_ _ _ _. Inl OutOfFuel),
       call_demangle_args_repeat_loop = (\<lambda>_ _ _ _ _. Inl OutOfFuel),
       call_demangle_nested_args = (\<lambda>_ _ _. Inl OutOfFuel),
       call_demangle_function_name = (\<lambda>_ _ _ _. Inl OutOfFuel) \<rparr>"

text \<open>One more unit of fuel: the calls of every function go to \<open>F\<close>.\<close>

definition step :: "funs \<Rightarrow> funs" where
  "step F =
     \<lparr> call_cplus_demangle_v2 = cplus_demangle_v2 F,
       call_internal_cplus_demangle = internal_cplus_demangle F,
       call_demangle_signature = demangle_signature F,
       call_demangle_signature_loop = demangle_signature_loop F,
       call_demangle_template_template_parm = demangle_template_template_parm F,
       call_demangle_template_template_parm_loop = demangle_template_template_parm_loop F,
       call_demangle_integral_value = demangle_integral_value F,
       call_demangle_integral_value_loop = demangle_integral_value_loop F,
       call_demangle_template_value_parm = demangle_template_value_parm F,
       call_demangle_template = demangle_template F,
       call_demangle_template_loop = demangle_template_loop F,
       call_demangle_arm_hp_template = demangle_arm_hp_template F,
       call_hpacc_template_args_loop = hpacc_template_args_loop F,
       call_cfront_template_args_loop = cfront_template_args_loop F,
       call_demangle_class_name = demangle_class_name F,
       call_demangle_class = demangle_class F,
       call_demangle_prefix = demangle_prefix F,
       call_gnu_special = gnu_special F,
       call_gnu_special_vtable_loop = gnu_special_vtable_loop F,
       call_recursively_demangle = recursively_demangle F,
       call_arm_special = arm_special F,
       call_arm_special_check_loop = arm_special_check_loop F,
       call_arm_special_loop = arm_special_loop F,
       call_demangle_qualified = demangle_qualified F,
       call_demangle_qualified_loop = demangle_qualified_loop F,
       call_do_type = do_type F,
       call_do_type_loop = do_type_loop F,
       call_demangle_fund_type = demangle_fund_type F,
       call_do_hpacc_template_literal = do_hpacc_template_literal F,
       call_do_arg = do_arg F,
       call_demangle_args = demangle_args F,
       call_demangle_args_loop = demangle_args_loop F,
       call_demangle_args_repeat_loop = demangle_args_repeat_loop F,
       call_demangle_nested_args = demangle_nested_args F,
       call_demangle_function_name = demangle_function_name F \<rparr>"

primrec level :: "nat \<Rightarrow> funs" where
  "level 0 = no_fuel"
| "level (Suc n) = step (level n)"

subsection \<open>A context for the examples\<close>

text \<open>A work structure with one remembered type and a template argument vector of length 1.\<close>

definition example_work :: work_stuff where
  "example_work =
     (work_init {DMGL_GNU, DMGL_PARAMS})\<lparr>typevec := [''i''], tmpl_argvec := Some [Some ''int'']\<rparr>"

section \<open>Evaluation\<close>

text \<open>
  The model is executable.  A run on a concrete input is evaluated by the simplifier with
  the definitions as rewrite rules; the congruence rules \<open>eval_cong\<close> make it evaluate the
  first argument of \<open>ebind\<close>, the bound term of a \<open>let\<close> and the scrutinee of a \<open>case\<close>
  before their bodies.
\<close>

lemma ebind_Inr [simp]: "ebind (Inr v) f = f v" by (simp add: ebind_def)
lemma ebind_Inl [simp]: "ebind (Inl e) f = Inl e" by (simp add: ebind_def)
lemma ebind_cong: "m = m' \<Longrightarrow> ebind m f = ebind m' f" by simp

lemma call_step [simp]:
  "call_cplus_demangle_v2 (step F) = cplus_demangle_v2 F"
  "call_internal_cplus_demangle (step F) = internal_cplus_demangle F"
  "call_demangle_signature (step F) = demangle_signature F"
  "call_demangle_signature_loop (step F) = demangle_signature_loop F"
  "call_demangle_template_template_parm (step F) = demangle_template_template_parm F"
  "call_demangle_template_template_parm_loop (step F) = demangle_template_template_parm_loop F"
  "call_demangle_integral_value (step F) = demangle_integral_value F"
  "call_demangle_integral_value_loop (step F) = demangle_integral_value_loop F"
  "call_demangle_template_value_parm (step F) = demangle_template_value_parm F"
  "call_demangle_template (step F) = demangle_template F"
  "call_demangle_template_loop (step F) = demangle_template_loop F"
  "call_demangle_arm_hp_template (step F) = demangle_arm_hp_template F"
  "call_hpacc_template_args_loop (step F) = hpacc_template_args_loop F"
  "call_cfront_template_args_loop (step F) = cfront_template_args_loop F"
  "call_demangle_class_name (step F) = demangle_class_name F"
  "call_demangle_class (step F) = demangle_class F"
  "call_demangle_prefix (step F) = demangle_prefix F"
  "call_gnu_special (step F) = gnu_special F"
  "call_gnu_special_vtable_loop (step F) = gnu_special_vtable_loop F"
  "call_recursively_demangle (step F) = recursively_demangle F"
  "call_arm_special (step F) = arm_special F"
  "call_arm_special_check_loop (step F) = arm_special_check_loop F"
  "call_arm_special_loop (step F) = arm_special_loop F"
  "call_demangle_qualified (step F) = demangle_qualified F"
  "call_demangle_qualified_loop (step F) = demangle_qualified_loop F"
  "call_do_type (step F) = do_type F"
  "call_do_type_loop (step F) = do_type_loop F"
  "call_demangle_fund_type (step F) = demangle_fund_type F"
  "call_do_hpacc_template_literal (step F) = do_hpacc_template_literal F"
  "call_do_arg (step F) = do_arg F"
  "call_demangle_args (step F) = demangle_args F"
  "call_demangle_args_loop (step F) = demangle_args_loop F"
  "call_demangle_args_repeat_loop (step F) = demangle_args_repeat_loop F"
  "call_demangle_nested_args (step F) = demangle_nested_args F"
  "call_demangle_function_name (step F) = demangle_function_name F"
  by (simp_all add: step_def)

lemma call_no_fuel [simp]:
  "call_cplus_demangle_v2 no_fuel = (\<lambda>x0 x1. Inl OutOfFuel)"
  "call_internal_cplus_demangle no_fuel = (\<lambda>x0 x1. Inl OutOfFuel)"
  "call_demangle_signature no_fuel = (\<lambda>x0 x1 x2. Inl OutOfFuel)"
  "call_demangle_signature_loop no_fuel = (\<lambda>x0 x1 x2 x3. Inl OutOfFuel)"
  "call_demangle_template_template_parm no_fuel = (\<lambda>x0 x1 x2. Inl OutOfFuel)"
  "call_demangle_template_template_parm_loop no_fuel = (\<lambda>x0 x1 x2 x3 x4 x5 x6. Inl OutOfFuel)"
  "call_demangle_integral_value no_fuel = (\<lambda>x0 x1 x2. Inl OutOfFuel)"
  "call_demangle_integral_value_loop no_fuel = (\<lambda>x0 x1 x2 x3 x4. Inl OutOfFuel)"
  "call_demangle_template_value_parm no_fuel = (\<lambda>x0 x1 x2 x3. Inl OutOfFuel)"
  "call_demangle_template no_fuel = (\<lambda>x0 x1 x2 x3 x4 x5. Inl OutOfFuel)"
  "call_demangle_template_loop no_fuel = (\<lambda>x0 x1 x2 x3 x4 x5 x6 x7. Inl OutOfFuel)"
  "call_demangle_arm_hp_template no_fuel = (\<lambda>x0 x1 x2 x3. Inl OutOfFuel)"
  "call_hpacc_template_args_loop no_fuel = (\<lambda>x0 x1 x2. Inl OutOfFuel)"
  "call_cfront_template_args_loop no_fuel = (\<lambda>x0 x1 x2 x3. Inl OutOfFuel)"
  "call_demangle_class_name no_fuel = (\<lambda>x0 x1 x2. Inl OutOfFuel)"
  "call_demangle_class no_fuel = (\<lambda>x0 x1 x2. Inl OutOfFuel)"
  "call_demangle_prefix no_fuel = (\<lambda>x0 x1 x2. Inl OutOfFuel)"
  "call_gnu_special no_fuel = (\<lambda>x0 x1 x2. Inl OutOfFuel)"
  "call_gnu_special_vtable_loop no_fuel = (\<lambda>x0 x1 x2 x3. Inl OutOfFuel)"
  "call_recursively_demangle no_fuel = (\<lambda>x0 x1 x2 x3. Inl OutOfFuel)"
  "call_arm_special no_fuel = (\<lambda>x0 x1. Inl OutOfFuel)"
  "call_arm_special_check_loop no_fuel = (\<lambda>x0. Inl OutOfFuel)"
  "call_arm_special_loop no_fuel = (\<lambda>x0 x1. Inl OutOfFuel)"
  "call_demangle_qualified no_fuel = (\<lambda>x0 x1 x2 x3 x4. Inl OutOfFuel)"
  "call_demangle_qualified_loop no_fuel = (\<lambda>x0 x1 x2 x3 x4 x5. Inl OutOfFuel)"
  "call_do_type no_fuel = (\<lambda>x0 x1 x2. Inl OutOfFuel)"
  "call_do_type_loop no_fuel = (\<lambda>x0 x1 x2. Inl OutOfFuel)"
  "call_demangle_fund_type no_fuel = (\<lambda>x0 x1 x2. Inl OutOfFuel)"
  "call_do_hpacc_template_literal no_fuel = (\<lambda>x0 x1 x2. Inl OutOfFuel)"
  "call_do_arg no_fuel = (\<lambda>x0 x1 x2. Inl OutOfFuel)"
  "call_demangle_args no_fuel = (\<lambda>x0 x1 x2. Inl OutOfFuel)"
  "call_demangle_args_loop no_fuel = (\<lambda>x0 x1 x2 x3. Inl OutOfFuel)"
  "call_demangle_args_repeat_loop no_fuel = (\<lambda>x0 x1 x2 x3 x4. Inl OutOfFuel)"
  "call_demangle_nested_args no_fuel = (\<lambda>x0 x1 x2. Inl OutOfFuel)"
  "call_demangle_function_name no_fuel = (\<lambda>x0 x1 x2 x3. Inl OutOfFuel)"
  by (simp_all add: no_fuel_def)

lemma level_numeral: "level (numeral k) = step (level (pred_numeral k))"
  by (simp add: numeral_eq_Suc)

text \<open>
  The test \<^verbatim>\<open>isdigit\<close> is evaluated on the bytes that are known only, so that a run can be
  evaluated on an input of which some bytes are variables.
\<close>

lemma isdigit_Char:
  "isdigit (Char b0 b1 b2 b3 b4 b5 b6 b7)
     = (48 \<le> (of_char (Char b0 b1 b2 b3 b4 b5 b6 b7) :: nat)
        \<and> (of_char (Char b0 b1 b2 b3 b4 b5 b6 b7) :: nat) \<le> 57)"
  by (simp only: isdigit_def)

lemmas eval = level_numeral Let_def show_nat.simps demangle_stages_def add_banner_def
  NUL_def isdigit_Char digit_val_def UT32_MAX_def consume_count_def cstr_at_def adv_def nthc_def
  rd_def peek_def strlen_def memcpy_from_def cstr_def consume_count_p_def
  consume_count_with_underscores_def INT_MAX_def int32_def get_count_def TYPE_UNQUALIFIED_def
  TYPE_QUAL_CONST_def TYPE_QUAL_VOLATILE_def TYPE_QUAL_RESTRICT_def code_for_qualifier_def
  qualifier_string_def demangle_qualifier_def starts_with_def strchr_in_def cplus_markers_def
  strcspn_def strspn_def strpbrk_def strchr_def show_int_def snprintf_T_def DMGL_STYLE_MASK_def
  current_demangling_style_def ntypes_def numk_def numb_def ntmpl_args_def work_init_def
  PRINT_ANSI_QUALIFIERS_def PRINT_ARG_TYPES_def AUTO_DEMANGLING_def GNU_DEMANGLING_def
  LUCID_DEMANGLING_def ARM_DEMANGLING_def HP_DEMANGLING_def EDG_DEMANGLING_def SCOPE_STRING_def
  string_append_def string_appends_def string_prepend_def string_prepends_def
  string_append_opt_def string_appendn_def string_prependn_def APPEND_BLANK_def
  PREPEND_BLANK_def byte_at_def forget_types_def forget_B_and_K_types_def remember_type_def
  remember_Ktype_def register_Btype_def remember_Btype_def vec_at_def optable_def
  optable_exact_def optable_prefix_def arm_pt_at_def arm_pt_def snarf_numeric_literal_def
  do_hpacc_template_const_value_def isxdigit_def xdigit_val_def isspace_def sscanf_x_def
  tk_none_def tk_pointer_def tk_reference_def tk_integral_def tk_bool_def tk_char_def
  tk_real_def is_qualifier_def paren_decl_def do_type_member_class_def do_type_member_def
  do_type_loop_def do_type_terminal_def do_type_def fund_type_name_def fund_type_width_def
  demangle_fund_type_def do_arg_def demangle_args_repeat_loop_def demangle_args_loop_def
  demangle_args_def demangle_nested_args_def atoi_def demangle_qualified_loop_def
  demangle_qualified_head_def demangle_qualified_def set_tmpl_arg_def tmpl_parm_ref_def
  demangle_template_template_parm_loop_def demangle_template_template_parm_def
  demangle_integral_value_loop_def demangle_integral_value_def real_literal_def
  demangle_template_value_parm_def demangle_template_loop_def demangle_template_name_def
  demangle_template_def do_hpacc_template_literal_def recursively_demangle_def
  hpacc_template_args_loop_def cfront_template_args_loop_def is_anonymous_namespace_def
  demangle_arm_hp_template_def demangle_class_name_def demangle_class_def
  gnu_special_vtable_loop_def gnu_special_name_def gnu_special_def arm_special_check_loop_def
  arm_special_loop_def arm_special_def islower_az_def demangle_function_name_def
  demangle_prefix_scan_def demangle_prefix_def demangle_signature_case_def
  demangle_signature_loop_def demangle_signature_def mop_up_def squangle_mop_up_def
  internal_cplus_demangle_def cplus_demangle_v2_def

lemmas eval_cong = ebind_cong let_weak_cong prod.case_cong_weak


section \<open>Overflow safety of counts\<close>

lemma digit_val_le9: "isdigit c \<Longrightarrow> digit_val c \<le> 9"
  unfolding isdigit_def digit_val_def by arith

lemma dec_step_mono: "a \<le> foldl (\<lambda>a c. 10 * a + digit_val c) (a::nat) ds"
proof (induction ds arbitrary: a)
  case Nil show ?case by simp
next
  case (Cons d ds)
  have "a \<le> 10 * a + digit_val d" by simp
  also have "\<dots> \<le> foldl (\<lambda>a c. 10 * a + digit_val c) (10 * a + digit_val d) ds" by (rule Cons.IH)
  finally show ?case by simp
qed

lemma consume_count_loop_value:
  assumes "list_all isdigit ds" and "rest = [] \<or> \<not> isdigit (hd rest)"
  shows "fst (consume_count_loop count (ds @ rest)) =
           (let v = foldl (\<lambda>a c. 10 * a + digit_val c) (unat count) ds
            in if v \<le> 2 ^ 32 - 1 then sint (word_of_nat v :: 32 word) else - 1)"
  using assms
proof (induction ds arbitrary: count)
  case Nil
  have "unat count \<le> 2 ^ 32 - 1" using unsigned_less [of count, where ?'a = nat] by simp
  then show ?case using Nil by (cases rest) (simp_all)
next
  case (Cons d ds)
  then have d: "isdigit d" and ds: "list_all isdigit ds" by simp_all
  let ?f = "\<lambda>a c. 10 * a + digit_val c"
  have d9: "digit_val d \<le> 9" using d by (rule digit_val_le9)
  show ?case
  proof (cases "count > UT32_MAX div 10")
    case True
    then have "unat count > 429496729" by (simp add: UT32_MAX_def word_less_nat_alt)
    then have "10 * unat count + digit_val d > 2 ^ 32 - 1" by simp
    moreover have "10 * unat count + digit_val d \<le> foldl ?f (10 * unat count + digit_val d) ds"
      by (rule dec_step_mono)
    ultimately have "\<not> foldl ?f (unat count) (d # ds) \<le> 2 ^ 32 - 1" by simp
    then show ?thesis using True d by (simp add: Let_def)
  next
    case False
    then have le: "unat count \<le> 429496729" by (simp add: UT32_MAX_def word_less_nat_alt)
    then have u1: "unat (count * 10) = 10 * unat count"
      by (simp add: unat_word_ariths)
    have un: "unat (word_of_nat (digit_val d) :: 32 word) = digit_val d"
      using d9 by (simp add: unat_of_nat)
    show ?thesis
    proof (cases "count * 10 > UT32_MAX - word_of_nat (digit_val d)")
      case True
      have "unat (UT32_MAX - word_of_nat (digit_val d) :: 32 word) = 4294967295 - digit_val d"
        using d9 un by (simp add: UT32_MAX_def unat_sub word_le_nat_alt)
      with True have "10 * unat count + digit_val d > 2 ^ 32 - 1"
        using u1 d9 by (simp add: word_less_nat_alt)
      moreover have "10 * unat count + digit_val d \<le> foldl ?f (10 * unat count + digit_val d) ds"
        by (rule dec_step_mono)
      ultimately have "\<not> foldl ?f (unat count) (d # ds) \<le> 2 ^ 32 - 1" by simp
      then show ?thesis using True \<open>\<not> count > UT32_MAX div 10\<close> d by (simp add: Let_def)
    next
      case F2: False
      have "unat (UT32_MAX - word_of_nat (digit_val d) :: 32 word) = 4294967295 - digit_val d"
        using d9 un by (simp add: UT32_MAX_def unat_sub word_le_nat_alt)
      with F2 have "10 * unat count + digit_val d \<le> 4294967295"
        using u1 d9 by (simp add: word_less_nat_alt)
      then have u2: "unat (count * 10 + word_of_nat (digit_val d)) = 10 * unat count + digit_val d"
        using u1 un by (simp add: unat_word_ariths)
      show ?thesis
        using F2 \<open>\<not> count > UT32_MAX div 10\<close> d Cons.IH [OF ds Cons.prems(2), of "count * 10 + word_of_nat (digit_val d)"]
        by (simp add: Let_def u2)
    qed
  qed
qed

text \<open>
  Claim C3.  On a non-empty run of decimal digits \<open>ds\<close> (followed by a non-digit or the end
  of the input), \<^verbatim>\<open>consume_count\<close> returns \<open>-1\<close> exactly when the numeric value of \<open>ds\<close>
  exceeds \<open>2^32 - 1\<close>; otherwise the accumulated 32-bit unsigned count is the numeric value
  itself (no wrap-around happened), returned through the conversion to \<^verbatim>\<open>int\<close>.
\<close>

theorem consume_count_overflow_checked:
  assumes "ds \<noteq> []" and "list_all isdigit ds" and "rest = [] \<or> \<not> isdigit (hd rest)"
  shows "fst (consume_count (ds @ rest)) =
           (if dec_value ds > 2 ^ 32 - 1 then - 1 else sint (word_of_nat (dec_value ds) :: 32 word))"
proof -
  obtain d ds' where ds: "ds = d # ds'" using assms(1) by (cases ds) auto
  then have "isdigit d" using assms(2) by simp
  then have "consume_count (ds @ rest) = consume_count_loop 0 (ds @ rest)"
    by (simp add: consume_count_def ds)
  then show ?thesis
    using consume_count_loop_value [OF assms(2,3), of 0]
    by (simp add: dec_value_def Let_def not_le)
qed

theorem consume_count_overflow_checked_witness:
  "fst (consume_count ''4294967296i'') = - 1"
  using consume_count_overflow_checked [of "''4294967296''" "''i''"]
  by (simp add: isdigit_def dec_value_def digit_val_def)

section \<open>The literal cases of the specification\<close>

text \<open>
  Claim C5.  With the options show-parameter-types and ANSI, \<^verbatim>\<open>foo__1Ai\<close> demangles to
  \<^verbatim>\<open>A::foo(int)\<close>; with no option, to \<^verbatim>\<open>A::foo\<close>; and \<^verbatim>\<open>foo__1Afe\<close> with the option
  show-parameter-types demangles to \<^verbatim>\<open>A::foo(float,...)\<close>.
\<close>

theorem literal_cases:
  "cplus_demangle_v2 (level 20) (Some ''foo__1Ai'') {DMGL_PARAMS, DMGL_ANSI}
     = Inr (Some ''A::foo(int)'')
   \<and> cplus_demangle_v2 (level 20) (Some ''foo__1Ai'') {} = Inr (Some ''A::foo'')
   \<and> cplus_demangle_v2 (level 20) (Some ''foo__1Afe'') {DMGL_PARAMS}
       = Inr (Some ''A::foo(float,...)'')"
  by (simp add: eval cong: eval_cong)

theorem literal_cases_witness:
  "cplus_demangle_v2 (level 20) (Some ''foo__1Ai'') {} = Inr (Some ''A::foo'')"
  using literal_cases by simp

section \<open>The empty input\<close>

text \<open>
  Claim C10.  For every option set, \<^verbatim>\<open>cplus_demangle_v2\<close> returns NULL for the NULL pointer
  and for the empty string.  \<^verbatim>\<open>internal_cplus_demangle\<close> returns NULL for them whatever the
  functions \<open>F\<close> that its calls are dispatched to, so none of them is called: the input is
  rejected before any production runs.
\<close>

theorem empty_input_rejected:
  "internal_cplus_demangle F work None = Inr (None, work\<lparr>dllimported := 0\<rparr>)
   \<and> internal_cplus_demangle F work (Some \<lparr>buf = [], off = 0\<rparr>)
       = Inr (None, work\<lparr>dllimported := 0\<rparr>)
   \<and> cplus_demangle_v2 (level (Suc (Suc n))) None opts = Inr None
   \<and> cplus_demangle_v2 (level (Suc (Suc n))) (Some []) opts = Inr None"
  by (simp add: cplus_demangle_v2_def internal_cplus_demangle_def peek_def rd_def cstr_def
      Let_def)

theorem empty_input_rejected_witness:
  "cplus_demangle_v2 (level 2) None {DMGL_PARAMS} = Inr None
   \<and> cplus_demangle_v2 (level 2) (Some []) {DMGL_PARAMS} = Inr None"
  using empty_input_rejected [of no_fuel "work_init {}" 0 "{DMGL_PARAMS}"]
  by (simp add: numeral_2_eq_2)

section \<open>Reads past the end of the input\<close>

text \<open>
  Claim C9 says that no step reads a byte past the terminating NUL of the input.  Three runs
  show the contrary; each ends in the fault the model raises for a read beyond the NUL.

  \<^item> \<^verbatim>\<open>__vtbl__9\<close> in the ARM dialect: the first loop of \<^verbatim>\<open>arm_special\<close> advances the scan
    cursor by the count 9 although no byte follows the count, and reads there.  The second
    loop of the same function compares the count with the length of the rest first.
  \<^item> \<^verbatim>\<open>_vt$4294967294\<close> in the GNU dialect: \<^verbatim>\<open>consume_count\<close> returns the count as the
    negative int \<open>-2\<close>, which passes the test \<^verbatim>\<open>n > (int) strlen (*mangled)\<close> of
    \<^verbatim>\<open>gnu_special\<close>; the bytes are then copied from a cursor that has left the string.
  \<^item> \<^verbatim>\<open>_\<close> in the GNU dialect: \<^verbatim>\<open>strchr (cplus_markers, (*mangled)[1])\<close> finds the NUL in the
    terminator of \<^verbatim>\<open>cplus_markers\<close>, so \<^verbatim>\<open>(*mangled)[2]\<close>, one byte past the NUL, is read.
\<close>

theorem count_driven_overread:
  "cplus_demangle_v2 (level 10) (Some ''__vtbl__9'') {DMGL_ARM} = Inl OverRead
   \<and> cplus_demangle_v2 (level 10) (Some ''_vt$4294967294'') {DMGL_GNU} = Inl OverRead
   \<and> cplus_demangle_v2 (level 10) (Some ''_'') {DMGL_GNU} = Inl OverRead"
  by (simp add: eval cong: eval_cong)

theorem count_driven_overread_witness:
  "cplus_demangle_v2 (level 10) (Some ''__vtbl__9'') {DMGL_ARM} = Inl OverRead"
  using count_driven_overread by simp

section \<open>A run that never returns\<close>

text \<open>
  The first loop of \<^verbatim>\<open>arm_special\<close> adds every count it reads to the scan cursor.  In
  \<^verbatim>\<open>__vtbl__4294967286\<close> the count is the int \<open>-10\<close> and has ten digits, so the cursor is back
  where it was and the loop starts again in the same state: whatever the fuel, the
  model runs out of it.
\<close>

lemma arm_special_check_loop_diverges:
  "arm_special_check_loop (level n) \<lparr>buf = ''__vtbl__4294967286'', off = 8\<rparr> = Inl OutOfFuel"
proof (induction n)
  case 0
  show ?case by (simp add: eval cong: eval_cong)
next
  case (Suc n)
  then show ?case by (simp add: eval cong: eval_cong)
qed

lemma call_arm_special_check_loop_diverges:
  "call_arm_special_check_loop (level n) \<lparr>buf = ''__vtbl__4294967286'', off = 8\<rparr>
     = Inl OutOfFuel"
  by (cases n) (simp_all add: arm_special_check_loop_diverges)

text \<open>
  Claim C2 says that \<^verbatim>\<open>cplus_demangle_v2\<close> returns on every input.  On
  \<^verbatim>\<open>__vtbl__4294967286\<close> in the ARM dialect it does not: no amount of fuel is enough.
\<close>

theorem arm_special_never_returns:
  "cplus_demangle_v2 (level n) (Some ''__vtbl__4294967286'') {DMGL_ARM} = Inl OutOfFuel"
proof -
  consider "n = 0" | "n = Suc 0" | "n = Suc (Suc 0)" | "n = Suc (Suc (Suc 0))"
    | m where "n = Suc (Suc (Suc (Suc m)))"
    by (metis not0_implies_Suc)
  then show ?thesis
  proof cases
    case 1 then show ?thesis by (simp add: eval cong: eval_cong)
  next
    case 2 then show ?thesis by (simp add: eval cong: eval_cong)
  next
    case 3 then show ?thesis by (simp add: eval cong: eval_cong)
  next
    case 4 then show ?thesis by (simp add: eval cong: eval_cong)
  next
    case 5 then show ?thesis
      by (simp add: eval call_arm_special_check_loop_diverges cong: eval_cong)
  qed
qed

theorem arm_special_never_returns_witness:
  "cplus_demangle_v2 (level 1000) (Some ''__vtbl__4294967286'') {DMGL_ARM} = Inl OutOfFuel"
  by (rule arm_special_never_returns)

section \<open>The context of a sub-parse\<close>

text \<open>
  Claim C7 as stated does not hold for the target of a virtual function thunk:
  \<^verbatim>\<open>gnu_special\<close> parses it with \<^verbatim>\<open>internal_cplus_demangle\<close> on the work structure of the
  enclosing parse, so that the squangling tables are kept.  After the sub-parse of
  \<^verbatim>\<open>__thunk_4_foo__1Ai\<close> the tables of the enclosing parse hold the class \<^verbatim>\<open>A\<close> that the
  sub-parse has seen.
\<close>

theorem thunk_target_shares_context:
  "(case gnu_special (level 30) (work_init {DMGL_GNU, DMGL_PARAMS})
           \<lparr>buf = ''__thunk_4_foo__1Ai'', off = 0\<rparr> [] of
      Inr (success, work, mangled, declp) \<Rightarrow>
        success = 1 \<and> ktypevec work = [''A''] \<and> btypevec work = [Some ''A'']
        \<and> declp = ''virtual function thunk (delta:-4) for A::foo(int)''
    | Inl e \<Rightarrow> False)"
  by (simp add: eval char_of_def bit_Suc_0_iff cong: eval_cong)

lemma map_sum_ebind:
  "map_sum id g (ebind m f) = ebind m (\<lambda>v. map_sum id g (f v))"
  by (cases m) simp_all

text \<open>
  Claim C7, amended.  A name embedded in a qualified name (\<^verbatim>\<open>recursively_demangle\<close>) or in
  a template literal of HP aCC is demangled by \<^verbatim>\<open>cplus_demangle_v2\<close>: the result is the one
  obtained from an enclosing context that is blank but for the options, and the enclosing
  context is returned as it was.  \<^verbatim>\<open>cplus_demangle_v2\<close> starts
  \<^verbatim>\<open>internal_cplus_demangle\<close> on blank contexts only: its result is the same for any two
  callees that agree on blank contexts.  \<^verbatim>\<open>internal_cplus_demangle\<close>, which parses the
  target of a thunk on the enclosing context, restores the fields \<^verbatim>\<open>constructor\<close>,
  \<^verbatim>\<open>destructor\<close>, \<^verbatim>\<open>static_type\<close> and \<^verbatim>\<open>type_quals\<close> of that context.
\<close>

theorem embedded_name_fresh_context:
  "recursively_demangle F work mangled result namelength
     = map_sum id (\<lambda>(w, m, r). (work, m, r))
         (recursively_demangle F (work_init (options work)) mangled result namelength)
   \<and> do_hpacc_template_literal F work mangled result
     = map_sum id (\<lambda>(s, w, m, r). (s, work, m, r))
         (do_hpacc_template_literal F (work_init (options work)) mangled result)
   \<and> ((\<forall>w m. w = work_init (options w)
          \<longrightarrow> call_internal_cplus_demangle F w m = call_internal_cplus_demangle G w m)
        \<longrightarrow> cplus_demangle_v2 F name opts = cplus_demangle_v2 G name opts)
   \<and> (internal_cplus_demangle F work name' = Inr (demangled, work')
        \<longrightarrow> constructor work' = constructor work \<and> destructor work' = destructor work
          \<and> static_type work' = static_type work \<and> type_quals work' = type_quals work)"
proof (intro conjI impI)
  show "recursively_demangle F work mangled result namelength
     = map_sum id (\<lambda>(w, m, r). (work, m, r))
         (recursively_demangle F (work_init (options work)) mangled result namelength)"
    by (simp add: recursively_demangle_def map_sum_ebind work_init_def Let_def)
next
  show "do_hpacc_template_literal F work mangled result
     = map_sum id (\<lambda>(s, w, m, r). (s, work, m, r))
         (do_hpacc_template_literal F (work_init (options work)) mangled result)"
    by (auto simp: do_hpacc_template_literal_def ebind_def work_init_def Let_def
        split: sum.splits if_splits prod.splits)
next
  assume "\<forall>w m. w = work_init (options w)
          \<longrightarrow> call_internal_cplus_demangle F w m = call_internal_cplus_demangle G w m"
  then show "cplus_demangle_v2 F name opts = cplus_demangle_v2 G name opts"
    by (simp add: cplus_demangle_v2_def work_init_def Let_def)
next
  assume a: "internal_cplus_demangle F work name' = Inr (demangled, work')"
  then show "constructor work' = constructor work" "destructor work' = destructor work"
    "static_type work' = static_type work" "type_quals work' = type_quals work"
    by (auto simp: internal_cplus_demangle_def Let_def ebind_def mop_up_def
        split: option.splits sum.splits if_splits prod.splits)
qed

theorem embedded_name_fresh_context_witness:
  "cplus_demangle_v2
     (no_fuel\<lparr>call_internal_cplus_demangle :=
        (\<lambda>w m. if w = work_init (options w) then internal_cplus_demangle (level 10) w m
               else Inl BadIndex)\<rparr>)
     (Some ''foo__1Ai'') {} = Inr (Some ''A::foo'')
   \<and> internal_cplus_demangle (level 10)
       ((work_init {DMGL_GNU})\<lparr>constructor := 1, type_quals := 2\<rparr>)
       (Some \<lparr>buf = ''foo__1Ai'', off = 0\<rparr>)
     = Inr (Some ''A::foo'',
         \<lparr>options = {DMGL_GNU}, typevec = [], ktypevec = [''A''], btypevec = [Some ''A''],
            constructor = 1, destructor = 0, static_type = 0, temp_start = 0, type_quals = 2,
            dllimported = 0, tmpl_argvec = None, forgetting_types = 0,
            previous_argument = None, nrepeats = 0\<rparr>)"
  using embedded_name_fresh_context
    [where F = "level 11"
       and G = "no_fuel\<lparr>call_internal_cplus_demangle :=
                  (\<lambda>w m. if w = work_init (options w)
                         then internal_cplus_demangle (level 10) w m else Inl BadIndex)\<rparr>"
       and name = "Some ''foo__1Ai''" and opts = "{}"
       and work = "(work_init {DMGL_GNU})\<lparr>constructor := 1, type_quals := 2\<rparr>"
       and name' = "Some \<lparr>buf = ''foo__1Ai'', off = 0\<rparr>"
       and demangled = "Some ''A::foo''"
       and work' = "\<lparr>options = {DMGL_GNU}, typevec = [], ktypevec = [''A''],
          btypevec = [Some ''A''],
          constructor = 1, destructor = 0, static_type = 0, temp_start = 0, type_quals = 2,
          dllimported = 0, tmpl_argvec = None, forgetting_types = 0,
          previous_argument = None, nrepeats = 0\<rparr>"]
  by (simp add: eval cong: eval_cong)

section \<open>Failure\<close>

text \<open>
  The input \<^verbatim>\<open>not_mangled\<close> is none of the special forms of GNU and holds no \<^verbatim>\<open>__\<close>: the
  first two stages fail on it, whatever the options and the functions \<open>G\<close> that calls are
  dispatched to.
\<close>

lemma not_mangled_gnu_special:
  "gnu_special G work \<lparr>buf = ''not_mangled'', off = 0\<rparr> []
     = Inr (0, work, \<lparr>buf = ''not_mangled'', off = 0\<rparr>, [])"
  by (simp add: eval cong: eval_cong)

lemma not_mangled_prefix:
  "constructor work = 0 \<Longrightarrow> destructor work = 0 \<Longrightarrow>
   demangle_prefix G work \<lparr>buf = ''not_mangled'', off = 0\<rparr> []
     = Inr (0, work, \<lparr>buf = ''not_mangled'', off = 0\<rparr>, [])"
  by (simp add: eval cong: eval_cong)

lemma not_mangled_stages:
  "constructor work = 0 \<Longrightarrow> destructor work = 0 \<Longrightarrow>
   demangle_stages (step G) work \<lparr>buf = ''not_mangled'', off = 0\<rparr>
     = Inr (0, work, \<lparr>buf = ''not_mangled'', off = 0\<rparr>, [])"
  by (simp add: demangle_stages_def not_mangled_gnu_special not_mangled_prefix)

text \<open>
  Claim C4.  When the stages of \<^verbatim>\<open>internal_cplus_demangle\<close> end without success, the result
  is NULL, whatever declaration \<open>decl\<close> they have built: for \<^verbatim>\<open>internal_cplus_demangle\<close> on
  any context, and for \<^verbatim>\<open>cplus_demangle_v2\<close> on any input and option set.  The input
  \<^verbatim>\<open>not_mangled\<close> fails for every option set.
\<close>

theorem failure_returns_null:
  "(peek mangled = Inr c
      \<longrightarrow> demangle_stages F
            (work\<lparr>constructor := 0, destructor := 0, type_quals := TYPE_UNQUALIFIED,
                  dllimported := 0\<rparr>) mangled = Inr (0, work', mangled', decl)
      \<longrightarrow> map_sum id fst (internal_cplus_demangle F work (Some mangled)) = Inr None)
   \<and> (demangle_stages G
         (work_init (if opts \<inter> DMGL_STYLE_MASK = {}
                     then opts \<union> (current_demangling_style \<inter> DMGL_STYLE_MASK) else opts))
         \<lparr>buf = cstr s, off = 0\<rparr> = Inr (0, work', mangled', decl)
      \<longrightarrow> cplus_demangle_v2 (step G) (Some s) opts = Inr None)
   \<and> cplus_demangle_v2 (step (step G)) (Some ''not_mangled'') opts = Inr None"
proof (intro conjI impI)
  assume "peek mangled = Inr c"
    "demangle_stages F
            (work\<lparr>constructor := 0, destructor := 0, type_quals := TYPE_UNQUALIFIED,
                  dllimported := 0\<rparr>) mangled = Inr (0, work', mangled', decl)"
  then show "map_sum id fst (internal_cplus_demangle F work (Some mangled)) = Inr None"
    by (simp add: internal_cplus_demangle_def Let_def mop_up_def split: prod.splits)
next
  assume a: "demangle_stages G
         (work_init (if opts \<inter> DMGL_STYLE_MASK = {}
                     then opts \<union> (current_demangling_style \<inter> DMGL_STYLE_MASK) else opts))
         \<lparr>buf = cstr s, off = 0\<rparr> = Inr (0, work', mangled', decl)"
  have "peek \<lparr>buf = cstr s, off = 0\<rparr> = Inr (if cstr s = [] then NUL else hd (cstr s))"
    by (cases "cstr s") (simp_all add: peek_def rd_def)
  then show "cplus_demangle_v2 (step G) (Some s) opts = Inr None"
    using a
    by (cases "opts \<inter> DMGL_STYLE_MASK = {}")
      (simp_all add: cplus_demangle_v2_def internal_cplus_demangle_def Let_def mop_up_def
        work_init_def TYPE_UNQUALIFIED_def squangle_mop_up_def split: prod.splits)
next
  show "cplus_demangle_v2 (step (step G)) (Some ''not_mangled'') opts = Inr None"
    by (simp add: cplus_demangle_v2_def internal_cplus_demangle_def Let_def mop_up_def
        work_init_def TYPE_UNQUALIFIED_def squangle_mop_up_def not_mangled_stages
        cstr_def NUL_def peek_def rd_def cstr_at_def adv_def byte_at_def add_banner_def)
qed

theorem failure_returns_null_witness:
  "map_sum id fst
     (internal_cplus_demangle (level 20) (work_init {DMGL_PARAMS, DMGL_GNU})
        (Some \<lparr>buf = ''foo__FiT5'', off = 0\<rparr>)) = Inr None
   \<and> cplus_demangle_v2 (step (level 20)) (Some ''foo__FiT5'') {DMGL_PARAMS, DMGL_GNU} = Inr None
   \<and> cplus_demangle_v2 (step (step (level 20))) (Some ''not_mangled'') {DMGL_PARAMS, DMGL_GNU}
       = Inr None"
  using failure_returns_null
    [where F = "level 20" and G = "level 20"
       and work = "work_init {DMGL_PARAMS, DMGL_GNU}"
       and mangled = "\<lparr>buf = ''foo__FiT5'', off = 0\<rparr>" and c = "CHR ''f''"
       and opts = "{DMGL_PARAMS, DMGL_GNU}" and s = "''foo__FiT5''"
       and work' = "\<lparr>options = {DMGL_PARAMS, DMGL_GNU}, typevec = [''i''],
                 ktypevec = [], btypevec = [], constructor = 0,
                 destructor = 0, static_type = 0, temp_start = 0,
                 type_quals = 0, dllimported = 0, tmpl_argvec = None,
                 forgetting_types = 0, previous_argument = Some ''int'',
                 nrepeats = 0\<rparr>"
       and mangled' = "\<lparr>buf = ''foo__FiT5'', off = 9\<rparr>" and decl = "''foo(int''"]
  by (simp add: eval cong: eval_cong)

section \<open>Failure of a loop and failure of the function\<close>

text \<open>
  \<^verbatim>\<open>do_type\<close> and \<^verbatim>\<open>demangle_args\<close> return failure whenever their loop is left with failure,
  whatever the functions \<open>F\<close> that calls are dispatched to.
\<close>

lemma do_type_after_loop:
  "call_do_type_loop F (tk_none, [], None) work m = Inr (0, (tk, decl, outer), work', m')
   \<Longrightarrow> do_type F work m result
         = Inr (0, work', (case outer of None \<Rightarrow> m' | Some cm \<Rightarrow> cm), [])"
  by (simp add: do_type_def)

lemma demangle_args_after_loop:
  "peek m = Inr c \<Longrightarrow>
   call_demangle_args_loop F 0 work m
     (if PRINT_ARG_TYPES work
      then (if c = NUL then string_append (string_append declp ''('') ''void''
            else string_append declp ''('')
      else declp) = Inr (0, nc, work', m', declp')
   \<Longrightarrow> demangle_args F work m declp = Inr (0, work', m', declp')"
  by (cases "PRINT_ARG_TYPES work"; cases "c = NUL"; simp add: demangle_args_def Let_def)

lemma adv_adv: "adv (adv p a) b = adv p (a + b)"
  by (simp add: adv_def)

section \<open>Back references\<close>

text \<open>
  Claim C1 as stated does not hold, for two reasons that are in the design of the code.

  \<^item> While no template argument vector exists, the index after \<^verbatim>\<open>'X'\<close> or \<^verbatim>\<open>'Y'\<close> is
    compared with nothing and printed, as \<^verbatim>\<open>T<index>\<close>: \<^verbatim>\<open>foo__FX01\<close> demangles to
    \<^verbatim>\<open>foo(T0)\<close>.
  \<^item> The failure of the function that has read the index is not always the failure of the
    parse.  \<^verbatim>\<open>demangle_arm_hp_template\<close> returns no status, and its loop over the template
    arguments of HP aCC stops at a \<^verbatim>\<open>do_type\<close> that fails: in \<^verbatim>\<open>foo__1AXTT5\<close> the index 5 of
    \<^verbatim>\<open>T5\<close> is out of range, \<^verbatim>\<open>do_type\<close> fails, and the result is \<^verbatim>\<open>A<>::foo\<close>.
\<close>

theorem index_printed_or_failure_dropped:
  "cplus_demangle_v2 (level 20) (Some ''foo__FX01'') {DMGL_PARAMS} = Inr (Some ''foo(T0)'')
   \<and> cplus_demangle_v2 (level 20) (Some ''foo__1AXTT5'') {DMGL_PARAMS, DMGL_HP}
       = Inr (Some ''A<>::foo'')"
  by (simp add: eval char_of_def bit_Suc_0_iff cong: eval_cong)

text \<open>
  Three more runs in which an index that is out of range does not make the parse fail.  They
  are slips of the code, and the amended claim below says nothing about them.

  \<^item> \<^verbatim>\<open>consume_count\<close> returns a count of \<open>2 ^ 31\<close> or more as a negative \<^verbatim>\<open>int\<close>.  Only
    \<^verbatim>\<open>demangle_args\<close> tests \<^verbatim>\<open>t < 0\<close>; in \<^verbatim>\<open>foo__K_4294967294_\<close> the index \<open>-2\<close> passes
    \<^verbatim>\<open>idx >= work->numk\<close> and the table is read before its first entry.
  \<^item> \<^verbatim>\<open>get_count\<close> does not check its accumulator, unlike \<^verbatim>\<open>consume_count\<close>: in
    \<^verbatim>\<open>foo__FiT4294967296_\<close> the index wraps around to 0, and the type 0 is printed.
  \<^item> At the code \<^verbatim>\<open>'Y'\<close>, \<^verbatim>\<open>demangle_template_value_parm\<close> returns \<open>-1\<close> for an index that
    is out of range, and its caller tests \<^verbatim>\<open>!success\<close>: \<^verbatim>\<open>foo__H1iY5_i\<close> demangles to
    \<^verbatim>\<open>foo<>(int)\<close>.
\<close>

lemma index_slips:
  "cplus_demangle_v2 (level 20) (Some ''foo__K_4294967294_'') {DMGL_GNU} = Inl BadIndex
   \<and> cplus_demangle_v2 (level 20) (Some ''foo__FiT4294967296_'') {DMGL_PARAMS}
       = Inr (Some ''foo(int, int)'')
   \<and> cplus_demangle_v2 (level 20) (Some ''foo__H1iY5_i'') {DMGL_PARAMS}
       = Inr (Some ''foo<>(int)'')"
  by (simp add: eval cong: eval_cong)

text \<open>
  Claim C1, amended.  When the \<^verbatim>\<open>int\<close> that the code has read for an index is greater than
  or equal to the length of the table, the function that has read it returns failure, and
  the table is not read.  In the order of the statement:

  \<^item> \<^verbatim>\<open>'T'\<close> in \<^verbatim>\<open>do_type\<close>: the iteration that reads the index leaves the loop with
    failure, the work structure as it was; at the head of a type \<^verbatim>\<open>do_type\<close> fails.
  \<^item> \<^verbatim>\<open>do_type\<close> after its loop: it fails when the loop is left with failure; it fails at a
    \<^verbatim>\<open>'B'\<close> index, and at an \<^verbatim>\<open>'X'\<close> or \<^verbatim>\<open>'Y'\<close> index while a template argument vector
    exists.
  \<^item> \<^verbatim>\<open>'T'\<close> and \<^verbatim>\<open>'N'\<close> in \<^verbatim>\<open>demangle_args\<close>: the iteration that reads the index leaves
    the loop with failure.  In the dialects of Lucid, ARM, HP and EDG the index is the count
    read less one.
  \<^item> \<^verbatim>\<open>demangle_args\<close> fails when its loop is left with failure.
  \<^item> \<^verbatim>\<open>'K'\<close> in \<^verbatim>\<open>demangle_qualified\<close>: at the head the function fails, having registered
    one empty slot in the table of B types; in the loop the iteration leaves the loop with
    failure.
  \<^item> \<^verbatim>\<open>demangle_qualified\<close> fails when its loop is left with failure.
  \<^item> \<^verbatim>\<open>'z'\<close> in \<^verbatim>\<open>demangle_template\<close>, while a template argument vector exists.

  The functions \<open>F\<close> that calls are dispatched to are arbitrary.
\<close>

theorem backref_index_checked:
  "(peek mT = Inr CHR ''T'' \<longrightarrow> get_count (adv mT 1) = Inr (ok, n, mT')
      \<longrightarrow> n \<ge> ntypes work
      \<longrightarrow> do_type_loop F vars work mT = Inr (0, vars, work, mT')
        \<and> do_type (step F) work mT result = Inr (0, work, mT', []))
   \<and> (call_do_type_loop F (tk_none, [], None) work m = Inr (s, (tk, decl, outer), work', m')
      \<longrightarrow> (s = 0
            \<longrightarrow> do_type F work m result
                = Inr (0, work', (case outer of None \<Rightarrow> m' | Some cm \<Rightarrow> cm), []))
        \<and> (s \<noteq> 0 \<longrightarrow> peek m' = Inr CHR ''B''
            \<longrightarrow> get_count (adv m' 1) = Inr (okB, nB, mB) \<longrightarrow> nB \<ge> numb work'
            \<longrightarrow> do_type F work m result
                = Inr (0, work', (case outer of None \<Rightarrow> mB | Some cm \<Rightarrow> cm), []))
        \<and> (s \<noteq> 0 \<longrightarrow> peek m' = Inr CHR ''X'' \<or> peek m' = Inr CHR ''Y''
            \<longrightarrow> tmpl_argvec work' = Some v
            \<longrightarrow> consume_count_with_underscores (adv m' 1) = Inr (idx, mX)
            \<longrightarrow> idx \<ge> int (length v)
            \<longrightarrow> do_type F work m result
                = Inr (0, work', (case outer of None \<Rightarrow> mX | Some cm \<Rightarrow> cm), [])))
   \<and> (peek mA = Inr c \<longrightarrow> c = CHR ''N'' \<or> c = CHR ''T''
      \<longrightarrow> (if c = CHR ''N'' then get_count (adv mA 1) else Inr (1, 1, adv mA 1))
            = Inr (okr, r, mA')
      \<longrightarrow> okr \<noteq> 0
      \<longrightarrow> (if (HP_DEMANGLING work \<or> ARM_DEMANGLING work \<or> EDG_DEMANGLING work)
               \<and> ntypes work \<ge> 10
           then ebind (consume_count_p mA') (\<lambda>(t, m). Inr (if t \<le> 0 then 0 else 1, t, m))
           else get_count mA') = Inr (okt, t, mA'')
      \<longrightarrow> (if LUCID_DEMANGLING work \<or> ARM_DEMANGLING work \<or> HP_DEMANGLING work
               \<or> EDG_DEMANGLING work then t - 1 else t) \<ge> ntypes work
      \<longrightarrow> demangle_args_loop F need_comma work mA declp
            = Inr (0, need_comma, work, mA'', declp))
   \<and> (peek ma = Inr ca
      \<longrightarrow> call_demangle_args_loop F 0 worka ma
            (if PRINT_ARG_TYPES worka
             then (if ca = NUL then string_append (string_append da ''('') ''void''
                   else string_append da ''('')
             else da) = Inr (0, nc, worka', ma', da')
      \<longrightarrow> demangle_args F worka ma da = Inr (0, worka', ma', da'))
   \<and> (peek mK = Inr CHR ''K'' \<longrightarrow> consume_count_with_underscores (adv mK 1) = Inr (idxK, mK')
      \<longrightarrow> idxK \<ge> numk work
      \<longrightarrow> demangle_qualified F work mK res isfuncname append_flag
            = Inr (0, work\<lparr>btypevec := btypevec work @ [None]\<rparr>, mK', res)
        \<and> (0 < q \<longrightarrow> demangle_qualified_loop F q success work mK temp last_name
                      = Inr (0, work, mK', temp, [])))
   \<and> (demangle_qualified_head (work\<lparr>btypevec := btypevec work @ [None]\<rparr>) mq
        = Inr (sq, qq, mh, temph)
      \<longrightarrow> sq \<noteq> 0
      \<longrightarrow> call_demangle_qualified_loop F qq sq (work\<lparr>btypevec := btypevec work @ [None]\<rparr>)
            mh temph [] = Inr (0, workq, mq', tempq, lastq)
      \<longrightarrow> numb work < numb workq
      \<longrightarrow> (\<exists>w r. demangle_qualified F work mq res isfuncname append_flag
                   = Inr (0, w, mq', r)))
   \<and> (is_type \<noteq> 0 \<longrightarrow> peek (adv mz 1) = Inr CHR ''z'' \<longrightarrow> tmpl_argvec work = Some vz
      \<longrightarrow> consume_count_with_underscores (adv mz 3) = Inr (idz, mz')
      \<longrightarrow> idz \<ge> int (length vz)
      \<longrightarrow> demangle_template F work mz tname trawname is_type remember
            = Inr (0, if remember \<noteq> 0 then work\<lparr>btypevec := btypevec work @ [None]\<rparr>
                      else work, mz', tname, trawname))"
proof (intro conjI impI)
  assume "peek mT = Inr CHR ''T''" "get_count (adv mT 1) = Inr (ok, n, mT')" "n \<ge> ntypes work"
  then show "do_type_loop F vars work mT = Inr (0, vars, work, mT')"
    by (cases vars) (simp add: do_type_loop_def)
next
  assume "peek mT = Inr CHR ''T''" "get_count (adv mT 1) = Inr (ok, n, mT')" "n \<ge> ntypes work"
  then have "do_type_loop F (tk_none, [], None) work mT = Inr (0, (tk_none, [], None), work, mT')"
    by (simp add: do_type_loop_def)
  then show "do_type (step F) work mT result = Inr (0, work, mT', [])"
    by (simp add: do_type_after_loop)
next
  assume "call_do_type_loop F (tk_none, [], None) work m = Inr (s, (tk, decl, outer), work', m')"
    "s = 0"
  then show "do_type F work m result
                = Inr (0, work', (case outer of None \<Rightarrow> m' | Some cm \<Rightarrow> cm), [])"
    by (simp add: do_type_after_loop)
next
  assume "call_do_type_loop F (tk_none, [], None) work m = Inr (s, (tk, decl, outer), work', m')"
    "s \<noteq> 0" "peek m' = Inr CHR ''B''" "get_count (adv m' 1) = Inr (okB, nB, mB)"
    "nB \<ge> numb work'"
  then show "do_type F work m result
                = Inr (0, work', (case outer of None \<Rightarrow> mB | Some cm \<Rightarrow> cm), [])"
    by (simp add: do_type_def do_type_terminal_def)
next
  assume a: "call_do_type_loop F (tk_none, [], None) work m
               = Inr (s, (tk, decl, outer), work', m')"
    "s \<noteq> 0" "peek m' = Inr CHR ''X'' \<or> peek m' = Inr CHR ''Y''"
    "tmpl_argvec work' = Some v"
    "consume_count_with_underscores (adv m' 1) = Inr (idx, mX)" "idx \<ge> int (length v)"
  from a(3) show "do_type F work m result
                = Inr (0, work', (case outer of None \<Rightarrow> mX | Some cm \<Rightarrow> cm), [])"
    using a(1,2,4-6)
    by (auto simp: do_type_def do_type_terminal_def tmpl_parm_ref_def ntmpl_args_def)
next
  assume a: "peek mA = Inr c" "c = CHR ''N'' \<or> c = CHR ''T''"
    "(if c = CHR ''N'' then get_count (adv mA 1) else Inr (1, 1, adv mA 1)) = Inr (okr, r, mA')"
    "okr \<noteq> 0"
    "(if (HP_DEMANGLING work \<or> ARM_DEMANGLING work \<or> EDG_DEMANGLING work) \<and> ntypes work \<ge> 10
           then ebind (consume_count_p mA') (\<lambda>(t, m). Inr (if t \<le> 0 then 0 else 1, t, m))
           else get_count mA') = Inr (okt, t, mA'')"
    "(if LUCID_DEMANGLING work \<or> ARM_DEMANGLING work \<or> HP_DEMANGLING work
               \<or> EDG_DEMANGLING work then t - 1 else t) \<ge> ntypes work"
  have "c \<noteq> CHR ''_''" "c \<noteq> NUL" "c \<noteq> CHR ''e''" using a(2) by (auto simp: NUL_def)
  then show "demangle_args_loop F need_comma work mA declp = Inr (0, need_comma, work, mA'', declp)"
    using a unfolding demangle_args_loop_def Let_def
    by (simp del: split_paired_All split_paired_Ex cong: if_cong)
next
  assume "peek ma = Inr ca"
    "call_demangle_args_loop F 0 worka ma
            (if PRINT_ARG_TYPES worka
             then (if ca = NUL then string_append (string_append da ''('') ''void''
                   else string_append da ''('')
             else da) = Inr (0, nc, worka', ma', da')"
  then show "demangle_args F worka ma da = Inr (0, worka', ma', da')"
    by (rule demangle_args_after_loop)
next
  assume "peek mK = Inr CHR ''K''" "consume_count_with_underscores (adv mK 1) = Inr (idxK, mK')"
    "idxK \<ge> numk work"
  then show "demangle_qualified F work mK res isfuncname append_flag
            = Inr (0, work\<lparr>btypevec := btypevec work @ [None]\<rparr>, mK', res)"
    by (simp add: demangle_qualified_def demangle_qualified_head_def register_Btype_def
        numk_def Let_def)
next
  assume "peek mK = Inr CHR ''K''" "consume_count_with_underscores (adv mK 1) = Inr (idxK, mK')"
    "idxK \<ge> numk work" "0 < q"
  then show "demangle_qualified_loop F q success work mK temp last_name
                      = Inr (0, work, mK', temp, [])"
    by (simp add: demangle_qualified_loop_def Let_def)
next
  assume a: "demangle_qualified_head (work\<lparr>btypevec := btypevec work @ [None]\<rparr>) mq
        = Inr (sq, qq, mh, temph)" "sq \<noteq> 0"
    "call_demangle_qualified_loop F qq sq (work\<lparr>btypevec := btypevec work @ [None]\<rparr>)
            mh temph [] = Inr (0, workq, mq', tempq, lastq)"
    "numb work < numb workq"
  then show "\<exists>w r. demangle_qualified F work mq res isfuncname append_flag = Inr (0, w, mq', r)"
    by (simp add: demangle_qualified_def register_Btype_def remember_Btype_def numb_def Let_def)
next
  assume a: "is_type \<noteq> 0" "peek (adv mz 1) = Inr CHR ''z''" "tmpl_argvec work = Some vz"
    "consume_count_with_underscores (adv mz 3) = Inr (idz, mz')" "idz \<ge> int (length vz)"
  then show "demangle_template F work mz tname trawname is_type remember
            = Inr (0, if remember \<noteq> 0 then work\<lparr>btypevec := btypevec work @ [None]\<rparr>
                      else work, mz', tname, trawname)"
    by (simp add: demangle_template_def demangle_template_name_def tmpl_parm_ref_def
        register_Btype_def ntmpl_args_def adv_adv Let_def)
qed

theorem backref_index_checked_witness:
  "do_type (level 3) example_work \<lparr>buf = ''PT1'', off = 0\<rparr> []
     = Inr (0, example_work, \<lparr>buf = ''PT1'', off = 3\<rparr>, [])
   \<and> do_type (level 3) example_work \<lparr>buf = ''PB0'', off = 0\<rparr> []
     = Inr (0, example_work, \<lparr>buf = ''PB0'', off = 3\<rparr>, [])
   \<and> do_type (level 3) example_work \<lparr>buf = ''PX11'', off = 0\<rparr> []
     = Inr (0, example_work, \<lparr>buf = ''PX11'', off = 3\<rparr>, [])
   \<and> do_type (step no_fuel) example_work \<lparr>buf = ''T1'', off = 0\<rparr> []
     = Inr (0, example_work, \<lparr>buf = ''T1'', off = 2\<rparr>, [])
   \<and> demangle_args_loop no_fuel 1 example_work \<lparr>buf = ''T1'', off = 0\<rparr> ''foo(''
     = Inr (0, 1, example_work, \<lparr>buf = ''T1'', off = 2\<rparr>, ''foo('')
   \<and> demangle_args (level 8) example_work \<lparr>buf = ''iT5'', off = 0\<rparr> ''foo''
     = Inr (0, example_work\<lparr>typevec := [''i'', ''i''], previous_argument := Some ''int''\<rparr>,
            \<lparr>buf = ''iT5'', off = 3\<rparr>, ''foo(int'')
   \<and> demangle_qualified no_fuel example_work \<lparr>buf = ''K0'', off = 0\<rparr> [] 0 1
     = Inr (0, example_work\<lparr>btypevec := [None]\<rparr>, \<lparr>buf = ''K0'', off = 2\<rparr>, [])
   \<and> demangle_qualified_loop no_fuel 1 1 example_work \<lparr>buf = ''K0'', off = 0\<rparr> [] []
     = Inr (0, example_work, \<lparr>buf = ''K0'', off = 2\<rparr>, [], [])
   \<and> demangle_qualified (level 3) example_work \<lparr>buf = ''Q2K0'', off = 0\<rparr> [] 0 1
     = Inr (0, example_work\<lparr>btypevec := [Some []]\<rparr>, \<lparr>buf = ''Q2K0'', off = 4\<rparr>, [])
   \<and> demangle_template no_fuel example_work \<lparr>buf = ''tzz11'', off = 0\<rparr> [] None 1 0
     = Inr (0, example_work, \<lparr>buf = ''tzz11'', off = 4\<rparr>, [], None)"
  using backref_index_checked
    [where work = example_work and F = no_fuel
       and mT = "\<lparr>buf = ''T1'', off = 0\<rparr>" and ok = 1 and n = 1
       and mT' = "\<lparr>buf = ''T1'', off = 2\<rparr>" and vars = "(tk_none, [], None)"
       and result = "[]"
       and mA = "\<lparr>buf = ''T1'', off = 0\<rparr>" and c = "CHR ''T''" and okr = 1 and r = 1
       and mA' = "\<lparr>buf = ''T1'', off = 1\<rparr>" and okt = 1 and t = 1
       and mA'' = "\<lparr>buf = ''T1'', off = 2\<rparr>" and need_comma = 1 and declp = "''foo(''"
       and worka = example_work and ma = "\<lparr>buf = [], off = 0\<rparr>" and ca = NUL
       and mK = "\<lparr>buf = ''K0'', off = 0\<rparr>" and idxK = 0
       and mK' = "\<lparr>buf = ''K0'', off = 2\<rparr>" and q = 1 and success = 1
       and temp = "[]" and last_name = "[]" and res = "[]" and isfuncname = 0
       and append_flag = 1
       and is_type = 1 and remember = 0 and mz = "\<lparr>buf = ''tzz11'', off = 0\<rparr>"
       and vz = "[Some ''int'']" and idz = 1 and mz' = "\<lparr>buf = ''tzz11'', off = 4\<rparr>"
       and tname = "[]" and trawname = None]
    backref_index_checked
    [where work = example_work and F = "level 3" and m = "\<lparr>buf = ''PT1'', off = 0\<rparr>"
       and s = 0 and tk = 1 and decl = "''*''" and outer = None and work' = example_work
       and m' = "\<lparr>buf = ''PT1'', off = 3\<rparr>" and result = "[]"
       and mq = "\<lparr>buf = ''Q2K0'', off = 0\<rparr>" and sq = 1 and qq = 2
       and mh = "\<lparr>buf = ''Q2K0'', off = 2\<rparr>" and temph = "[]"
       and workq = "example_work\<lparr>btypevec := [None]\<rparr>"
       and mq' = "\<lparr>buf = ''Q2K0'', off = 4\<rparr>" and tempq = "[]" and lastq = "[]"
       and res = "[]" and isfuncname = 0 and append_flag = 1]
    backref_index_checked
    [where work = example_work and F = "level 3" and m = "\<lparr>buf = ''PB0'', off = 0\<rparr>"
       and s = 1 and tk = 1 and decl = "''*''" and outer = None and work' = example_work
       and m' = "\<lparr>buf = ''PB0'', off = 1\<rparr>" and result = "[]"
       and okB = 1 and nB = 0 and mB = "\<lparr>buf = ''PB0'', off = 3\<rparr>"]
    backref_index_checked
    [where work = example_work and F = "level 3" and m = "\<lparr>buf = ''PX11'', off = 0\<rparr>"
       and s = 1 and tk = 1 and decl = "''*''" and outer = None and work' = example_work
       and m' = "\<lparr>buf = ''PX11'', off = 1\<rparr>" and result = "[]"
       and v = "[Some ''int'']" and idx = 1 and mX = "\<lparr>buf = ''PX11'', off = 3\<rparr>"]
    backref_index_checked
    [where F = "level 8" and worka = example_work and ma = "\<lparr>buf = ''iT5'', off = 0\<rparr>"
       and ca = "CHR ''i''" and da = "''foo''" and nc = 1
       and worka' = "example_work\<lparr>typevec := [''i'', ''i''],
                                   previous_argument := Some ''int''\<rparr>"
       and ma' = "\<lparr>buf = ''iT5'', off = 3\<rparr>" and da' = "''foo(int''"]
  by (simp add: eval example_work_def cong: eval_cong)

section \<open>The squangle repeat code\<close>

text \<open>
  Claim C6 as stated does not hold.  A repeat code with no cached argument makes \<^verbatim>\<open>do_arg\<close>
  and \<^verbatim>\<open>demangle_args\<close> fail, but not always the parse: in \<^verbatim>\<open>foo__1AXTPFn2\<close> the code \<^verbatim>\<open>n2\<close>
  is the argument list of a function type that is a template argument of HP aCC, the loop
  of \<^verbatim>\<open>demangle_arm_hp_template\<close> stops at the \<^verbatim>\<open>do_type\<close> that fails, and the result is
  \<^verbatim>\<open>A<>::foo\<close>.  And the replays are not always made: when the byte after the code is a
  back reference \<^verbatim>\<open>T\<close> or \<^verbatim>\<open>N\<close>, its index is read and tested before the pending replays,
  so that \<^verbatim>\<open>in2T9\<close> fails after one replay, with one still pending.
\<close>

theorem squangle_repeat_failure_dropped:
  "cplus_demangle_v2 (level 20) (Some ''foo__1AXTPFn2'') {DMGL_PARAMS, DMGL_HP}
     = Inr (Some ''A<>::foo'')
   \<and> demangle_args (level 9) (work_init {DMGL_GNU, DMGL_PARAMS})
       \<lparr>buf = ''in2T9'', off = 0\<rparr> ''foo''
     = Inr (0, (work_init {DMGL_GNU, DMGL_PARAMS})
                 \<lparr>typevec := [''i''], previous_argument := Some ''int'', nrepeats := 1\<rparr>,
            \<lparr>buf = ''in2T9'', off = 5\<rparr>, ''foo(int, int'')
   \<and> cplus_demangle_v2 (level 20) (Some ''foo__Fin2T9'') {DMGL_PARAMS} = Inr None"
  by (simp add: eval cong: eval_cong)

text \<open>
  While repeats are pending, \<^verbatim>\<open>do_arg\<close> returns the cached argument and decrements the
  counter; it reads no input and calls nothing.  The pending replays are made by the outer
  loop of \<^verbatim>\<open>demangle_args\<close>, or by the inner loop of its branch for \<^verbatim>\<open>T\<close> and \<^verbatim>\<open>N\<close>.
\<close>

lemma do_arg_replay:
  "0 < nrepeats work \<Longrightarrow>
   do_arg F work m result
     = (case previous_argument work of
          None \<Rightarrow> Inr (0, work\<lparr>nrepeats := nrepeats work - 1\<rparr>, m, [])
        | Some prev \<Rightarrow> Inr (1, work\<lparr>nrepeats := nrepeats work - 1\<rparr>, m, prev))"
  by (simp add: do_arg_def Let_def string_appends_def split: option.splits)

lemma do_arg_repeat_code:
  assumes "nrepeats work = 0" and "peek m = Inr CHR ''n''"
    and "consume_count_p (adv m 1) = Inr (c, m')" and "0 < c"
    and "9 < c \<longrightarrow> peek m' = Inr CHR ''_''"
  shows "do_arg (step F) work m result
           = (case previous_argument work of
                None \<Rightarrow>
                  Inr (0, work\<lparr>nrepeats := c - 1\<rparr>, if 9 < c then adv m' 1 else m', [])
              | Some prev \<Rightarrow>
                  Inr (1, work\<lparr>nrepeats := c - 1\<rparr>, if 9 < c then adv m' 1 else m', prev))"
  using assms
  by (subst do_arg_def) (simp add: Let_def do_arg_replay split: option.splits)

lemma replay_loop:
  assumes "peek m = Inr nxt" and "nxt \<noteq> CHR ''N''" and "nxt \<noteq> CHR ''T''"
  shows "nrepeats work = int k \<Longrightarrow> previous_argument work = Some prev \<Longrightarrow>
         demangle_args_loop (level (k + j)) 1 work m declp
           = demangle_args_loop (level j) 1 (work\<lparr>nrepeats := 0\<rparr>) m
               (if PRINT_ARG_TYPES work then declp @ concat (replicate k ('', '' @ prev))
                else declp)"
proof (induction k arbitrary: work declp)
  case 0
  then have "work\<lparr>nrepeats := 0\<rparr> = work" by simp
  then show ?case by simp
next
  case (Suc k)
  let ?w = "work\<lparr>nrepeats := int k\<rparr>"
  let ?d = "if PRINT_ARG_TYPES work then declp @ '', '' @ prev else declp"
  have "demangle_args_loop (step (level (k + j))) 1 work m declp
          = demangle_args_loop (level (k + j)) 1 ?w m ?d"
    using assms Suc.prems
    by (subst demangle_args_loop_def)
      (simp add: do_arg_replay Let_def string_append_def string_appends_def cstr_def NUL_def
        PRINT_ARG_TYPES_def)
  also have "\<dots> = demangle_args_loop (level j) 1 (?w\<lparr>nrepeats := 0\<rparr>) m
               (if PRINT_ARG_TYPES ?w then ?d @ concat (replicate k ('', '' @ prev)) else ?d)"
    using Suc.prems by (intro Suc.IH) simp_all
  finally show ?case by (simp add: PRINT_ARG_TYPES_def)
qed

lemma replay_inner_loop:
  assumes "0 \<le> t" and "t < ntypes work0"
  shows "nrepeats work = int k \<Longrightarrow> previous_argument work = Some prev \<Longrightarrow>
         typevec work = typevec work0 \<Longrightarrow>
         demangle_args_repeat_loop (level (k + j)) r t 1 work declp
           = demangle_args_repeat_loop (level j) r t 1 (work\<lparr>nrepeats := 0\<rparr>)
               (if PRINT_ARG_TYPES work then declp @ concat (replicate k ('', '' @ prev))
                else declp)"
proof (induction k arbitrary: work declp)
  case 0
  then have "work\<lparr>nrepeats := 0\<rparr> = work" by simp
  then show ?case by simp
next
  case (Suc k)
  let ?w = "work\<lparr>nrepeats := int k\<rparr>"
  let ?d = "if PRINT_ARG_TYPES work then declp @ '', '' @ prev else declp"
  have "demangle_args_repeat_loop (step (level (k + j))) r t 1 work declp
          = demangle_args_repeat_loop (level (k + j)) r t 1 ?w ?d"
    using assms Suc.prems
    by (subst demangle_args_repeat_loop_def)
      (simp add: do_arg_replay Let_def string_append_def string_appends_def cstr_def NUL_def
        PRINT_ARG_TYPES_def vec_at_def ntypes_def)
  also have "\<dots> = demangle_args_repeat_loop (level j) r t 1 (?w\<lparr>nrepeats := 0\<rparr>)
               (if PRINT_ARG_TYPES ?w then ?d @ concat (replicate k ('', '' @ prev)) else ?d)"
    using Suc.prems by (intro Suc.IH) simp_all
  finally show ?case by (simp add: PRINT_ARG_TYPES_def)
qed

lemma pending_replays_before_backref:
  assumes "nrepeats work = int (Suc k)" and "previous_argument work = Some prev"
    and "peek m = Inr c" and "c = CHR ''N'' \<or> c = CHR ''T''"
    and "(if c = CHR ''N'' then get_count (adv m 1) else Inr (1, 1, adv m 1)) = Inr (okr, r, m')"
    and "okr \<noteq> 0"
    and "(if (HP_DEMANGLING work \<or> ARM_DEMANGLING work \<or> EDG_DEMANGLING work)
             \<and> ntypes work \<ge> 10
          then ebind (consume_count_p m') (\<lambda>(t, m). Inr (if t \<le> 0 then 0 else 1, t, m))
          else get_count m') = Inr (okt, t, m'')"
    and "okt \<noteq> 0"
    and "t' = (if LUCID_DEMANGLING work \<or> ARM_DEMANGLING work \<or> HP_DEMANGLING work
                 \<or> EDG_DEMANGLING work then t - 1 else t)"
    and "0 \<le> t'" and "t' < ntypes work"
  shows "demangle_args_loop (level (Suc (Suc k + j))) 1 work m declp
           = ebind (demangle_args_repeat_loop (level j) r t' 1 (work\<lparr>nrepeats := 0\<rparr>)
                     (if PRINT_ARG_TYPES work
                      then declp @ concat (replicate (Suc k) ('', '' @ prev)) else declp))
               (\<lambda>(ok, need_comma, work, declp).
                  if ok = 0 then Inr (0, need_comma, work, m'', declp)
                  else demangle_args_loop (level (Suc k + j)) need_comma work m'' declp)"
proof -
  have "demangle_args_loop (step (level (Suc k + j))) 1 work m declp
          = ebind (demangle_args_repeat_loop (level (Suc k + j)) r t' 1 work declp)
              (\<lambda>(ok, need_comma, work, declp).
                 if ok = 0 then Inr (0, need_comma, work, m'', declp)
                 else demangle_args_loop (level (Suc k + j)) need_comma work m'' declp)"
    using assms(1-8,10,11) unfolding assms(9)
    by (subst demangle_args_loop_def)
      (auto simp: Let_def NUL_def simp del: split_paired_All split_paired_Ex cong: if_cong)
  then show ?thesis
    using replay_inner_loop [OF assms(10,11), of work "Suc k" prev j r declp] assms(1,2)
    by simp
qed


lemma repeat_code_iteration:
  assumes "nrepeats work = 0" and "peek m = Inr CHR ''n''"
    and "consume_count_p (adv m 1) = Inr (c, m')" and "0 < c"
    and "9 < c \<longrightarrow> peek m' = Inr CHR ''_''"
  shows "demangle_args_loop (step (step F)) need_comma work m declp
           = (case previous_argument work of
                None \<Rightarrow>
                  Inr (0, need_comma, work\<lparr>nrepeats := c - 1\<rparr>,
                       if 9 < c then adv m' 1 else m',
                       if need_comma \<noteq> 0 \<and> PRINT_ARG_TYPES work then declp @ '', ''
                       else declp)
              | Some prev \<Rightarrow>
                  demangle_args_loop (step F) 1 (work\<lparr>nrepeats := c - 1\<rparr>)
                    (if 9 < c then adv m' 1 else m')
                    (if PRINT_ARG_TYPES work
                     then (if need_comma \<noteq> 0 then declp @ '', '' else declp) @ prev
                     else declp))"
  using assms do_arg_repeat_code [OF assms, of F "[]"]
  by (subst demangle_args_loop_def)
    (simp add: Let_def string_append_def string_appends_def cstr_def NUL_def
      PRINT_ARG_TYPES_def split: option.splits)

lemma squangle_repeat_runs:
  "cplus_demangle_v2 (level 20) (Some ''foo__Fin2'') {DMGL_PARAMS}
     = Inr (Some ''foo(int, int, int)'')
   \<and> cplus_demangle_v2 (level 20) (Some ''foo__Fin2T0'') {DMGL_PARAMS}
       = Inr (Some ''foo(int, int, int, int)'')
   \<and> cplus_demangle_v2 (level 20) (Some ''foo__Fn2i'') {DMGL_PARAMS} = Inr None"
  by (simp add: eval cong: eval_cong)

text \<open>
  Claim C6, amended.  In the order of the statement:

  \<^item> With a counter \<open>nrepeats\<close> that is positive, \<^verbatim>\<open>do_arg\<close> fails when no argument is cached,
    and otherwise returns the cached argument; in both cases the counter is decremented and
    the cursor stays where it was.
  \<^item> On the repeat code \<^verbatim>\<open>n\<close> with the count \<open>c\<close>, \<^verbatim>\<open>do_arg\<close> sets the counter to \<open>c\<close> and does
    the first replay, and the iteration of the outer loop of \<^verbatim>\<open>demangle_args\<close> appends it.
    With no cached argument \<^verbatim>\<open>do_arg\<close> fails, the loop is left with failure, and
    \<^verbatim>\<open>demangle_args\<close> fails when the code is at the head of the list.  With the argument
    \<open>prev\<close> cached and a next byte that is not \<^verbatim>\<open>T\<close> or \<^verbatim>\<open>N\<close>, the outer loop appends \<open>c\<close>
    copies of \<open>prev\<close> in all, each after a separator, and continues behind the code with
    the counter at 0: the fuel it spends on the way is \<open>c\<close>, one unit per replay.
  \<^item> With \<open>k + 1\<close> replays pending at a back reference \<^verbatim>\<open>T\<close> or \<^verbatim>\<open>N\<close>: when the index is out
    of range the loop is left with failure and no replay is made; otherwise the inner loop
    appends the \<open>k + 1\<close> copies first and then goes on with the arguments of the back
    reference.
  \<^item> \<^verbatim>\<open>demangle_args\<close> fails when its loop is left with failure.
\<close>

theorem squangle_repeat_replays:
  "(0 < nrepeats w
      \<longrightarrow> do_arg F w p result
          = (case previous_argument w of
               None \<Rightarrow> Inr (0, w\<lparr>nrepeats := nrepeats w - 1\<rparr>, p, [])
             | Some prev \<Rightarrow> Inr (1, w\<lparr>nrepeats := nrepeats w - 1\<rparr>, p, prev)))
   \<and> (nrepeats work = 0 \<longrightarrow> peek m = Inr CHR ''n''
      \<longrightarrow> consume_count_p (adv m 1) = Inr (c, m') \<longrightarrow> 0 < c
      \<longrightarrow> (9 < c \<longrightarrow> peek m' = Inr CHR ''_'')
      \<longrightarrow> do_arg (step F) work m result
            = (case previous_argument work of
                 None \<Rightarrow>
                   Inr (0, work\<lparr>nrepeats := c - 1\<rparr>, if 9 < c then adv m' 1 else m', [])
               | Some prev \<Rightarrow>
                   Inr (1, work\<lparr>nrepeats := c - 1\<rparr>, if 9 < c then adv m' 1 else m', prev))
        \<and> demangle_args_loop (step (step F)) need_comma work m declp
            = (case previous_argument work of
                 None \<Rightarrow>
                   Inr (0, need_comma, work\<lparr>nrepeats := c - 1\<rparr>,
                        if 9 < c then adv m' 1 else m',
                        if need_comma \<noteq> 0 \<and> PRINT_ARG_TYPES work then declp @ '', ''
                        else declp)
               | Some prev \<Rightarrow>
                   demangle_args_loop (step F) 1 (work\<lparr>nrepeats := c - 1\<rparr>)
                     (if 9 < c then adv m' 1 else m')
                     (if PRINT_ARG_TYPES work
                      then (if need_comma \<noteq> 0 then declp @ '', '' else declp) @ prev
                      else declp))
        \<and> (previous_argument work = None
           \<longrightarrow> demangle_args (step (step (step F))) work m declp
               = Inr (0, work\<lparr>nrepeats := c - 1\<rparr>, if 9 < c then adv m' 1 else m',
                      if PRINT_ARG_TYPES work then declp @ ''('' else declp))
        \<and> (previous_argument work = Some prev
           \<longrightarrow> peek (if 9 < c then adv m' 1 else m') = Inr nxt
           \<longrightarrow> nxt \<noteq> CHR ''N'' \<longrightarrow> nxt \<noteq> CHR ''T''
           \<longrightarrow> demangle_args_loop (level (nat c + Suc j)) 1 work m declp
               = demangle_args_loop (level (Suc j)) 1 work (if 9 < c then adv m' 1 else m')
                   (if PRINT_ARG_TYPES work
                    then declp @ concat (replicate (nat c) ('', '' @ prev)) else declp)))
   \<and> (nrepeats wp = int (Suc k) \<longrightarrow> previous_argument wp = Some prev
      \<longrightarrow> peek mp = Inr cp \<longrightarrow> cp = CHR ''N'' \<or> cp = CHR ''T''
      \<longrightarrow> (if cp = CHR ''N'' then get_count (adv mp 1) else Inr (1, 1, adv mp 1))
            = Inr (okr, r, mp')
      \<longrightarrow> okr \<noteq> 0
      \<longrightarrow> (if (HP_DEMANGLING wp \<or> ARM_DEMANGLING wp \<or> EDG_DEMANGLING wp) \<and> ntypes wp \<ge> 10
           then ebind (consume_count_p mp') (\<lambda>(t, m). Inr (if t \<le> 0 then 0 else 1, t, m))
           else get_count mp') = Inr (okt, t, mp'')
      \<longrightarrow> okt \<noteq> 0
      \<longrightarrow> t' = (if LUCID_DEMANGLING wp \<or> ARM_DEMANGLING wp \<or> HP_DEMANGLING wp
                    \<or> EDG_DEMANGLING wp then t - 1 else t)
      \<longrightarrow> (t' < 0 \<or> ntypes wp \<le> t'
            \<longrightarrow> demangle_args_loop F 1 wp mp dp = Inr (0, 1, wp, mp'', dp))
        \<and> (0 \<le> t' \<longrightarrow> t' < ntypes wp
            \<longrightarrow> demangle_args_loop (level (Suc (Suc k + j))) 1 wp mp dp
                = ebind (demangle_args_repeat_loop (level j) r t' 1 (wp\<lparr>nrepeats := 0\<rparr>)
                          (if PRINT_ARG_TYPES wp
                           then dp @ concat (replicate (Suc k) ('', '' @ prev)) else dp))
                    (\<lambda>(ok, need_comma, work, declp).
                       if ok = 0 then Inr (0, need_comma, work, mp'', declp)
                       else demangle_args_loop (level (Suc k + j)) need_comma work mp''
                              declp)))
   \<and> (peek ma = Inr ca
      \<longrightarrow> call_demangle_args_loop F 0 worka ma
            (if PRINT_ARG_TYPES worka
             then (if ca = NUL then string_append (string_append da ''('') ''void''
                   else string_append da ''('')
             else da) = Inr (0, nc, worka', ma', da')
      \<longrightarrow> demangle_args F worka ma da = Inr (0, worka', ma', da'))"
proof (intro conjI impI)
  assume "0 < nrepeats w"
  then show "do_arg F w p result
          = (case previous_argument w of
               None \<Rightarrow> Inr (0, w\<lparr>nrepeats := nrepeats w - 1\<rparr>, p, [])
             | Some prev \<Rightarrow> Inr (1, w\<lparr>nrepeats := nrepeats w - 1\<rparr>, p, prev))"
    by (rule do_arg_replay)
next
  assume "nrepeats work = 0" "peek m = Inr CHR ''n''"
    "consume_count_p (adv m 1) = Inr (c, m')" "0 < c" "9 < c \<longrightarrow> peek m' = Inr CHR ''_''"
  then show "do_arg (step F) work m result
            = (case previous_argument work of
                 None \<Rightarrow>
                   Inr (0, work\<lparr>nrepeats := c - 1\<rparr>, if 9 < c then adv m' 1 else m', [])
               | Some prev \<Rightarrow>
                   Inr (1, work\<lparr>nrepeats := c - 1\<rparr>, if 9 < c then adv m' 1 else m', prev))"
    by (rule do_arg_repeat_code)
next
  assume "nrepeats work = 0" "peek m = Inr CHR ''n''"
    "consume_count_p (adv m 1) = Inr (c, m')" "0 < c" "9 < c \<longrightarrow> peek m' = Inr CHR ''_''"
  then show "demangle_args_loop (step (step F)) need_comma work m declp
            = (case previous_argument work of
                 None \<Rightarrow>
                   Inr (0, need_comma, work\<lparr>nrepeats := c - 1\<rparr>,
                        if 9 < c then adv m' 1 else m',
                        if need_comma \<noteq> 0 \<and> PRINT_ARG_TYPES work then declp @ '', ''
                        else declp)
               | Some prev \<Rightarrow>
                   demangle_args_loop (step F) 1 (work\<lparr>nrepeats := c - 1\<rparr>)
                     (if 9 < c then adv m' 1 else m')
                     (if PRINT_ARG_TYPES work
                      then (if need_comma \<noteq> 0 then declp @ '', '' else declp) @ prev
                      else declp))"
    by (rule repeat_code_iteration)
next
  assume a: "nrepeats work = 0" "peek m = Inr CHR ''n''"
    "consume_count_p (adv m 1) = Inr (c, m')" "0 < c" "9 < c \<longrightarrow> peek m' = Inr CHR ''_''"
    "previous_argument work = None"
  have "call_demangle_args_loop (step (step (step F))) 0 work m
          (if PRINT_ARG_TYPES work
           then (if CHR ''n'' = NUL then string_append (string_append declp ''('') ''void''
                 else string_append declp ''('')
           else declp)
        = Inr (0, 0, work\<lparr>nrepeats := c - 1\<rparr>, if 9 < c then adv m' 1 else m',
               if PRINT_ARG_TYPES work then declp @ ''('' else declp)"
    using a(6) repeat_code_iteration [OF a(1-5), of F 0]
    by (simp add: NUL_def string_append_def cstr_def)
  with a(2) show "demangle_args (step (step (step F))) work m declp
               = Inr (0, work\<lparr>nrepeats := c - 1\<rparr>, if 9 < c then adv m' 1 else m',
                      if PRINT_ARG_TYPES work then declp @ ''('' else declp)"
    by (rule demangle_args_after_loop)
next
  let ?m2 = "if 9 < c then adv m' 1 else m'"
  let ?w = "work\<lparr>nrepeats := c - 1\<rparr>"
  let ?d = "if PRINT_ARG_TYPES work then declp @ '', '' @ prev else declp"
  assume a: "nrepeats work = 0" "peek m = Inr CHR ''n''"
    "consume_count_p (adv m 1) = Inr (c, m')" "0 < c" "9 < c \<longrightarrow> peek m' = Inr CHR ''_''"
    "previous_argument work = Some prev" "peek ?m2 = Inr nxt" "nxt \<noteq> CHR ''N''"
    "nxt \<noteq> CHR ''T''"
  obtain k where k: "nat c = Suc k" using a(4) by (cases "nat c") auto
  then have c: "c - 1 = int k" by linarith
  have w: "?w\<lparr>nrepeats := 0\<rparr> = work" using a(1) by simp
  have "demangle_args_loop (step (step (level (k + j)))) 1 work m declp
          = demangle_args_loop (step (level (k + j))) 1 ?w ?m2 ?d"
    using a(6) repeat_code_iteration [OF a(1-5), of "level (k + j)" 1 declp] by simp
  then have "demangle_args_loop (level (nat c + Suc j)) 1 work m declp
          = demangle_args_loop (level (k + Suc j)) 1 ?w ?m2 ?d"
    by (simp add: k)
  also have "\<dots> = demangle_args_loop (level (Suc j)) 1 (?w\<lparr>nrepeats := 0\<rparr>) ?m2
               (if PRINT_ARG_TYPES ?w then ?d @ concat (replicate k ('', '' @ prev)) else ?d)"
    using a(6-9) c by (intro replay_loop [of ?m2 nxt]) simp_all
  finally show "demangle_args_loop (level (nat c + Suc j)) 1 work m declp
               = demangle_args_loop (level (Suc j)) 1 work ?m2
                   (if PRINT_ARG_TYPES work
                    then declp @ concat (replicate (nat c) ('', '' @ prev)) else declp)"
    unfolding w by (simp add: k PRINT_ARG_TYPES_def)
next
  assume a: "nrepeats wp = int (Suc k)" "peek mp = Inr cp" "cp = CHR ''N'' \<or> cp = CHR ''T''"
    "(if cp = CHR ''N'' then get_count (adv mp 1) else Inr (1, 1, adv mp 1)) = Inr (okr, r, mp')"
    "okr \<noteq> 0"
    "(if (HP_DEMANGLING wp \<or> ARM_DEMANGLING wp \<or> EDG_DEMANGLING wp) \<and> ntypes wp \<ge> 10
           then ebind (consume_count_p mp') (\<lambda>(t, m). Inr (if t \<le> 0 then 0 else 1, t, m))
           else get_count mp') = Inr (okt, t, mp'')"
    "okt \<noteq> 0"
    "t' = (if LUCID_DEMANGLING wp \<or> ARM_DEMANGLING wp \<or> HP_DEMANGLING wp
                    \<or> EDG_DEMANGLING wp then t - 1 else t)"
    "t' < 0 \<or> ntypes wp \<le> t'"
  then show "demangle_args_loop F 1 wp mp dp = Inr (0, 1, wp, mp'', dp)"
    by (subst demangle_args_loop_def)
      (auto simp: Let_def NUL_def simp del: split_paired_All split_paired_Ex cong: if_cong)
next
  assume "nrepeats wp = int (Suc k)" "previous_argument wp = Some prev"
    "peek mp = Inr cp" "cp = CHR ''N'' \<or> cp = CHR ''T''"
    "(if cp = CHR ''N'' then get_count (adv mp 1) else Inr (1, 1, adv mp 1)) = Inr (okr, r, mp')"
    "okr \<noteq> 0"
    "(if (HP_DEMANGLING wp \<or> ARM_DEMANGLING wp \<or> EDG_DEMANGLING wp) \<and> ntypes wp \<ge> 10
           then ebind (consume_count_p mp') (\<lambda>(t, m). Inr (if t \<le> 0 then 0 else 1, t, m))
           else get_count mp') = Inr (okt, t, mp'')"
    "okt \<noteq> 0"
    "t' = (if LUCID_DEMANGLING wp \<or> ARM_DEMANGLING wp \<or> HP_DEMANGLING wp
                    \<or> EDG_DEMANGLING wp then t - 1 else t)"
    "0 \<le> t'" "t' < ntypes wp"
  then show "demangle_args_loop (level (Suc (Suc k + j))) 1 wp mp dp
                = ebind (demangle_args_repeat_loop (level j) r t' 1 (wp\<lparr>nrepeats := 0\<rparr>)
                          (if PRINT_ARG_TYPES wp
                           then dp @ concat (replicate (Suc k) ('', '' @ prev)) else dp))
                    (\<lambda>(ok, need_comma, work, declp).
                       if ok = 0 then Inr (0, need_comma, work, mp'', declp)
                       else demangle_args_loop (level (Suc k + j)) need_comma work mp''
                              declp)"
    by (rule pending_replays_before_backref)
next
  assume "peek ma = Inr ca"
    "call_demangle_args_loop F 0 worka ma
            (if PRINT_ARG_TYPES worka
             then (if ca = NUL then string_append (string_append da ''('') ''void''
                   else string_append da ''('')
             else da) = Inr (0, nc, worka', ma', da')"
  then show "demangle_args F worka ma da = Inr (0, worka', ma', da')"
    by (rule demangle_args_after_loop)
qed

theorem squangle_repeat_replays_witness:
  "do_arg no_fuel (example_work\<lparr>nrepeats := 2\<rparr>) \<lparr>buf = ''i'', off = 0\<rparr> []
     = Inr (0, example_work\<lparr>nrepeats := 1\<rparr>, \<lparr>buf = ''i'', off = 0\<rparr>, [])
   \<and> do_arg (step no_fuel) (example_work\<lparr>previous_argument := Some ''int''\<rparr>) \<lparr>buf = ''foo__Fin2'', off = 7\<rparr> []
     = Inr (1, (example_work\<lparr>previous_argument := Some ''int''\<rparr>)\<lparr>nrepeats := 1\<rparr>, \<lparr>buf = ''foo__Fin2'', off = 9\<rparr>, ''int'')
   \<and> demangle_args_loop (level 3) 1 (example_work\<lparr>previous_argument := Some ''int''\<rparr>) \<lparr>buf = ''foo__Fin2'', off = 7\<rparr> ''foo(int''
     = Inr (1, 1, (example_work\<lparr>previous_argument := Some ''int''\<rparr>), \<lparr>buf = ''foo__Fin2'', off = 9\<rparr>, ''foo(int, int, int'')
   \<and> demangle_args (step (step (step no_fuel))) example_work \<lparr>buf = ''n2i'', off = 0\<rparr> ''foo''
     = Inr (0, example_work\<lparr>nrepeats := 1\<rparr>, \<lparr>buf = ''n2i'', off = 2\<rparr>, ''foo('')
   \<and> demangle_args_loop no_fuel 1 ((example_work\<lparr>previous_argument := Some ''int''\<rparr>)\<lparr>nrepeats := 1\<rparr>) \<lparr>buf = ''in2T9'', off = 3\<rparr>
       ''foo(int, int''
     = Inr (0, 1, (example_work\<lparr>previous_argument := Some ''int''\<rparr>)\<lparr>nrepeats := 1\<rparr>, \<lparr>buf = ''in2T9'', off = 5\<rparr>, ''foo(int, int'')
   \<and> demangle_args_loop (level 9) 1 ((example_work\<lparr>previous_argument := Some ''int''\<rparr>)\<lparr>nrepeats := 1\<rparr>) \<lparr>buf = ''in2T0'', off = 3\<rparr>
       ''foo(int, int''
     = Inr (1, 1, (example_work\<lparr>previous_argument := Some ''int''\<rparr>)\<lparr>typevec := [''i'', ''i'']\<rparr>, \<lparr>buf = ''in2T0'', off = 5\<rparr>,
            ''foo(int, int, int, int'')
   \<and> demangle_args (level 9) example_work \<lparr>buf = ''in2T9'', off = 0\<rparr> ''foo''
     = Inr (0, (example_work\<lparr>previous_argument := Some ''int''\<rparr>)\<lparr>typevec := [''i'', ''i''], nrepeats := 1\<rparr>,
            \<lparr>buf = ''in2T9'', off = 5\<rparr>, ''foo(int, int'')"
  using squangle_repeat_replays
    [where w = "example_work\<lparr>nrepeats := 2\<rparr>" and F = no_fuel
       and p = "\<lparr>buf = ''i'', off = 0\<rparr>" and result = "[]"
       and work = "(example_work\<lparr>previous_argument := Some ''int''\<rparr>)" and m = "\<lparr>buf = ''foo__Fin2'', off = 7\<rparr>" and c = 2
       and m' = "\<lparr>buf = ''foo__Fin2'', off = 9\<rparr>" and need_comma = 1
       and declp = "''foo(int''" and prev = "''int''" and nxt = NUL and j = 0
       and wp = "(example_work\<lparr>previous_argument := Some ''int''\<rparr>)\<lparr>nrepeats := 1\<rparr>" and k = 0
       and mp = "\<lparr>buf = ''in2T9'', off = 3\<rparr>" and cp = "CHR ''T''" and okr = 1 and r = 1
       and mp' = "\<lparr>buf = ''in2T9'', off = 4\<rparr>" and okt = 1 and t = 9
       and mp'' = "\<lparr>buf = ''in2T9'', off = 5\<rparr>" and t' = 9 and dp = "''foo(int, int''"]
    squangle_repeat_replays
    [where work = example_work and m = "\<lparr>buf = ''n2i'', off = 0\<rparr>" and c = 2
       and m' = "\<lparr>buf = ''n2i'', off = 2\<rparr>" and F = no_fuel and declp = "''foo''"]
    squangle_repeat_replays
    [where wp = "(example_work\<lparr>previous_argument := Some ''int''\<rparr>)\<lparr>nrepeats := 1\<rparr>" and k = 0 and prev = "''int''"
       and mp = "\<lparr>buf = ''in2T0'', off = 3\<rparr>" and cp = "CHR ''T''" and okr = 1 and r = 1
       and mp' = "\<lparr>buf = ''in2T0'', off = 4\<rparr>" and okt = 1 and t = 0
       and mp'' = "\<lparr>buf = ''in2T0'', off = 5\<rparr>" and t' = 0 and dp = "''foo(int, int''"
       and j = 7]
    squangle_repeat_replays
    [where F = "level 9" and worka = example_work and ma = "\<lparr>buf = ''in2T9'', off = 0\<rparr>"
       and ca = "CHR ''i''" and da = "''foo''" and nc = 1
       and worka' = "(example_work\<lparr>previous_argument := Some ''int''\<rparr>)\<lparr>typevec := [''i'', ''i''], nrepeats := 1\<rparr>"
       and ma' = "\<lparr>buf = ''in2T9'', off = 5\<rparr>" and da' = "''foo(int, int''"]
  by (simp add: eval example_work_def numeral_2_eq_2 cong: eval_cong)

section \<open>The Java option\<close>

text \<open>
  The option is tested in three places of the code, of which the scope separator is one.
  With the option, \<^verbatim>\<open>do_type\<close> does not print the \<^verbatim>\<open>*\<close> of a pointer, so that the parentheses
  of a pointer to function are not printed either, and \<^verbatim>\<open>demangle_template\<close> prints the
  template \<^verbatim>\<open>JArray<T>\<close> as \<^verbatim>\<open>T[]\<close>.  None of these outputs holds a scope separator.  And
  \<^verbatim>\<open>arm_special\<close> prepends the literal \<^verbatim>\<open>::\<close>, with the option as without it.  So the
  outputs with and without the option differ in more than the separator, which is what
  claim C8 excludes; how they differ on every input is not settled here.
\<close>

lemma java_changes_pointers_and_arrays:
  "cplus_demangle_v2 (level 20) (Some ''foo__FPi'') {DMGL_PARAMS} = Inr (Some ''foo(int *)'')
   \<and> cplus_demangle_v2 (level 20) (Some ''foo__FPi'') {DMGL_PARAMS, DMGL_JAVA}
       = Inr (Some ''foo(int)'')
   \<and> cplus_demangle_v2 (level 20) (Some ''foo__Ft6JArray1Zi'') {DMGL_PARAMS}
       = Inr (Some ''foo(JArray<int>)'')
   \<and> cplus_demangle_v2 (level 20) (Some ''foo__Ft6JArray1Zi'') {DMGL_PARAMS, DMGL_JAVA}
       = Inr (Some ''foo(int[])'')
   \<and> cplus_demangle_v2 (level 20) (Some ''foo__FPFi_v'') {DMGL_PARAMS}
       = Inr (Some ''foo(void (*)(int))'')
   \<and> cplus_demangle_v2 (level 20) (Some ''foo__FPFi_v'') {DMGL_PARAMS, DMGL_JAVA}
       = Inr (Some ''foo(void (int))'')
   \<and> cplus_demangle_v2 (level 20) (Some ''__vtbl__3foo__3bar'') {DMGL_ARM, DMGL_JAVA}
       = Inr (Some ''bar::foo virtual table'')"
  by (simp add: eval cong: eval_cong)

text \<open>
  The run on a name of which some bytes are variables: the fuel \<open>n + 10\<close> is spent from the
  constant, and a C string without NUL is all of its bytes.
\<close>

lemma level_add_numeral: "level (n + numeral k) = step (level (n + pred_numeral k))"
  by (simp add: numeral_eq_Suc)

lemma level_add_1: "level (n + 1) = step (level n)"
  by simp

lemma class_name_cases:
  assumes "cls \<noteq> []" and "length cls \<le> 9"
  obtains "length cls = 1" | "length cls = 2" | "length cls = 3" | "length cls = 4"
    | "length cls = 5" | "length cls = 6" | "length cls = 7" | "length cls = 8"
    | "length cls = 9"
proof -
  have "0 < length cls" using assms(1) by simp
  with assms(2) have "length cls = 1 \<or> length cls = 2 \<or> length cls = 3 \<or> length cls = 4
      \<or> length cls = 5 \<or> length cls = 6 \<or> length cls = 7 \<or> length cls = 8 \<or> length cls = 9"
    by arith
  then show ?thesis using that by blast
qed

lemma takeWhile_no_NUL: "CHR 0x00 \<notin> set s \<Longrightarrow> takeWhile (\<lambda>c. c \<noteq> CHR 0x00) s = s"
  by (induction s) auto

lemma takeWhile_no_NUL_append:
  "CHR 0x00 \<notin> set s
   \<Longrightarrow> takeWhile (\<lambda>c. c \<noteq> CHR 0x00) (s @ t) = s @ takeWhile (\<lambda>c. c \<noteq> CHR 0x00) t"
  by (induction s) auto

text \<open>
  One family of names on which the separator is the only difference.  For every class name
  \<open>cls\<close> of one to nine bytes, none of them NUL and the first one not a digit, the member
  \<^verbatim>\<open>foo\<close> of \<open>cls\<close> is demangled to \<open>cls\<close>, the separator and \<^verbatim>\<open>foo(void)\<close>, with any fuel from
  10 on.
\<close>

lemma java_scope_separator:
  assumes "cls \<noteq> []" and "length cls \<le> 9" and "NUL \<notin> set cls" and "\<not> isdigit (hd cls)"
  shows "cplus_demangle_v2 (level (n + 10)) (Some (''foo__'' @ show_nat (length cls) @ cls))
           {DMGL_PARAMS} = Inr (Some (cls @ ''::foo(void)''))
         \<and> cplus_demangle_v2 (level (n + 10)) (Some (''foo__'' @ show_nat (length cls) @ cls))
             {DMGL_PARAMS, DMGL_JAVA} = Inr (Some (cls @ ''.foo(void)''))"
proof -
  obtain c cs where cls: "cls = c # cs" using assms(1) by (cases cls) auto
  have c: "\<not> isdigit c" "c \<noteq> NUL" "NUL \<notin> set cs"
    using assms by (auto simp: cls NUL_def)
  note ev = eval level_add_numeral level_add_1 char_of_def bit_Suc_0_iff
    takeWhile_no_NUL takeWhile_no_NUL_append
  have plain: "cplus_demangle_v2 (level (n + 10)) (Some (''foo__'' @ show_nat (length cls) @ cls))
           {DMGL_PARAMS} = Inr (Some (cls @ ''::foo(void)''))"
    using assms(1,2)
  proof (cases rule: class_name_cases)
    case 1 then show ?thesis using c unfolding cls by (simp add: ev cong: eval_cong)
  next
    case 2 then show ?thesis using c unfolding cls by (simp add: ev cong: eval_cong)
  next
    case 3 then show ?thesis using c unfolding cls by (simp add: ev cong: eval_cong)
  next
    case 4 then show ?thesis using c unfolding cls by (simp add: ev cong: eval_cong)
  next
    case 5 then show ?thesis using c unfolding cls by (simp add: ev cong: eval_cong)
  next
    case 6 then show ?thesis using c unfolding cls by (simp add: ev cong: eval_cong)
  next
    case 7 then show ?thesis using c unfolding cls by (simp add: ev cong: eval_cong)
  next
    case 8 then show ?thesis using c unfolding cls by (simp add: ev cong: eval_cong)
  next
    case 9 then show ?thesis using c unfolding cls by (simp add: ev cong: eval_cong)
  qed
  have java: "cplus_demangle_v2 (level (n + 10)) (Some (''foo__'' @ show_nat (length cls) @ cls))
           {DMGL_PARAMS, DMGL_JAVA} = Inr (Some (cls @ ''.foo(void)''))"
    using assms(1,2)
  proof (cases rule: class_name_cases)
    case 1 then show ?thesis using c unfolding cls by (simp add: ev cong: eval_cong)
  next
    case 2 then show ?thesis using c unfolding cls by (simp add: ev cong: eval_cong)
  next
    case 3 then show ?thesis using c unfolding cls by (simp add: ev cong: eval_cong)
  next
    case 4 then show ?thesis using c unfolding cls by (simp add: ev cong: eval_cong)
  next
    case 5 then show ?thesis using c unfolding cls by (simp add: ev cong: eval_cong)
  next
    case 6 then show ?thesis using c unfolding cls by (simp add: ev cong: eval_cong)
  next
    case 7 then show ?thesis using c unfolding cls by (simp add: ev cong: eval_cong)
  next
    case 8 then show ?thesis using c unfolding cls by (simp add: ev cong: eval_cong)
  next
    case 9 then show ?thesis using c unfolding cls by (simp add: ev cong: eval_cong)
  qed
  from plain java show ?thesis by (rule conjI)
qed

lemma java_scope_separator_example:
  "cplus_demangle_v2 (level 10) (Some ''foo__3bar'') {DMGL_PARAMS}
     = Inr (Some ''bar::foo(void)'')
   \<and> cplus_demangle_v2 (level 10) (Some ''foo__3bar'') {DMGL_PARAMS, DMGL_JAVA}
       = Inr (Some ''bar.foo(void)'')"
  using java_scope_separator [of "''bar''" 0]
  by (simp add: NUL_def isdigit_def show_nat.simps char_of_def bit_Suc_0_iff)

end
